(* ===== verification/Prelude.thy ===== *)
theory Prelude
  imports Main "HOL-Library.Sublist"
begin

text \<open>
  Shared vocabulary of the development. The TypeScript sources manipulate strings with
  \<open>String.prototype.trim\<close>, \<open>toLowerCase\<close>, \<open>startsWith\<close>, \<open>includes\<close> and
  \<open>slice\<close>, test strings for truthiness and default optional values with \<open>??\<close>.
  This theory models those operations on HOL strings (lists of 8-bit characters) and
  proves the algebra the components rely on: trimming and lower-casing are idempotent
  and commute, \<open>startsWith\<close> and \<open>includes\<close> are the library's \<open>prefix\<close> and
  \<open>sublist\<close>.

  The model is exact on ASCII text. JavaScript's \<open>trim\<close> also strips non-ASCII white
  space (U+00A0, U+FEFF, the Unicode space separators) and \<open>toLowerCase\<close> also maps
  non-ASCII letters; a character here is one byte, so neither is modelled.
\<close>

named_theorems js_string_simps "evaluation rules of the JavaScript string model"

section \<open>Optional values\<close>

text \<open>\<open>x ?? d\<close>: the value of \<open>x\<close>, or \<open>d\<close> when \<open>x\<close> is null or undefined.\<close>

abbreviation nullish :: "'a option \<Rightarrow> 'a \<Rightarrow> 'a" where
  "nullish x d \<equiv> (case x of None \<Rightarrow> d | Some v \<Rightarrow> v)"

section \<open>Characters\<close>

text \<open>
  The white space that \<open>trim\<close> removes, restricted to ASCII: TAB, LF, VT, FF, CR
  (codes 9 to 13) and SPACE (32).
\<close>

definition is_js_space :: "char \<Rightarrow> bool" where
  "is_js_space c \<longleftrightarrow> (let n = (of_char c :: nat) in n = 32 \<or> (9 \<le> n \<and> n \<le> 13))"

text \<open>\<open>toLowerCase\<close> on one ASCII character: A to Z (65 to 90) move up by 32.\<close>

definition lower_char :: "char \<Rightarrow> char" where
  "lower_char c =
     (let n = (of_char c :: nat) in if 65 \<le> n \<and> n \<le> 90 then char_of (n + 32) else c)"

section \<open>String operations\<close>

definition trim_start :: "string \<Rightarrow> string" where
  "trim_start s = dropWhile is_js_space s"

definition trim_end :: "string \<Rightarrow> string" where
  "trim_end s = rev (dropWhile is_js_space (rev s))"

text \<open>\<open>s.trim()\<close>\<close>

definition js_trim :: "string \<Rightarrow> string" where
  "js_trim s = trim_end (trim_start s)"

text \<open>\<open>s.toLowerCase()\<close>\<close>

definition js_lower :: "string \<Rightarrow> string" where
  "js_lower s = map lower_char s"

text \<open>\<open>s.startsWith(p)\<close>, character by character.\<close>

fun starts_with :: "'a list \<Rightarrow> 'a list \<Rightarrow> bool" where
  "starts_with s [] = True"
| "starts_with [] (c # cs) = False"
| "starts_with (x # xs) (c # cs) = (x = c \<and> starts_with xs cs)"

text \<open>\<open>s.includes(t)\<close>: \<open>t\<close> starts at some position of \<open>s\<close>.\<close>

fun js_includes :: "'a list \<Rightarrow> 'a list \<Rightarrow> bool" where
  "js_includes [] t = (t = [])"
| "js_includes (x # xs) t = (starts_with (x # xs) t \<or> js_includes xs t)"

text \<open>
  \<open>String(e).trim().toLowerCase()\<close>: the normal form the sources give to e-mail
  addresses and allow-list entries.
\<close>

definition norm_lower_trim :: "string \<Rightarrow> string" where
  "norm_lower_trim s = js_lower (js_trim s)"

section \<open>Lemmas on characters\<close>

lemma lower_char_idem [simp]: "lower_char (lower_char c) = lower_char c"
  by (simp add: lower_char_def Let_def)

lemma is_js_space_lower_char [simp]: "is_js_space (lower_char c) = is_js_space c"
  by (auto simp add: lower_char_def is_js_space_def Let_def)

section \<open>Lemmas on lists\<close>

lemma dropWhile_idem: "dropWhile P (dropWhile P xs) = dropWhile P xs"
  by (induction xs) auto

lemma rev_dropWhile_rev_Cons:
  "\<not> P y \<Longrightarrow> \<exists>zs. rev (dropWhile P (rev (y # m))) = y # zs"
  by (auto simp: dropWhile_append) (metis rev_rev_ident)

text \<open>Stripping a list at both ends does not depend on which end goes first.\<close>

lemma dropWhile_rev_dropWhile_comm:
  "dropWhile P (rev (dropWhile P (rev xs))) = rev (dropWhile P (rev (dropWhile P xs)))"
proof (cases "dropWhile P xs")
  case Nil
  then have "\<forall>x\<in>set xs. P x" by simp
  then have "dropWhile P (rev xs) = []" by simp
  with Nil show ?thesis by (simp del: dropWhile_eq_Nil_conv)
next
  case (Cons y m)
  define a where "a = takeWhile P xs"
  have xs: "xs = a @ y # m" using Cons takeWhile_dropWhile_id a_def by metis
  have a: "\<forall>x\<in>set a. P x" unfolding a_def by (meson set_takeWhileD)
  have y: "\<not> P y" using Cons by (metis dropWhile_eq_Cons_conv)
  obtain zs where w: "rev (dropWhile P (rev (y # m))) = y # zs"
    using rev_dropWhile_rev_Cons [of P y m] y by blast
  have "dropWhile P (rev xs) = dropWhile P (rev (y # m)) @ rev a"
    using y by (simp add: xs dropWhile_append)
  then have "rev (dropWhile P (rev xs)) = a @ y # zs" using w by simp
  then have "dropWhile P (rev (dropWhile P (rev xs))) = y # zs"
    using a y by (simp add: dropWhile_append)
  then show ?thesis using Cons w by simp
qed

section \<open>Lemmas on the string operations\<close>

lemma trim_start_end_comm: "trim_start (trim_end s) = trim_end (trim_start s)"
  unfolding trim_start_def trim_end_def by (rule dropWhile_rev_dropWhile_comm)

lemma trim_end_idem [simp]: "trim_end (trim_end s) = trim_end s"
  by (simp add: trim_end_def dropWhile_idem)

lemma js_trim_trim_end [simp]: "js_trim (trim_end s) = js_trim s"
  by (simp add: js_trim_def trim_start_end_comm)

lemma js_trim_idem [simp]: "js_trim (js_trim s) = js_trim s"
proof -
  have "js_trim (js_trim s) = trim_end (trim_start (trim_end (trim_start s)))"
    by (simp add: js_trim_def)
  also have "\<dots> = trim_end (trim_end (trim_start (trim_start s)))"
    by (simp add: trim_start_end_comm)
  also have "\<dots> = js_trim s"
    by (simp add: js_trim_def trim_start_def trim_end_def dropWhile_idem)
  finally show ?thesis .
qed

lemma js_lower_idem [simp]: "js_lower (js_lower s) = js_lower s"
  by (simp add: js_lower_def comp_def)

lemma js_lower_Nil_iff [simp]: "js_lower s = [] \<longleftrightarrow> s = []"
  by (simp add: js_lower_def)

lemma length_js_lower [simp]: "length (js_lower s) = length s"
  by (simp add: js_lower_def)

lemma js_lower_append [simp]: "js_lower (s @ t) = js_lower s @ js_lower t"
  by (simp add: js_lower_def)

text \<open>Lower-casing keeps white space where it is, so it commutes with trimming.\<close>

lemma js_trim_lower_comm: "js_trim (js_lower s) = js_lower (js_trim s)"
proof -
  have sp: "is_js_space \<circ> lower_char = is_js_space" by (rule ext) simp
  show ?thesis
    by (simp add: js_trim_def trim_start_def trim_end_def js_lower_def
        dropWhile_map rev_map sp)
qed

lemma norm_lower_trim_idem [simp]: "norm_lower_trim (norm_lower_trim s) = norm_lower_trim s"
  by (simp add: norm_lower_trim_def js_trim_lower_comm [symmetric])

text \<open>\<open>toLowerCase().trim()\<close> and \<open>trim().toLowerCase()\<close> agree.\<close>

lemma norm_lower_trim_swap: "js_trim (js_lower s) = norm_lower_trim s"
  by (simp add: norm_lower_trim_def js_trim_lower_comm)

lemma js_trim_no_space_ends:
  assumes "js_trim s = c # cs"
  shows "\<not> is_js_space c \<and> \<not> is_js_space (last (c # cs))"
proof -
  let ?t = "trim_start s"
  have tl: "js_trim s = rev (dropWhile is_js_space (rev ?t))"
    by (simp add: js_trim_def trim_end_def)
  have "js_trim s = trim_start (trim_end s)"
    by (simp add: js_trim_def trim_start_end_comm)
  then have "dropWhile is_js_space (trim_end s) = c # cs"
    using assms by (simp add: trim_start_def)
  then have c: "\<not> is_js_space c" by (metis dropWhile_eq_Cons_conv)
  from assms tl have "dropWhile is_js_space (rev ?t) = rev (c # cs)"
    by (metis rev_rev_ident)
  then have "\<not> is_js_space (hd (rev (c # cs)))"
    by (metis dropWhile_eq_Cons_conv list.sel(1) rev_is_Nil_conv list.distinct(1)
        neq_Nil_conv)
  then have "\<not> is_js_space (last (c # cs))" by (metis hd_rev)
  then show ?thesis using c by blast
qed

text \<open>The character-level \<open>startsWith\<close> and \<open>includes\<close> are the library's notions.\<close>

lemma starts_with_prefix [simp]: "starts_with s p \<longleftrightarrow> prefix p s"
  by (induction s p rule: starts_with.induct) auto

lemma js_includes_sublist [simp]: "js_includes s t \<longleftrightarrow> sublist t s"
  by (induction s) (auto simp: sublist_Cons_right)

lemma js_includes_lower:
  "js_includes s t \<Longrightarrow> js_includes (js_lower s) (js_lower t)"
  by (auto simp: js_lower_def sublist_def) (metis map_append)

end
