(* ===== verification/Config.thy ===== *)
theory Config
  imports Prelude
begin

text \<open>
  The configuration the Microsoft 365 channel reads: the channel section validated by
  \<open>Microsoft365ConfigSchema\<close> (\<open>extensions/microsoft365/src/channel.ts\<close>), the part of
  the OpenClaw configuration that holds it (\<open>cfg.channels.microsoft365\<close>), the agent
  model table read by \<open>resolveExtraParams\<close> and the session store path. Optional fields
  of the schema are \<open>option\<close> values; a JavaScript object with string keys whose key
  order is observable (\<open>Object.keys\<close>, spreads) is an association list.
\<close>

section \<open>The channel configuration\<close>

datatype dm_policy = Open | Pairing | Allowlist

text \<open>
  \<open>Microsoft365ConfigSchema\<close>, every field optional. The \<open>webhook\<close> sub-object
  (port, path, public URL) is read only by the mail monitor, which is not among the
  sources; it is carried along unchanged.
\<close>

record webhook_config =
  webhook_port :: "int option"
  webhook_path :: "string option"
  webhook_public_url :: "string option"

record m365_config =
  m365_enabled :: "bool option"
  m365_client_id :: "string option"
  m365_client_secret :: "string option"
  m365_tenant_id :: "string option"
  m365_refresh_token :: "string option"
  m365_access_token :: "string option"
  m365_token_expires_at :: "int option"
  m365_user_email :: "string option"
  m365_webhook :: "webhook_config option"
  m365_poll_interval_ms :: "int option"
  m365_folders :: "string list option"
  m365_allow_from :: "string list option"
  m365_dm_policy :: "dm_policy option"

text \<open>The empty object \<open>{}\<close>: what a spread of an undefined section yields.\<close>

definition m365_empty :: m365_config where
  "m365_empty = \<lparr>m365_enabled = None, m365_client_id = None, m365_client_secret = None,
     m365_tenant_id = None, m365_refresh_token = None, m365_access_token = None,
     m365_token_expires_at = None, m365_user_email = None, m365_webhook = None, m365_poll_interval_ms = None,
     m365_folders = None, m365_allow_from = None, m365_dm_policy = None\<rparr>"

section \<open>The OpenClaw configuration\<close>

text \<open>
  The model parameters of one model (\<open>agents.defaults.models[key].params\<close>): a
  JavaScript object of unknown values, see theory \<open>ExtraParams\<close> for its values.
  Here only the shape matters: \<open>cfg.channels\<close> is a keyed object of channel sections.
\<close>

record 'p openclaw_config =
  cfg_channels :: "(string \<times> m365_config) list option"
  cfg_models :: "(string \<times> 'p) list option"
  cfg_session_store :: "string option"

text \<open>\<open>cfg.channels?.microsoft365\<close>\<close>

definition m365_of :: "'p openclaw_config \<Rightarrow> m365_config option" where
  "m365_of cfg = (case cfg_channels cfg of None \<Rightarrow> None | Some chs \<Rightarrow> map_of chs ''microsoft365'')"

section \<open>Credentials\<close>

text \<open>
  \<open>resolveCredentials(m365)?.refreshToken\<close> as a truth value. \<open>resolveCredentials\<close>
  lives in \<open>graph-client.ts\<close>, which is not part of the sources; following the
  specification's notion of a configured channel, the credentials carry a refresh token
  exactly when the section configures a non-empty one.
\<close>

definition has_refresh_token :: "m365_config option \<Rightarrow> bool" where
  "has_refresh_token m =
     (case m of None \<Rightarrow> False
      | Some c \<Rightarrow> (case m365_refresh_token c of None \<Rightarrow> False | Some t \<Rightarrow> t \<noteq> []))"

text \<open>\<open>m365?.dmPolicy ?? "pairing"\<close>: the policy defaults to pairing.\<close>

definition resolve_dm_policy :: "m365_config option \<Rightarrow> dm_policy" where
  "resolve_dm_policy m = (case m of None \<Rightarrow> Pairing | Some c \<Rightarrow> nullish (m365_dm_policy c) Pairing)"

lemma resolve_dm_policy_default [simp]:
  "resolve_dm_policy None = Pairing"
  "m365_dm_policy c = None \<Longrightarrow> resolve_dm_policy (Some c) = Pairing"
  "m365_dm_policy c = Some p \<Longrightarrow> resolve_dm_policy (Some c) = p"
  by (simp_all add: resolve_dm_policy_def)

lemma has_refresh_token_None [simp]: "\<not> has_refresh_token None"
  by (simp add: has_refresh_token_def)

end
