(* ===== verification/AllowList.thy ===== *)
theory AllowList
  imports Config
begin

text \<open>
  The allow-list resolver: how the channel turns the configured \<open>allowFrom\<close> entries
  and the entries approved through pairing (the allow-from store) into the list a sender
  is checked against (\<open>handleIncomingMail\<close>, \<open>channel.ts\<close> lines 371 to 374), and the
  other readers of \<open>allowFrom\<close>: \<open>config.resolveAllowFrom\<close>,
  \<open>config.formatAllowFrom\<close>, \<open>pairing.normalizeAllowEntry\<close> and
  \<open>directory.listPeers\<close>. The lemmas show that every entry of the resolved list is in
  normal form (trimmed, lower case, non-empty), that normalising is idempotent, that a
  failing store read leaves exactly the static entries, and what \<open>listPeers\<close> returns.
\<close>

section \<open>Definitions\<close>

text \<open>\<open>config.resolveAllowFrom\<close>: \<open>m365?.allowFrom ?? []\<close>.\<close>

definition resolveAllowFrom :: "m365_config option \<Rightarrow> string list" where
  "resolveAllowFrom m = (case m of None \<Rightarrow> [] | Some c \<Rightarrow> nullish (m365_allow_from c) [])"

text \<open>
  \<open>config.formatAllowFrom\<close>:
  \<open>allowFrom.map(e => String(e).trim().toLowerCase()).filter(Boolean)\<close>. The same
  expression normalises the configured and the stored entries in
  \<open>handleIncomingMail\<close>.
\<close>

definition formatAllowFrom :: "string list \<Rightarrow> string list" where
  "formatAllowFrom xs = filter (\<lambda>e. e \<noteq> []) (map norm_lower_trim xs)"

text \<open>\<open>pairing.normalizeAllowEntry\<close>: \<open>entry.toLowerCase().trim()\<close>.\<close>

definition normalizeAllowEntry :: "string \<Rightarrow> string" where
  "normalizeAllowEntry e = js_trim (js_lower e)"

text \<open>
  The allow list of \<open>handleIncomingMail\<close>: the normalised configured entries, then the
  normalised store entries. The store read is
  \<open>readAllowFromStore(CHANNEL_ID).catch(() => [])\<close>: \<open>None\<close> is a rejected read.
\<close>

definition effective_allow_from :: "m365_config option \<Rightarrow> string list option \<Rightarrow> string list" where
  "effective_allow_from m store =
     formatAllowFrom (resolveAllowFrom m) @ formatAllowFrom (nullish store [])"

text \<open>
  \<open>directory.listPeers\<close>: the normalised configured entries that contain the
  normalised query (all of them for an empty query), at most \<open>limit\<close> of them when
  \<open>limit\<close> is positive (\<open>slice(0, limit)\<close> truncates a fractional limit; the limit is
  modelled as an integer), each as a peer of kind \<open>user\<close>.
\<close>

datatype peer_kind = PeerUser

definition listPeers :: "m365_config option \<Rightarrow> string option \<Rightarrow> int option \<Rightarrow> (peer_kind \<times> string) list" where
  "listPeers m query limit =
     (let q = (case query of None \<Rightarrow> [] | Some s \<Rightarrow> js_lower (js_trim s));
          ids = filter (\<lambda>e. if q \<noteq> [] then js_includes e q else True)
                  (formatAllowFrom (resolveAllowFrom m));
          ids' = (case limit of Some l \<Rightarrow> if 0 < l then take (nat l) ids else ids | None \<Rightarrow> ids)
      in map (\<lambda>i. (PeerUser, i)) ids')"

section \<open>Normal form of entries\<close>

definition allow_entry_normal :: "string \<Rightarrow> bool" where
  "allow_entry_normal e \<longleftrightarrow> e \<noteq> [] \<and> norm_lower_trim e = e"

lemma set_formatAllowFrom:
  "e \<in> set (formatAllowFrom xs) \<longleftrightarrow> (\<exists>x\<in>set xs. e = norm_lower_trim x) \<and> e \<noteq> []"
  by (auto simp: formatAllowFrom_def)

lemma formatAllowFrom_normal:
  "e \<in> set (formatAllowFrom xs) \<Longrightarrow> allow_entry_normal e"
  by (auto simp: set_formatAllowFrom allow_entry_normal_def)

lemma formatAllowFrom_append [simp]:
  "formatAllowFrom (xs @ ys) = formatAllowFrom xs @ formatAllowFrom ys"
  by (simp add: formatAllowFrom_def)

lemma formatAllowFrom_Cons:
  "formatAllowFrom (x # xs) =
     (if norm_lower_trim x = [] then formatAllowFrom xs else norm_lower_trim x # formatAllowFrom xs)"
  by (simp add: formatAllowFrom_def)

lemma formatAllowFrom_Nil [simp]: "formatAllowFrom [] = []"
  by (simp add: formatAllowFrom_def)

lemma formatAllowFrom_mono:
  "set xs \<subseteq> set ys \<Longrightarrow> set (formatAllowFrom xs) \<subseteq> set (formatAllowFrom ys)"
  by (auto simp: formatAllowFrom_def)

lemma normalizeAllowEntry_eq: "normalizeAllowEntry e = norm_lower_trim e"
  by (simp add: normalizeAllowEntry_def norm_lower_trim_swap)

lemma set_effective_allow_from:
  "set (effective_allow_from m store) =
     set (formatAllowFrom (resolveAllowFrom m)) \<union> set (formatAllowFrom (nullish store []))"
  by (simp add: effective_allow_from_def)

lemma formatAllowFrom_idem: "formatAllowFrom (formatAllowFrom xs) = formatAllowFrom xs"
  by (induction xs) (simp_all add: formatAllowFrom_Cons)

lemmas allow_list_simps = effective_allow_from_def resolveAllowFrom_def formatAllowFrom_def

section \<open>Properties\<close>

text \<open>
  C6. Normalisation of allow-list entries is idempotent and yields normal forms: every
  entry \<open>formatAllowFrom\<close> returns is non-empty, trimmed and lower case, is left
  unchanged by \<open>pairing.normalizeAllowEntry\<close> (which lower-cases before trimming), and
  normalising the result again changes nothing.
\<close>

theorem formatAllowFrom_normal_form:
  "formatAllowFrom (formatAllowFrom xs) = formatAllowFrom xs \<and>
   list_all (\<lambda>e. allow_entry_normal e \<and> normalizeAllowEntry e = e) (formatAllowFrom xs)"
proof -
  have "list_all (\<lambda>e. allow_entry_normal e \<and> normalizeAllowEntry e = e) (formatAllowFrom xs)"
    by (auto simp: list_all_iff normalizeAllowEntry_eq allow_entry_normal_def
        dest: formatAllowFrom_normal)
  then show ?thesis by (simp add: formatAllowFrom_idem)
qed

text \<open>
  C17. \<open>directory.listPeers\<close> returns configured entries only, in their configured order
  and normalised, each containing the normalised query, and no more than a positive
  limit.
\<close>

theorem listPeers_spec:
  "subseq (map snd (listPeers m query limit)) (formatAllowFrom (resolveAllowFrom m)) \<and>
   list_all (\<lambda>i. sublist (case query of None \<Rightarrow> [] | Some s \<Rightarrow> norm_lower_trim s) i) (map snd (listPeers m query limit)) \<and>
   (case limit of None \<Rightarrow> True | Some l \<Rightarrow> 0 < l \<longrightarrow> length (listPeers m query limit) \<le> nat l)"
proof -
  let ?q = "case query of None \<Rightarrow> [] | Some s \<Rightarrow> js_lower (js_trim s)"
  let ?qn = "case query of None \<Rightarrow> [] | Some s \<Rightarrow> norm_lower_trim s"
  let ?ids = "filter (sublist ?qn) (formatAllowFrom (resolveAllowFrom m))"
  have f: "(\<lambda>e. if ?q \<noteq> [] then js_includes e ?q else True) = sublist ?qn"
    by (rule ext) (simp add: norm_lower_trim_def js_trim_lower_comm js_lower_def split: option.split)
  have snd_eq: "map snd (listPeers m query limit) =
      (case limit of Some l \<Rightarrow> if 0 < l then take (nat l) ?ids else ?ids | None \<Rightarrow> ?ids)"
    unfolding listPeers_def Let_def f by (simp add: comp_def split: option.split)
  have sub: "subseq ?ids (formatAllowFrom (resolveAllowFrom m))" by simp
  have inc: "list_all (sublist ?qn) ?ids" by (simp add: list_all_iff)
  have tk: "subseq (take n ?ids) (formatAllowFrom (resolveAllowFrom m)) \<and> list_all (sublist ?qn) (take n ?ids)"
    for n
    using subseq_order.trans [OF prefix_imp_subseq [OF take_is_prefix] sub] inc
    by (auto simp: list_all_iff dest: in_set_takeD)
  have len: "length (listPeers m query limit) = length (map snd (listPeers m query limit))" by simp
  show ?thesis
  proof (cases limit)
    case None
    then show ?thesis using snd_eq sub inc by simp
  next
    case (Some l)
    then show ?thesis using snd_eq sub inc tk [of "nat l"] unfolding len by simp
  qed
qed

theorem listPeers_spec_witness:
  "listPeers (Some (m365_empty\<lparr>m365_allow_from := Some [''a@x.com'', ''b@y.com'', ''c@x.com'']\<rparr>)) (Some ''@x'') (Some 1)
     = [(PeerUser, ''a@x.com'')] \<and>
   length (listPeers (Some (m365_empty\<lparr>m365_allow_from := Some [''a@x.com'', ''b@y.com'', ''c@x.com'']\<rparr>))
      (Some ''@x'') (Some 1)) \<le> nat 1"
proof -
  have "listPeers (Some (m365_empty\<lparr>m365_allow_from := Some [''a@x.com'', ''b@y.com'', ''c@x.com'']\<rparr>)) (Some ''@x'') (Some 1)
     = [(PeerUser, ''a@x.com'')]"
    unfolding listPeers_def resolveAllowFrom_def m365_empty_def by code_simp
  moreover note listPeers_spec [of "Some (m365_empty\<lparr>m365_allow_from := Some [''a@x.com'', ''b@y.com'', ''c@x.com'']\<rparr>)"
      "Some ''@x''" "Some 1"]
  ultimately show ?thesis by simp
qed

end
