(* ===== verification/Pairing.thy ===== *)
theory Pairing
  imports Prelude
begin

text \<open>
  The pairing registry. Its store (\<open>upsertPairingRequest\<close>, the approval of a request,
  \<open>buildPairingReply\<close>) belongs to the plugin SDK, which is not among the sources; it is
  modelled from the specification (section 4.2): a pending request per (channel,
  sender), an upsert that returns the existing code without creating anything when a
  request is pending, approval that removes the request and appends the sender to the
  channel's persisted allow list. Codes are opaque strings; here a request's code is
  the base-32 rendering, over the alphabet the pairing codes use, of a counter the store
  keeps, so that no two requests ever share a code. The lemmas prove the rendering
  injective (it has a decoder), the store's well-formedness invariant and its
  preservation, and the idempotence of upsert.
\<close>

section \<open>Codes\<close>

definition code_alphabet :: string where
  "code_alphabet = ''ABCDEFGHJKLMNPQRSTUVWXYZ23456789''"

fun code_of :: "nat \<Rightarrow> string" where
  "code_of n =
     (if n < 32 then [code_alphabet ! n]
      else code_of (n div 32) @ [code_alphabet ! (n mod 32)])"

declare code_of.simps [simp del]

fun pos_of :: "'a \<Rightarrow> 'a list \<Rightarrow> nat" where
  "pos_of x [] = 0"
| "pos_of x (y # ys) = (if x = y then 0 else Suc (pos_of x ys))"

definition decode_code :: "string \<Rightarrow> nat" where
  "decode_code s = foldl (\<lambda>acc c. acc * 32 + pos_of c code_alphabet) 0 s"

section \<open>The store\<close>

record pairing_request =
  req_channel :: string
  req_id :: string
  req_code :: string
  req_name :: "string option"
  req_created_at :: int

record pairing_store =
  pending :: "pairing_request list"
  allow_store :: "string \<Rightarrow> string list"
  code_counter :: nat

definition empty_pairing_store :: pairing_store where
  "empty_pairing_store = \<lparr>pending = [], allow_store = (\<lambda>_. []), code_counter = 0\<rparr>"

definition is_request_for :: "string \<Rightarrow> string \<Rightarrow> pairing_request \<Rightarrow> bool" where
  "is_request_for ch sid r \<longleftrightarrow> req_channel r = ch \<and> req_id r = sid"

definition find_pending :: "string \<Rightarrow> string \<Rightarrow> pairing_store \<Rightarrow> pairing_request option" where
  "find_pending ch sid st = find (is_request_for ch sid) (pending st)"

text \<open>
  \<open>upsertPairingRequest({channel, id, meta})\<close>: the pending request's code and
  \<open>created = false\<close>, or a new request with a fresh code and \<open>created = true\<close>.
\<close>

definition upsertPairingRequest ::
  "string \<Rightarrow> string \<Rightarrow> string option \<Rightarrow> int \<Rightarrow> pairing_store \<Rightarrow> (string \<times> bool) \<times> pairing_store" where
  "upsertPairingRequest ch sid name now st =
     (case find_pending ch sid st of
        Some r \<Rightarrow> ((req_code r, False), st)
      | None \<Rightarrow>
          (let code = code_of (code_counter st);
               r = \<lparr>req_channel = ch, req_id = sid, req_code = code, req_name = name,
                    req_created_at = now\<rparr>
           in ((code, True),
               st\<lparr>pending := pending st @ [r], code_counter := Suc (code_counter st)\<rparr>)))"

text \<open>
  Approval by the operator (outside the channel): the pending request leaves the store
  and its sender is appended to the channel's allow list. Approving a sender with no
  pending request fails (\<open>None\<close>).
\<close>

definition approve_pairing :: "string \<Rightarrow> string \<Rightarrow> pairing_store \<Rightarrow> pairing_store option" where
  "approve_pairing ch sid st =
     (case find_pending ch sid st of
        None \<Rightarrow> None
      | Some r \<Rightarrow> Some (st\<lparr>pending := filter (\<lambda>r. \<not> is_request_for ch sid r) (pending st),
                           allow_store := (allow_store st)(ch := allow_store st ch @ [sid])\<rparr>))"

text \<open>\<open>buildPairingReply({channel, idLine, code})\<close>: the instructions sent to the sender.\<close>

definition buildPairingReply :: "string \<Rightarrow> string \<Rightarrow> string \<Rightarrow> string" where
  "buildPairingReply ch idLine code =
     ''OpenClaw: access not configured.'' @ ''\<newline>\<newline>'' @ idLine @ ''\<newline>\<newline>'' @
     ''Pairing code: '' @ code @ ''\<newline>\<newline>'' @ ''Ask the bot owner to approve with:'' @
     ''\<newline>'' @ ''openclaw pairing approve '' @ ch @ '' '' @ code"

section \<open>Well-formed stores\<close>

text \<open>
  At most one pending request per (channel, sender), no two pending requests with the
  same code, and every code drawn from the counter's past values.
\<close>

definition pairing_wf :: "pairing_store \<Rightarrow> bool" where
  "pairing_wf st \<longleftrightarrow>
     distinct (map (\<lambda>r. (req_channel r, req_id r)) (pending st)) \<and>
     distinct (map req_code (pending st)) \<and>
     (\<forall>r\<in>set (pending st). \<exists>k<code_counter st. req_code r = code_of k)"

section \<open>Lemmas: codes\<close>

lemma pos_of_nth: "distinct xs \<Longrightarrow> i < length xs \<Longrightarrow> pos_of (xs ! i) xs = i"
proof (induction xs arbitrary: i)
  case Nil
  then show ?case by simp
next
  case (Cons y ys)
  then show ?case by (cases i) (auto simp: nth_mem)
qed

lemma code_alphabet_props: "distinct code_alphabet" "length code_alphabet = 32"
  by (simp_all add: code_alphabet_def)

lemma decode_code_of [simp]: "decode_code (code_of n) = n"
proof (induction n rule: code_of.induct)
  case (1 n)
  show ?case
  proof (cases "n < 32")
    case True
    then show ?thesis
      by (simp add: code_of.simps [of n] decode_code_def pos_of_nth code_alphabet_props)
  next
    case False
    then have "decode_code (code_of (n div 32)) = n div 32" using "1.IH" by simp
    then show ?thesis using False
      by (simp add: code_of.simps [of n] decode_code_def pos_of_nth code_alphabet_props)
  qed
qed

lemma code_of_inj [simp]: "code_of m = code_of n \<longleftrightarrow> m = n"
  by (metis decode_code_of)

section \<open>Lemmas: the store\<close>

lemma find_pending_Some:
  "find_pending ch sid st = Some r \<Longrightarrow> r \<in> set (pending st) \<and> req_channel r = ch \<and> req_id r = sid"
  by (auto simp: find_pending_def is_request_for_def find_Some_iff nth_mem)

lemma find_pending_None:
  "find_pending ch sid st = None \<longleftrightarrow> (\<forall>r\<in>set (pending st). \<not> (req_channel r = ch \<and> req_id r = sid))"
  by (auto simp: find_pending_def is_request_for_def find_None_iff)

lemma upsert_existing:
  "find_pending ch sid st = Some r \<Longrightarrow>
   upsertPairingRequest ch sid name now st = ((req_code r, False), st)"
  by (simp add: upsertPairingRequest_def)

lemma upsert_new:
  "find_pending ch sid st = None \<Longrightarrow>
   upsertPairingRequest ch sid name now st =
     ((code_of (code_counter st), True),
      st\<lparr>pending := pending st @ [\<lparr>req_channel = ch, req_id = sid,
           req_code = code_of (code_counter st), req_name = name, req_created_at = now\<rparr>],
         code_counter := Suc (code_counter st)\<rparr>)"
  by (simp add: upsertPairingRequest_def Let_def)

lemma upsert_allow_store [simp]:
  "allow_store (snd (upsertPairingRequest ch sid name now st)) = allow_store st"
  by (simp add: upsertPairingRequest_def Let_def split: option.split)

lemma upsert_finds:
  "find_pending ch sid (snd (upsertPairingRequest ch sid name now st)) \<noteq> None"
  by (cases "find_pending ch sid st")
     (auto simp: upsert_new upsert_existing find_pending_None)

lemma upsert_pending_mono:
  "set (pending st) \<subseteq> set (pending (snd (upsertPairingRequest ch sid name now st)))"
  by (cases "find_pending ch sid st") (auto simp: upsert_new upsert_existing)

lemma upsert_code_pending:
  assumes "upsertPairingRequest ch sid name now st = ((code, created), st')"
  shows "\<exists>r\<in>set (pending st'). req_channel r = ch \<and> req_id r = sid \<and> req_code r = code"
  using assms
  by (cases "find_pending ch sid st") (auto simp: upsert_new upsert_existing dest: find_pending_Some)

lemma empty_pairing_store_wf: "pairing_wf empty_pairing_store"
  by (simp add: pairing_wf_def empty_pairing_store_def)

lemma upsert_preserves_wf:
  assumes "pairing_wf st"
  shows "pairing_wf (snd (upsertPairingRequest ch sid name now st))"
proof (cases "find_pending ch sid st")
  case None
  have fresh: "code_of (code_counter st) \<notin> set (map req_code (pending st))"
    using assms by (auto simp: pairing_wf_def)
  have key: "(ch, sid) \<notin> set (map (\<lambda>r. (req_channel r, req_id r)) (pending st))"
    using None by (auto simp: find_pending_None)
  show ?thesis
    using assms fresh key None
    by (auto simp: pairing_wf_def upsert_new less_Suc_eq)
next
  case (Some r)
  then show ?thesis using assms by (simp add: upsert_existing)
qed

lemma approve_preserves_wf:
  assumes "pairing_wf st" and "approve_pairing ch sid st = Some st'"
  shows "pairing_wf st'"
proof -
  let ?P = "\<lambda>r. \<not> is_request_for ch sid r"
  have "pending st' = filter ?P (pending st)" and "code_counter st' = code_counter st"
    using assms(2) by (auto simp: approve_pairing_def split: option.splits)
  then show ?thesis using assms(1)
    by (auto simp: pairing_wf_def distinct_map_filter)
qed

lemma buildPairingReply_contains_code:
  "sublist code (buildPairingReply ch idLine code)"
  unfolding buildPairingReply_def
  by (metis append.assoc sublist_appendI)

end
