(* ===== verification/Effects.thy ===== *)
theory Effects
  imports Config Pairing
begin

text \<open>
  What the inbound handler reads from and does to the world. The handler of
  \<open>channel.ts\<close> is asynchronous code that awaits its collaborators one at a time; each
  await is modelled as one step of explicit state passing over a \<open>world\<close>: the pairing
  store, the session store, and the trace of observable effects in the order they
  happen (log lines, \<open>logInboundDrop\<close> records, Microsoft Graph calls with their
  outcome, session writes, the hand-off to the agent). The outcomes of the
  collaborators that can fail (the allow-from store read, every Graph call, the session
  write) and the clock are inputs, an \<open>io_env\<close>: a theorem that holds for every
  \<open>io_env\<close> holds whatever the network does.
\<close>

section \<open>Effects\<close>

datatype log_level = Info | Warn | Error

text \<open>The \<open>GraphClient\<close> calls the channel makes.\<close>

datatype graph_call =
    ReplyToMail string string    \<comment> \<open>\<open>replyToMail(messageId, text)\<close>\<close>
  | MarkAsRead string            \<comment> \<open>\<open>markAsRead(messageId)\<close>\<close>
  | SendMail string string string  \<comment> \<open>\<open>sendMail({to, subject, body})\<close>\<close>

text \<open>
  One observable effect. \<open>Graph c r\<close> is the call \<open>c\<close> with its outcome: \<open>None\<close> when
  it resolved, \<open>Some e\<close> when it threw \<open>e\<close>. \<open>'c\<close> is the inbound context handed to
  the agent.
\<close>

datatype 'c event =
    Log log_level string
  | InboundDrop string string string   \<comment> \<open>\<open>logInboundDrop({channel, reason, target})\<close>\<close>
  | Graph graph_call "string option"
  | SessionRecorded string int
  | AgentDispatched 'c

section \<open>Inputs\<close>

record io_env =
  io_now :: int                              \<comment> \<open>\<open>Date.now()\<close>\<close>
  io_store_read_fails :: bool               \<comment> \<open>\<open>readAllowFromStore\<close> rejects\<close>
  io_graph :: "graph_call \<Rightarrow> string option"  \<comment> \<open>the error a Graph call throws, if any\<close>
  io_session_write :: "string option"       \<comment> \<open>the error the session write reports, if any\<close>
  io_parse_date :: "string \<Rightarrow> int"         \<comment> \<open>\<open>new Date(s).getTime()\<close>\<close>

text \<open>
  \<open>GraphMailMessage\<close> (declared in \<open>types.ts\<close>, not among the sources): the fields
  the handler reads. \<open>msg_from_address\<close> is \<open>from?.emailAddress?.address\<close>,
  \<open>msg_body_content_type\<close> and \<open>msg_body_content\<close> are \<open>body?.contentType\<close> and
  \<open>body?.content\<close>.
\<close>

record graph_mail_message =
  msg_id :: string
  msg_from_address :: "string option"
  msg_from_name :: "string option"
  msg_subject :: "string option"
  msg_body_content_type :: "string option"
  msg_body_content :: "string option"
  msg_body_preview :: "string option"
  msg_received :: "string option"

section \<open>The world\<close>

record 'c world =
  w_pairing :: pairing_store
  w_sessions :: "string \<Rightarrow> int option"
  w_trace :: "'c event list"

definition emit :: "'c event \<Rightarrow> ('c, 'x) world_scheme \<Rightarrow> ('c, 'x) world_scheme" where
  "emit e w = w\<lparr>w_trace := w_trace w @ [e]\<rparr>"

text \<open>Perform a Graph call: its outcome comes from the environment and is recorded.\<close>

definition graph_attempt ::
  "io_env \<Rightarrow> graph_call \<Rightarrow> ('c, 'x) world_scheme \<Rightarrow> string option \<times> ('c, 'x) world_scheme" where
  "graph_attempt io c w = (io_graph io c, emit (Graph c (io_graph io c)) w)"

section \<open>Projections of the trace\<close>

text \<open>The contexts handed to the agent, the Graph calls and the drop records, in order.\<close>

fun agent_of :: "'c event \<Rightarrow> 'c list" where
  "agent_of (AgentDispatched c) = [c]"
| "agent_of _ = []"

fun graph_of :: "'c event \<Rightarrow> (graph_call \<times> string option) list" where
  "graph_of (Graph c r) = [(c, r)]"
| "graph_of _ = []"

fun drop_of :: "'c event \<Rightarrow> (string \<times> string \<times> string) list" where
  "drop_of (InboundDrop ch reason target) = [(ch, reason, target)]"
| "drop_of _ = []"

definition agent_calls :: "('c, 'x) world_scheme \<Rightarrow> 'c list" where
  "agent_calls w = concat (map agent_of (w_trace w))"

definition graph_calls :: "('c, 'x) world_scheme \<Rightarrow> (graph_call \<times> string option) list" where
  "graph_calls w = concat (map graph_of (w_trace w))"

definition drop_records :: "('c, 'x) world_scheme \<Rightarrow> (string \<times> string \<times> string) list" where
  "drop_records w = concat (map drop_of (w_trace w))"

definition initial_world :: "'c world" where
  "initial_world = \<lparr>w_pairing = empty_pairing_store, w_sessions = (\<lambda>_. None), w_trace = []\<rparr>"

section \<open>Lemmas\<close>

lemma emit_fields [simp]:
  "w_pairing (emit e w) = w_pairing w"
  "w_sessions (emit e w) = w_sessions w"
  "w_trace (emit e w) = w_trace w @ [e]"
  by (simp_all add: emit_def)

lemma graph_attempt_fields [simp]:
  "fst (graph_attempt io c w) = io_graph io c"
  "w_pairing (snd (graph_attempt io c w)) = w_pairing w"
  "w_sessions (snd (graph_attempt io c w)) = w_sessions w"
  "w_trace (snd (graph_attempt io c w)) = w_trace w @ [Graph c (io_graph io c)]"
  by (simp_all add: graph_attempt_def)

lemma projections_emit [simp]:
  "agent_calls (emit e w) = agent_calls w @ agent_of e"
  "graph_calls (emit e w) = graph_calls w @ graph_of e"
  "drop_records (emit e w) = drop_records w @ drop_of e"
  by (simp_all add: agent_calls_def graph_calls_def drop_records_def)

lemma projections_graph_attempt [simp]:
  "agent_calls (snd (graph_attempt io c w)) = agent_calls w"
  "graph_calls (snd (graph_attempt io c w)) = graph_calls w @ [(c, io_graph io c)]"
  "drop_records (snd (graph_attempt io c w)) = drop_records w"
  by (simp_all add: graph_attempt_def)

lemma projections_update [simp]:
  "agent_calls (w\<lparr>w_pairing := p\<rparr>) = agent_calls w"
  "graph_calls (w\<lparr>w_pairing := p\<rparr>) = graph_calls w"
  "drop_records (w\<lparr>w_pairing := p\<rparr>) = drop_records w"
  "agent_calls (w\<lparr>w_sessions := s\<rparr>) = agent_calls w"
  "graph_calls (w\<lparr>w_sessions := s\<rparr>) = graph_calls w"
  "drop_records (w\<lparr>w_sessions := s\<rparr>) = drop_records w"
  by (simp_all add: agent_calls_def graph_calls_def drop_records_def)

end
