(* ===== verification/Session.thy ===== *)
theory Session
  imports Effects
begin

text \<open>
  Session continuity: the part of \<open>handleIncomingMail\<close> (\<open>channel.ts\<close> lines 428 to
  492) that resolves the agent route, reads the previous interaction time of the
  session, builds the message body and the agent envelope, finalises the inbound context
  and records the session. \<open>resolveAgentRoute\<close>, \<open>readSessionUpdatedAt\<close>,
  \<open>formatAgentEnvelope\<close> and \<open>recordInboundSession\<close> are SDK functions: the route
  and the session write are modelled from the specification (section 4.4: a session
  key determined by channel, account and peer; a best-effort write that reports its
  error through \<open>onRecordError\<close>), the envelope is kept as the structured record of
  its arguments. The lemmas show that the previous timestamp is the one the store holds,
  that a failed write changes nothing but the log, and how the body text is built,
  including the \<open>undefined\<close> that leaks into it when a text body has no content.
\<close>

section \<open>Route\<close>

record agent_route =
  route_agent_id :: string
  route_session_key :: string
  route_account_id :: string

definition resolveAgentRoute :: "string \<Rightarrow> string \<Rightarrow> string \<Rightarrow> agent_route" where
  "resolveAgentRoute ch acct peer =
     \<lparr>route_agent_id = ''main'',
      route_session_key = ''agent:main:'' @ ch @ '':'' @ acct @ '':dm:'' @ peer,
      route_account_id = acct\<rparr>"

section \<open>Message body\<close>

text \<open>A JavaScript template literal renders an undefined value as \<open>undefined\<close>.\<close>

definition js_template :: "string option \<Rightarrow> string" where
  "js_template x = nullish x ''undefined''"

text \<open>
  \<open>rawBody = message.body?.contentType === "text" ? message.body.content?.trim()
   : message.bodyPreview?.trim() ?? ""\<close>. The \<open>??\<close> binds inside the else branch
  only, so a text body without content gives an undefined raw body (\<open>None\<close>).
\<close>

definition raw_body :: "graph_mail_message \<Rightarrow> string option" where
  "raw_body msg =
     (if msg_body_content_type msg = Some ''text'' then map_option js_trim (msg_body_content msg)
      else Some (nullish (map_option js_trim (msg_body_preview msg)) ''''))"

text \<open>\<open>bodyText = subject ? `Subject: ${subject}\n\n${rawBody}` : rawBody\<close>\<close>

definition body_text :: "string \<Rightarrow> string option \<Rightarrow> string option" where
  "body_text subject raw =
     (if subject \<noteq> [] then Some (''Subject: '' @ subject @ ''\<newline>\<newline>'' @ js_template raw) else raw)"

text \<open>\<open>message.receivedDateTime ? new Date(...).getTime() : Date.now()\<close>\<close>

definition message_timestamp :: "io_env \<Rightarrow> graph_mail_message \<Rightarrow> int" where
  "message_timestamp io msg =
     (case msg_received msg of
        None \<Rightarrow> io_now io
      | Some s \<Rightarrow> if s \<noteq> [] then io_parse_date io s else io_now io)"

text \<open>\<open>fromName ? `${fromName} <${fromEmail}>` : fromEmail\<close>\<close>

definition sender_label :: "string option \<Rightarrow> string \<Rightarrow> string" where
  "sender_label name from =
     (case name of None \<Rightarrow> from | Some n \<Rightarrow> if n \<noteq> [] then n @ '' <'' @ from @ ''>'' else from)"

section \<open>Envelope and inbound context\<close>

record envelope =
  env_channel :: string
  env_from :: string
  env_timestamp :: int
  env_previous :: "int option"
  env_body :: "string option"

definition formatAgentEnvelope :: "string \<Rightarrow> int \<Rightarrow> int option \<Rightarrow> string option \<Rightarrow> envelope" where
  "formatAgentEnvelope from ts prev body =
     \<lparr>env_channel = ''Microsoft 365 Mail'', env_from = from, env_timestamp = ts,
      env_previous = prev, env_body = body\<rparr>"

text \<open>
  The fields of \<open>finalizeInboundContext\<close>'s argument that vary with the message; the
  constant ones (\<open>ChatType\<close>, \<open>Provider\<close>, \<open>Surface\<close>, \<open>OriginatingChannel\<close>) are
  left out.
\<close>

record inbound_ctx =
  ctx_body :: envelope
  ctx_raw_body :: "string option"
  ctx_command_body :: "string option"
  ctx_from :: string
  ctx_to :: string
  ctx_session_key :: string
  ctx_account_id :: string
  ctx_conversation_label :: string
  ctx_sender_name :: "string option"
  ctx_sender_id :: string
  ctx_message_sid :: string
  ctx_timestamp :: int

definition finalizeInboundContext ::
  "string \<Rightarrow> agent_route \<Rightarrow> string \<Rightarrow> string option \<Rightarrow> graph_mail_message \<Rightarrow> int \<Rightarrow>
   envelope \<Rightarrow> string option \<Rightarrow> inbound_ctx" where
  "finalizeInboundContext acct route from name msg ts body bt =
     \<lparr>ctx_body = body, ctx_raw_body = bt, ctx_command_body = bt,
      ctx_from = ''microsoft365:'' @ from, ctx_to = ''microsoft365:'' @ acct,
      ctx_session_key = route_session_key route, ctx_account_id = route_account_id route,
      ctx_conversation_label = sender_label name from,
      ctx_sender_name = (if name = Some [] then None else name),
      ctx_sender_id = from, ctx_message_sid = msg_id msg, ctx_timestamp = ts\<rparr>"

section \<open>Recording the session\<close>

text \<open>
  \<open>recordInboundSession({storePath, sessionKey, ctx, onRecordError})\<close>: the write
  sets the session's update time to the message time; a failed write is passed to
  \<open>onRecordError\<close>, which logs it, and the handler goes on.
\<close>

definition recordInboundSession ::
  "io_env \<Rightarrow> string \<Rightarrow> inbound_ctx \<Rightarrow> inbound_ctx world \<Rightarrow> inbound_ctx world" where
  "recordInboundSession io key ctx w =
     (case io_session_write io of
        None \<Rightarrow> emit (SessionRecorded key (ctx_timestamp ctx))
                  (w\<lparr>w_sessions := (w_sessions w)(key \<mapsto> ctx_timestamp ctx)\<rparr>)
      | Some err \<Rightarrow> emit (Log Error (''microsoft365: failed updating session meta: '' @ err)) w)"

text \<open>The session part of the handler, from route resolution to the session write.\<close>

definition prepare_session ::
  "io_env \<Rightarrow> string \<Rightarrow> string \<Rightarrow> string option \<Rightarrow> string \<Rightarrow> graph_mail_message \<Rightarrow>
   inbound_ctx world \<Rightarrow> inbound_ctx \<times> inbound_ctx world" where
  "prepare_session io acct from name subject msg w =
     (let route = resolveAgentRoute ''microsoft365'' acct from;
          prev = w_sessions w (route_session_key route);
          ts = message_timestamp io msg;
          bt = body_text subject (raw_body msg);
          body = formatAgentEnvelope (sender_label name from) ts prev bt;
          ctx = finalizeInboundContext acct route from name msg ts body bt
      in (ctx, recordInboundSession io (route_session_key route) ctx w))"

section \<open>Lemmas\<close>

lemma session_key_injective:
  "route_session_key (resolveAgentRoute ch acct p) = route_session_key (resolveAgentRoute ch acct q)
   \<longleftrightarrow> p = q"
  by (simp add: resolveAgentRoute_def)

lemma recordInboundSession_pairing [simp]:
  "w_pairing (recordInboundSession io key ctx w) = w_pairing w"
  by (simp add: recordInboundSession_def split: option.split)

lemma recordInboundSession_sessions:
  "w_sessions (recordInboundSession io key ctx w) =
     (case io_session_write io of None \<Rightarrow> (w_sessions w)(key \<mapsto> ctx_timestamp ctx)
      | Some _ \<Rightarrow> w_sessions w)"
  by (simp add: recordInboundSession_def split: option.split)

lemma recordInboundSession_dom_mono:
  "dom (w_sessions w) \<subseteq> dom (w_sessions (recordInboundSession io key ctx w))"
  by (auto simp: recordInboundSession_sessions split: option.split)

lemma prepare_session_ctx:
  "fst (prepare_session io acct from name subject msg w) =
     (let route = resolveAgentRoute ''microsoft365'' acct from;
          ts = message_timestamp io msg; bt = body_text subject (raw_body msg)
      in finalizeInboundContext acct route from name msg ts
           (formatAgentEnvelope (sender_label name from) ts (w_sessions w (route_session_key route)) bt) bt)"
  by (simp add: prepare_session_def Let_def)

lemma prepare_session_body:
  "ctx_raw_body (fst (prepare_session io acct from name subject msg w)) = body_text subject (raw_body msg)"
  "ctx_command_body (fst (prepare_session io acct from name subject msg w)) = body_text subject (raw_body msg)"
  "env_body (ctx_body (fst (prepare_session io acct from name subject msg w))) = body_text subject (raw_body msg)"
  by (simp_all add: prepare_session_ctx Let_def finalizeInboundContext_def formatAgentEnvelope_def)

lemma prepare_session_key:
  "ctx_session_key (fst (prepare_session io acct from name subject msg w)) =
     route_session_key (resolveAgentRoute ''microsoft365'' acct from)"
  by (simp add: prepare_session_ctx finalizeInboundContext_def Let_def)

lemma prepare_session_previous:
  "env_previous (ctx_body (fst (prepare_session io acct from name subject msg w))) =
     w_sessions w (route_session_key (resolveAgentRoute ''microsoft365'' acct from))"
  by (simp add: prepare_session_ctx finalizeInboundContext_def formatAgentEnvelope_def Let_def)

lemma prepare_session_timestamp:
  "ctx_timestamp (fst (prepare_session io acct from name subject msg w)) = message_timestamp io msg"
  by (simp add: prepare_session_ctx finalizeInboundContext_def Let_def)

lemma prepare_session_world:
  "snd (prepare_session io acct from name subject msg w) =
     recordInboundSession io (route_session_key (resolveAgentRoute ''microsoft365'' acct from))
       (fst (prepare_session io acct from name subject msg w)) w"
  by (simp add: prepare_session_def Let_def)

lemma prepare_session_pairing [simp]:
  "w_pairing (snd (prepare_session io acct from name subject msg w)) = w_pairing w"
  by (simp add: prepare_session_world)

lemma prepare_session_sessions:
  "w_sessions (snd (prepare_session io acct from name subject msg w)) =
     (case io_session_write io of
        None \<Rightarrow> (w_sessions w)(route_session_key (resolveAgentRoute ''microsoft365'' acct from)
                  \<mapsto> message_timestamp io msg)
      | Some _ \<Rightarrow> w_sessions w)"
proof -
  have "ctx_timestamp (fst (prepare_session io acct from name subject msg w)) = message_timestamp io msg"
    by (rule prepare_session_timestamp)
  then show ?thesis
    by (simp only: prepare_session_world recordInboundSession_sessions)
qed

end
