(* ===== verification/Dispatch.thy ===== *)
theory Dispatch
  imports Effects
begin

text \<open>
  The reply dispatcher. \<open>handleIncomingMail\<close> ends with
  \<open>dispatchReplyWithBufferedBlockDispatcher\<close> (\<open>channel.ts\<close> lines 495 to 517),
  passing a \<open>deliver\<close> callback that replies to the original message through Microsoft
  Graph and an \<open>onError\<close> callback that logs a failed delivery with the payload's kind.
  The callbacks are translated from the source; the dispatcher itself is an SDK
  function, modelled from the specification (section 4.5): it delivers the agent's
  payloads in order, awaiting each, and a delivery that throws is reported to
  \<open>onError\<close> and does not stop the ones after it. The lemmas give the exact effects of
  a dispatch as the concatenation, in payload order, of each payload's effects.
\<close>

section \<open>Payloads\<close>

datatype reply_kind = ToolReply | BlockReply | FinalReply

definition reply_kind_str :: "reply_kind \<Rightarrow> string" where
  "reply_kind_str k = (case k of ToolReply \<Rightarrow> ''tool'' | BlockReply \<Rightarrow> ''block'' | FinalReply \<Rightarrow> ''final'')"

record reply_payload =
  payload_text :: "string option"
  payload_kind :: reply_kind

section \<open>The callbacks\<close>

text \<open>
  \<open>deliver(payload)\<close>: a blank text is skipped; without a refresh token the failure is
  logged and the callback returns normally; otherwise the text is sent as a reply to the
  original message, and an error of that call propagates to the dispatcher (the first
  component of the result).
\<close>

definition deliver ::
  "io_env \<Rightarrow> m365_config option \<Rightarrow> string \<Rightarrow> reply_payload \<Rightarrow> ('c, 'x) world_scheme \<Rightarrow>
   string option \<times> ('c, 'x) world_scheme" where
  "deliver io m365 mid p w =
     (let text = nullish (payload_text p) ''''
      in if js_trim text = [] then (None, w)
         else if \<not> has_refresh_token m365
           then (None, emit (Log Error ''microsoft365: cannot reply, missing refreshToken'') w)
         else graph_attempt io (ReplyToMail mid text) w)"

text \<open>\<open>onError(err, info)\<close>\<close>

definition onError :: "string \<Rightarrow> reply_kind \<Rightarrow> ('c, 'x) world_scheme \<Rightarrow> ('c, 'x) world_scheme" where
  "onError err k w =
     emit (Log Error (''microsoft365 '' @ reply_kind_str k @ '' reply failed: '' @ err)) w"

section \<open>The dispatcher\<close>

fun dispatch_replies ::
  "io_env \<Rightarrow> m365_config option \<Rightarrow> string \<Rightarrow> reply_payload list \<Rightarrow> ('c, 'x) world_scheme \<Rightarrow>
   ('c, 'x) world_scheme" where
  "dispatch_replies io m365 mid [] w = w"
| "dispatch_replies io m365 mid (p # ps) w =
     (case deliver io m365 mid p w of
        (None, w') \<Rightarrow> dispatch_replies io m365 mid ps w'
      | (Some err, w') \<Rightarrow> dispatch_replies io m365 mid ps (onError err (payload_kind p) w'))"

section \<open>Effects of one payload\<close>

text \<open>The events one payload adds to the trace: the specification of a delivery.\<close>

definition payload_events :: "io_env \<Rightarrow> m365_config option \<Rightarrow> string \<Rightarrow> reply_payload \<Rightarrow> 'c event list" where
  "payload_events io m365 mid p =
     (let text = nullish (payload_text p) ''''
      in if js_trim text = [] then []
         else if \<not> has_refresh_token m365
           then [Log Error ''microsoft365: cannot reply, missing refreshToken'']
         else (case io_graph io (ReplyToMail mid text) of
                 None \<Rightarrow> [Graph (ReplyToMail mid text) None]
               | Some err \<Rightarrow> [Graph (ReplyToMail mid text) (Some err),
                             Log Error (''microsoft365 '' @ reply_kind_str (payload_kind p) @
                                        '' reply failed: '' @ err)]))"

section \<open>Lemmas\<close>

lemma deliver_fields:
  "w_pairing (snd (deliver io m mid p w)) = w_pairing w"
  "w_sessions (snd (deliver io m mid p w)) = w_sessions w"
  by (simp_all add: deliver_def Let_def)

lemma deliver_trace:
  "w_trace (snd (deliver io m mid p w)) @
     (case fst (deliver io m mid p w) of None \<Rightarrow> []
      | Some err \<Rightarrow> [Log Error (''microsoft365 '' @ reply_kind_str (payload_kind p) @ '' reply failed: '' @ err)])
   = w_trace w @ payload_events io m mid p"
  by (simp add: deliver_def payload_events_def Let_def split: option.split)

lemma dispatch_replies_fields [simp]:
  "w_pairing (dispatch_replies io m mid ps w) = w_pairing w"
  "w_sessions (dispatch_replies io m mid ps w) = w_sessions w"
  by (induction ps arbitrary: w)
     (auto simp: deliver_fields onError_def split: prod.split option.split,
      (metis deliver_fields prod.sel(2))+)

lemma deliver_step:
  "deliver io m mid p w = (r, w') \<Longrightarrow>
   w_trace w' @ (case r of None \<Rightarrow> []
      | Some err \<Rightarrow> [Log Error (''microsoft365 '' @ reply_kind_str (payload_kind p) @ '' reply failed: '' @ err)])
   = w_trace w @ payload_events io m mid p"
  using deliver_trace [of io m mid p w] by simp

text \<open>The effects of a dispatch, payload by payload.\<close>

lemma dispatch_trace:
  "w_trace (dispatch_replies io m mid ps w) = w_trace w @ concat (map (payload_events io m mid) ps)"
proof (induction ps arbitrary: w)
  case Nil
  then show ?case by simp
next
  case (Cons p ps)
  obtain r w' where d: "deliver io m mid p w = (r, w')" by fastforce
  show ?case
  proof (cases r)
    case None
    with d deliver_step [OF d] Cons.IH show ?thesis by simp
  next
    case (Some err)
    with d deliver_step [OF d] Cons.IH show ?thesis by (simp add: onError_def)
  qed
qed

text \<open>
  C3. Ordered, isolated reply dispatch: the effects of a dispatch are, in payload order,
  the effects of delivering each payload on its own, and with a refresh token every
  non-blank payload is sent as a reply to the original message, whatever happened to
  the payloads before it (a failed delivery adds its failed call and its error log and
  does not stop the rest).
\<close>

theorem dispatch_replies_trace:
  "w_trace (dispatch_replies io m mid ps w) = w_trace w @ concat (map (payload_events io m mid) ps) \<and>
   (has_refresh_token m \<longrightarrow>
      (\<forall>p\<in>set ps. js_trim (nullish (payload_text p) []) \<noteq> [] \<longrightarrow>
         Graph (ReplyToMail mid (nullish (payload_text p) [])) (io_graph io (ReplyToMail mid (nullish (payload_text p) [])))
           \<in> set (w_trace (dispatch_replies io m mid ps w))))"
proof -
  have "Graph (ReplyToMail mid (nullish (payload_text p) [])) (io_graph io (ReplyToMail mid (nullish (payload_text p) [])))
          \<in> set (payload_events io m mid p :: 'c event list)"
    if "has_refresh_token m" and "js_trim (nullish (payload_text p) []) \<noteq> []" for p
    using that by (simp add: payload_events_def Let_def split: option.split)
  then show ?thesis by (auto simp: dispatch_trace)
qed

text \<open>
  The specification's dispatch example: payloads A, B, C where the reply for B throws;
  A and C are still sent, in order, and the failure of B is logged with its kind.
\<close>

theorem dispatch_replies_trace_witness:
  "w_trace (dispatch_replies
      \<lparr>io_now = 0, io_store_read_fails = False,
       io_graph = (\<lambda>c. if c = ReplyToMail ''m1'' ''B'' then Some ''boom'' else None),
       io_session_write = None, io_parse_date = (\<lambda>_. 0)\<rparr>
      (Some (m365_empty\<lparr>m365_refresh_token := Some ''rt''\<rparr>)) ''m1''
      [\<lparr>payload_text = Some ''A'', payload_kind = BlockReply\<rparr>,
       \<lparr>payload_text = Some ''B'', payload_kind = BlockReply\<rparr>,
       \<lparr>payload_text = Some ''C'', payload_kind = FinalReply\<rparr>] (initial_world :: unit world))
   = [Graph (ReplyToMail ''m1'' ''A'') None, Graph (ReplyToMail ''m1'' ''B'') (Some ''boom''),
      Log Error ''microsoft365 block reply failed: boom'', Graph (ReplyToMail ''m1'' ''C'') None]"
  using dispatch_replies_trace [of
      "\<lparr>io_now = 0, io_store_read_fails = False,
        io_graph = (\<lambda>c. if c = ReplyToMail ''m1'' ''B'' then Some ''boom'' else None),
        io_session_write = None, io_parse_date = (\<lambda>_. 0)\<rparr>"
      "Some (m365_empty\<lparr>m365_refresh_token := Some ''rt''\<rparr>)" "''m1''"
      "[\<lparr>payload_text = Some ''A'', payload_kind = BlockReply\<rparr>,
        \<lparr>payload_text = Some ''B'', payload_kind = BlockReply\<rparr>,
        \<lparr>payload_text = Some ''C'', payload_kind = FinalReply\<rparr>]" "initial_world :: unit world"]
  by (simp add: payload_events_def has_refresh_token_def m365_empty_def initial_world_def
      js_trim_def trim_start_def trim_end_def is_js_space_def reply_kind_str_def)
end
