(* ===== verification/Inbound.thy ===== *)
theory Inbound
  imports Admission Session Dispatch
begin

text \<open>
  The inbound orchestrator: \<open>handleIncomingMail\<close> of \<open>channel.ts\<close> (lines 343 to 518)
  as a function from the world before a message to the world after it, composed of the
  source's sections in their order: sender extraction and the drop of a message without
  a sender; the DM policy gate with the pairing challenge and the drop record; marking
  the message read; the session part (theory \<open>Session\<close>); the hand-off to the agent and
  the reply dispatch (theory \<open>Dispatch\<close>). The operator's approval of a pairing request
  with the channel's \<open>notifyApproval\<close> hook (lines 168 to 179) is the other step of the
  channel. The case lemmas at the end reduce the handler to one branch each; the
  properties of the whole are proved in the root theory.
\<close>

section \<open>Sender\<close>

text \<open>\<open>message.from?.emailAddress?.address?.toLowerCase()\<close>: lower-cased, not trimmed.\<close>

definition from_email :: "graph_mail_message \<Rightarrow> string option" where
  "from_email msg = map_option js_lower (msg_from_address msg)"

section \<open>The gate\<close>

text \<open>
  The allow list the handler reads: the store read is made against the pairing store of
  the world, and a rejected read counts as an empty store.
\<close>

definition read_allow_list :: "io_env \<Rightarrow> m365_config option \<Rightarrow> ('c, 'x) world_scheme \<Rightarrow> string list" where
  "read_allow_list io m365 w =
     effective_allow_from m365
       (if io_store_read_fails io then None else Some (allow_store (w_pairing w) ''microsoft365''))"

text \<open>The pairing instructions (lines 389 to 404): sent only with a refresh token; a failure is logged.\<close>

definition pairing_reply_call :: "graph_mail_message \<Rightarrow> string \<Rightarrow> string \<Rightarrow> graph_call" where
  "pairing_reply_call msg from code =
     ReplyToMail (msg_id msg) (buildPairingReply ''microsoft365'' (''Your email address: '' @ from) code)"

definition send_pairing_reply ::
  "io_env \<Rightarrow> m365_config option \<Rightarrow> graph_mail_message \<Rightarrow> string \<Rightarrow> string \<Rightarrow>
   ('c, 'x) world_scheme \<Rightarrow> ('c, 'x) world_scheme" where
  "send_pairing_reply io m365 msg from code w =
     (if has_refresh_token m365 then
        (case graph_attempt io (pairing_reply_call msg from code) w of
           (None, w') \<Rightarrow> w'
         | (Some err, w') \<Rightarrow>
             emit (Log Error (''microsoft365: pairing reply failed for '' @ from @ '': '' @ err)) w')
      else w)"

text \<open>
  A sender that is not allowed (lines 380 to 413): under \<open>pairing\<close> the request is
  upserted (\<open>meta.name\<close> is \<open>fromName || undefined\<close>) and, if it is new, the
  instructions are sent; under both gated policies the drop is recorded.
\<close>

definition reject_sender ::
  "io_env \<Rightarrow> m365_config option \<Rightarrow> dm_policy \<Rightarrow> graph_mail_message \<Rightarrow> string \<Rightarrow> string option \<Rightarrow>
   ('c, 'x) world_scheme \<Rightarrow> ('c, 'x) world_scheme" where
  "reject_sender io m365 policy msg from name w =
     (let w' = (if policy = Pairing then
                  (case upsertPairingRequest ''microsoft365'' from
                          (if name = Some [] then None else name) (io_now io) (w_pairing w) of
                     ((code, created), ps) \<Rightarrow>
                        (let w2 = w\<lparr>w_pairing := ps\<rparr>
                         in if created then send_pairing_reply io m365 msg from code w2 else w2))
                else w)
      in emit (InboundDrop ''microsoft365'' (drop_reason policy) from) w')"

section \<open>Admitted messages\<close>

text \<open>Lines 417 to 426: mark the message read, best effort.\<close>

definition mark_as_read ::
  "io_env \<Rightarrow> m365_config option \<Rightarrow> graph_mail_message \<Rightarrow> ('c, 'x) world_scheme \<Rightarrow> ('c, 'x) world_scheme" where
  "mark_as_read io m365 msg w =
     (if has_refresh_token m365 then
        (case graph_attempt io (MarkAsRead (msg_id msg)) w of
           (None, w') \<Rightarrow> w'
         | (Some err, w') \<Rightarrow> emit (Log Warn (''microsoft365: failed to mark message as read: '' @ err)) w')
      else w)"

text \<open>
  Lines 417 to 517: mark read, prepare and record the session, hand the context to the
  agent and deliver its payloads.
\<close>

definition admit_and_dispatch ::
  "io_env \<Rightarrow> (inbound_ctx \<Rightarrow> reply_payload list) \<Rightarrow> m365_config option \<Rightarrow> string \<Rightarrow>
   graph_mail_message \<Rightarrow> string \<Rightarrow> string option \<Rightarrow> string \<Rightarrow> inbound_ctx world \<Rightarrow> inbound_ctx world" where
  "admit_and_dispatch io agent m365 acct msg from name subject w =
     (let w1 = mark_as_read io m365 msg w;
          (ctx, w2) = prepare_session io acct from name subject msg w1
      in dispatch_replies io m365 (msg_id msg) (agent ctx) (emit (AgentDispatched ctx) w2))"

section \<open>The handler\<close>

definition handleIncomingMail ::
  "io_env \<Rightarrow> (inbound_ctx \<Rightarrow> reply_payload list) \<Rightarrow> 'p openclaw_config \<Rightarrow> string \<Rightarrow>
   graph_mail_message \<Rightarrow> inbound_ctx world \<Rightarrow> inbound_ctx world" where
  "handleIncomingMail io agent cfg acct msg w =
     (let fromName = msg_from_name msg;
          subject = nullish (msg_subject msg) ''(no subject)''
      in (case from_email msg of
            None \<Rightarrow> emit (Log Warn ''microsoft365: dropping message with no sender address'') w
          | Some from \<Rightarrow>
              if from = [] then emit (Log Warn ''microsoft365: dropping message with no sender address'') w
              else
                (let w1 = emit (Log Info (''Incoming email from '' @ from @ '': '' @ subject)) w;
                     m365 = m365_of cfg;
                     policy = resolve_dm_policy m365;
                     allow = read_allow_list io m365 w1
                 in if policy \<noteq> Open \<and> \<not> sender_allowed allow from
                    then reject_sender io m365 policy msg from fromName w1
                    else admit_and_dispatch io agent m365 acct msg from fromName subject w1)))"

section \<open>Approval\<close>

text \<open>\<open>PAIRING_APPROVED_MESSAGE\<close> of the plugin SDK.\<close>

definition PAIRING_APPROVED_MESSAGE :: string where
  "PAIRING_APPROVED_MESSAGE = ''OpenClaw access approved. Send a message to start chatting.''"

text \<open>\<open>pairing.notifyApproval({cfg, id})\<close>: a mail to the approved sender, if configured.\<close>

definition notifyApproval ::
  "io_env \<Rightarrow> 'p openclaw_config \<Rightarrow> string \<Rightarrow> ('c, 'x) world_scheme \<Rightarrow> ('c, 'x) world_scheme" where
  "notifyApproval io cfg sid w =
     (if \<not> has_refresh_token (m365_of cfg) then w
      else snd (graph_attempt io (SendMail sid ''OpenClaw Access Approved'' PAIRING_APPROVED_MESSAGE) w))"

text \<open>The operator approves the pending request of a sender; the channel is notified.\<close>

definition approve_sender ::
  "io_env \<Rightarrow> 'p openclaw_config \<Rightarrow> string \<Rightarrow> ('c, 'x) world_scheme \<Rightarrow> ('c, 'x) world_scheme option" where
  "approve_sender io cfg sid w =
     (case approve_pairing ''microsoft365'' sid (w_pairing w) of
        None \<Rightarrow> None
      | Some ps \<Rightarrow> Some (notifyApproval io cfg sid (w\<lparr>w_pairing := ps\<rparr>)))"

section \<open>The channel as a state machine\<close>

text \<open>
  One step of the channel for a fixed configuration and account: a message arrives and
  is handled (whatever the network and the agent do), or the operator approves a pending
  sender. Messages are handled one after the other.
\<close>

inductive m365_step :: "'p openclaw_config \<Rightarrow> string \<Rightarrow> inbound_ctx world \<Rightarrow> inbound_ctx world \<Rightarrow> bool"
  for cfg acct where
  inbound: "m365_step cfg acct w (handleIncomingMail io agent cfg acct msg w)"
| approve: "approve_sender io cfg sid w = Some w' \<Longrightarrow> m365_step cfg acct w w'"

inductive m365_reachable :: "'p openclaw_config \<Rightarrow> string \<Rightarrow> inbound_ctx world \<Rightarrow> bool"
  for cfg acct where
  start: "m365_reachable cfg acct initial_world"
| step: "m365_reachable cfg acct w \<Longrightarrow> m365_step cfg acct w w' \<Longrightarrow> m365_reachable cfg acct w'"

inductive_cases m365_stepE: "m365_step cfg acct w w'"

text \<open>
  The mail monitor's \<open>onMail\<close> callback (lines 301 to 309): the messages it delivers
  are handled one after the other, each with the network and agent behaviour of its own
  delivery.
\<close>

fun handle_mails ::
  "'p openclaw_config \<Rightarrow> string \<Rightarrow> (io_env \<times> (inbound_ctx \<Rightarrow> reply_payload list) \<times> graph_mail_message) list \<Rightarrow>
   inbound_ctx world \<Rightarrow> inbound_ctx world" where
  "handle_mails cfg acct [] w = w"
| "handle_mails cfg acct ((io, agent, msg) # ds) w =
     handle_mails cfg acct ds (handleIncomingMail io agent cfg acct msg w)"

text \<open>
  The gate's verdict on a message, as the specification states it: a sender address is
  present and non-empty, and the admission decision for the policy and the allow list
  the handler reads is to admit.
\<close>

definition handler_admits :: "io_env \<Rightarrow> 'p openclaw_config \<Rightarrow> graph_mail_message \<Rightarrow> ('c, 'x) world_scheme \<Rightarrow> bool" where
  "handler_admits io cfg msg w =
     (case from_email msg of
        None \<Rightarrow> False
      | Some f \<Rightarrow> f \<noteq> [] \<and>
          admission_decision (resolve_dm_policy (m365_of cfg)) (read_allow_list io (m365_of cfg) w) f = Admit)"

section \<open>Lemmas: the effects of each part\<close>

lemma send_pairing_reply_effects [simp]:
  "agent_calls (send_pairing_reply io m msg from code w) = agent_calls w"
  "drop_records (send_pairing_reply io m msg from code w) = drop_records w"
  "w_pairing (send_pairing_reply io m msg from code w) = w_pairing w"
  "w_sessions (send_pairing_reply io m msg from code w) = w_sessions w"
  "graph_calls (send_pairing_reply io m msg from code w) =
     graph_calls w @
     (if has_refresh_token m then [(pairing_reply_call msg from code, io_graph io (pairing_reply_call msg from code))]
      else [])"
  by (simp_all add: send_pairing_reply_def graph_attempt_def split: option.split)

lemma reject_sender_effects [simp]:
  "agent_calls (reject_sender io m policy msg from name w) = agent_calls w"
  "drop_records (reject_sender io m policy msg from name w) =
     drop_records w @ [(''microsoft365'', drop_reason policy, from)]"
  "w_sessions (reject_sender io m policy msg from name w) = w_sessions w"
  by (simp_all add: reject_sender_def Let_def split: prod.split)

lemma reject_sender_pairing:
  "w_pairing (reject_sender io m policy msg from name w) =
     (if policy = Pairing
      then snd (upsertPairingRequest ''microsoft365'' from (if name = Some [] then None else name)
                  (io_now io) (w_pairing w))
      else w_pairing w)"
  by (simp add: reject_sender_def Let_def split: prod.split)

lemma reject_sender_graph:
  "graph_calls (reject_sender io m policy msg from name w) =
     graph_calls w @
     (case upsertPairingRequest ''microsoft365'' from (if name = Some [] then None else name) (io_now io) (w_pairing w) of
        ((code, created), ps) \<Rightarrow>
          if policy = Pairing \<and> created \<and> has_refresh_token m
          then [(pairing_reply_call msg from code, io_graph io (pairing_reply_call msg from code))] else [])"
  by (simp add: reject_sender_def Let_def split: prod.split)

lemma mark_as_read_effects [simp]:
  "agent_calls (mark_as_read io m msg w) = agent_calls w"
  "drop_records (mark_as_read io m msg w) = drop_records w"
  "w_pairing (mark_as_read io m msg w) = w_pairing w"
  "w_sessions (mark_as_read io m msg w) = w_sessions w"
  "graph_calls (mark_as_read io m msg w) =
     graph_calls w @ (if has_refresh_token m then [(MarkAsRead (msg_id msg), io_graph io (MarkAsRead (msg_id msg)))] else [])"
  by (simp_all add: mark_as_read_def graph_attempt_def split: option.split)

lemma recordInboundSession_effects [simp]:
  "agent_calls (recordInboundSession io key ctx w) = agent_calls w"
  "drop_records (recordInboundSession io key ctx w) = drop_records w"
  "graph_calls (recordInboundSession io key ctx w) = graph_calls w"
  by (simp_all add: recordInboundSession_def split: option.split)

lemma prepare_session_effects [simp]:
  "agent_calls (snd (prepare_session io acct from name subject msg w)) = agent_calls w"
  "drop_records (snd (prepare_session io acct from name subject msg w)) = drop_records w"
  "graph_calls (snd (prepare_session io acct from name subject msg w)) = graph_calls w"
  by (simp_all add: prepare_session_world)

lemma payload_events_silent:
  "e \<in> set (payload_events io m mid p) \<Longrightarrow> agent_of e = [] \<and> drop_of e = []"
  by (auto simp: payload_events_def Let_def split: if_splits option.splits)

lemma dispatch_replies_effects [simp]:
  "agent_calls (dispatch_replies io m mid ps w) = agent_calls w"
  "drop_records (dispatch_replies io m mid ps w) = drop_records w"
  by (auto simp: agent_calls_def drop_records_def dispatch_trace dest: payload_events_silent)

lemma dispatch_replies_graph:
  "\<exists>cs. graph_calls (dispatch_replies io m mid ps w) = graph_calls w @ cs \<and>
        (\<forall>(c, r)\<in>set cs. \<exists>t. c = ReplyToMail mid t)"
proof -
  have "\<forall>e\<in>set (concat (map (payload_events io m mid) ps)). \<forall>(c, r)\<in>set (graph_of e). \<exists>t. c = ReplyToMail mid t"
    by (auto simp: payload_events_def Let_def split: if_splits option.splits)
  then show ?thesis
    by (auto simp: graph_calls_def dispatch_trace)
qed

lemma admit_and_dispatch_effects:
  "agent_calls (admit_and_dispatch io agent m acct msg from name subject w) =
     agent_calls w @ [fst (prepare_session io acct from name subject msg (mark_as_read io m msg w))]"
  "drop_records (admit_and_dispatch io agent m acct msg from name subject w) = drop_records w"
  "w_pairing (admit_and_dispatch io agent m acct msg from name subject w) = w_pairing w"
  by (simp_all add: admit_and_dispatch_def Let_def split_def)

lemma admit_and_dispatch_sessions:
  "w_sessions (admit_and_dispatch io agent m acct msg from name subject w) =
     w_sessions (snd (prepare_session io acct from name subject msg (mark_as_read io m msg w)))"
  by (simp add: admit_and_dispatch_def Let_def split_def)

lemma dispatch_replies_graph_eq:
  fixes w :: "('c, 'x) world_scheme"
  shows
  "graph_calls (dispatch_replies io m mid ps w) =
     graph_calls w @ concat (map graph_of (concat (map (payload_events io m mid :: _ \<Rightarrow> 'c event list) ps)))"
  by (simp add: graph_calls_def dispatch_trace)

lemma admit_and_dispatch_graph:
  "graph_calls (admit_and_dispatch io agent m acct msg from name subject w) =
     graph_calls (mark_as_read io m msg w) @
     concat (map graph_of (concat (map (payload_events io m (msg_id msg) :: _ \<Rightarrow> inbound_ctx event list)
       (agent (fst (prepare_session io acct from name subject msg (mark_as_read io m msg w)))))))"
  by (simp only: admit_and_dispatch_def Let_def split_def dispatch_replies_graph_eq
      prepare_session_effects projections_emit graph_of.simps append_Nil2)

lemma prepare_session_ctx_cong:
  "message_timestamp io msg = message_timestamp io' msg \<Longrightarrow> w_sessions w = w_sessions w' \<Longrightarrow>
   fst (prepare_session io acct from name subject msg w) = fst (prepare_session io' acct from name subject msg w')"
  by (simp add: prepare_session_ctx)

lemmas handler_part_effects = send_pairing_reply_effects reject_sender_effects mark_as_read_effects
  prepare_session_effects dispatch_replies_effects admit_and_dispatch_effects

section \<open>Lemmas: the branches of the handler\<close>

lemma read_allow_list_emit [simp]: "read_allow_list io m (emit e w) = read_allow_list io m w"
  by (simp add: read_allow_list_def)

lemma read_allow_list_cong:
  "io_store_read_fails io = io_store_read_fails io' \<Longrightarrow>
   allow_store (w_pairing w) = allow_store (w_pairing w') \<Longrightarrow>
   read_allow_list io m w = read_allow_list io' m w'"
  by (simp add: read_allow_list_def)

lemma set_read_allow_list:
  "set (read_allow_list io m w) =
     set (formatAllowFrom (resolveAllowFrom m)) \<union>
     (if io_store_read_fails io then {} else set (formatAllowFrom (allow_store (w_pairing w) ''microsoft365'')))"
  by (simp add: read_allow_list_def set_effective_allow_from)

lemma handle_no_sender:
  "from_email msg = None \<or> from_email msg = Some [] \<Longrightarrow>
   handleIncomingMail io agent cfg acct msg w =
     emit (Log Warn ''microsoft365: dropping message with no sender address'') w"
  by (auto simp: handleIncomingMail_def)

lemma handle_gated:
  assumes "from_email msg = Some from" and "from \<noteq> []"
    and "admission_decision (resolve_dm_policy (m365_of cfg)) (read_allow_list io (m365_of cfg) w) from \<noteq> Admit"
  shows "handleIncomingMail io agent cfg acct msg w =
           reject_sender io (m365_of cfg) (resolve_dm_policy (m365_of cfg)) msg from (msg_from_name msg)
             (emit (Log Info (''Incoming email from '' @ from @ '': '' @
                              nullish (msg_subject msg) ''(no subject)'')) w)"
  using assms by (simp add: handleIncomingMail_def admission_decision_def Let_def split: if_splits)

lemma handle_admitted:
  assumes "from_email msg = Some from" and "from \<noteq> []"
    and "admission_decision (resolve_dm_policy (m365_of cfg)) (read_allow_list io (m365_of cfg) w) from = Admit"
  shows "handleIncomingMail io agent cfg acct msg w =
           admit_and_dispatch io agent (m365_of cfg) acct msg from (msg_from_name msg)
             (nullish (msg_subject msg) ''(no subject)'')
             (emit (Log Info (''Incoming email from '' @ from @ '': '' @
                              nullish (msg_subject msg) ''(no subject)'')) w)"
  using assms by (auto simp: handleIncomingMail_def admission_decision_cases(1) Let_def)

end
