(* ===== verification/Orchestrator.thy ===== *)
theory Orchestrator
  imports Inbound
begin

text \<open>
  Properties of one run of \<open>handleIncomingMail\<close>, for every configuration, message,
  world and behaviour of the network and the agent: what the gate admits, in terms of
  the raw configured and stored entries; the agent is reached exactly when the gate
  admits the message, a message that is not admitted touches nothing but the
  pairing store, the log and at most one Graph reply; pairing challenges are idempotent;
  the open policy admits without the pairing store; the session timestamp read by a
  message is the one the previous message of the sender recorded; a failed session write
  or store read does not block the reply.
\<close>

section \<open>Example inputs\<close>

text \<open>
  Concrete inputs for the witnesses: a network where every call succeeds, a channel
  section with a refresh token and a given policy, and a plain-text message.
\<close>

definition example_io :: io_env where
  "example_io = \<lparr>io_now = 1000, io_store_read_fails = False, io_graph = (\<lambda>_. None),
     io_session_write = None, io_parse_date = (\<lambda>_. 0)\<rparr>"

definition example_cfg :: "dm_policy option \<Rightarrow> unit openclaw_config" where
  "example_cfg p =
     \<lparr>cfg_channels = Some [(''microsoft365'', m365_empty\<lparr>m365_dm_policy := p, m365_refresh_token := Some ''rt''\<rparr>)],
      cfg_models = None, cfg_session_store = None\<rparr>"

definition example_msg :: "string \<Rightarrow> string \<Rightarrow> graph_mail_message" where
  "example_msg mid addr =
     \<lparr>msg_id = mid, msg_from_address = Some addr, msg_from_name = None, msg_subject = Some ''Hello'',
      msg_body_content_type = Some ''text'', msg_body_content = Some ''Hi'', msg_body_preview = None,
      msg_received = None\<rparr>"

lemmas example_eval = example_io_def example_cfg_def example_msg_def from_email_def js_lower_def
  lower_char_def read_allow_list_def m365_of_def m365_empty_def initial_world_def empty_pairing_store_def
  effective_allow_from_def resolveAllowFrom_def sender_allowed_def admission_decision_def
  resolve_dm_policy_def handler_admits_def

section \<open>The three branches\<close>

lemma handle_branches:
  obtains (no_sender) "from_email msg = None \<or> from_email msg = Some []"
      and "handleIncomingMail io agent cfg acct msg w =
             emit (Log Warn ''microsoft365: dropping message with no sender address'') w"
      and "\<not> handler_admits io cfg msg w"
  | (gated) f where "from_email msg = Some f" and "f \<noteq> []"
      and "admission_decision (resolve_dm_policy (m365_of cfg)) (read_allow_list io (m365_of cfg) w) f \<noteq> Admit"
      and "handleIncomingMail io agent cfg acct msg w =
             reject_sender io (m365_of cfg) (resolve_dm_policy (m365_of cfg)) msg f (msg_from_name msg)
               (emit (Log Info (''Incoming email from '' @ f @ '': '' @
                                nullish (msg_subject msg) ''(no subject)'')) w)"
      and "\<not> handler_admits io cfg msg w"
  | (admitted) f where "from_email msg = Some f" and "f \<noteq> []"
      and "admission_decision (resolve_dm_policy (m365_of cfg)) (read_allow_list io (m365_of cfg) w) f = Admit"
      and "handleIncomingMail io agent cfg acct msg w =
             admit_and_dispatch io agent (m365_of cfg) acct msg f (msg_from_name msg)
               (nullish (msg_subject msg) ''(no subject)'')
               (emit (Log Info (''Incoming email from '' @ f @ '': '' @
                                nullish (msg_subject msg) ''(no subject)'')) w)"
      and "handler_admits io cfg msg w"
proof -
  have nsa: "from_email msg = None \<or> from_email msg = Some [] \<Longrightarrow> \<not> handler_admits io cfg msg w"
    by (auto simp: handler_admits_def)
  show ?thesis
  proof (cases "\<exists>f. from_email msg = Some f \<and> f \<noteq> []")
    case False
    then have ns: "from_email msg = None \<or> from_email msg = Some []" by (cases "from_email msg") auto
    show ?thesis by (rule no_sender [OF ns handle_no_sender [OF ns] nsa [OF ns]])
  next
    case True
    then obtain f where s: "from_email msg = Some f" and ne: "f \<noteq> []" by blast
    show ?thesis
    proof (cases "admission_decision (resolve_dm_policy (m365_of cfg)) (read_allow_list io (m365_of cfg) w) f = Admit")
      case adm: True
      have "handler_admits io cfg msg w" using s ne adm by (simp add: handler_admits_def)
      then show ?thesis by (rule admitted [OF s ne adm handle_admitted [OF s ne adm]])
    next
      case adm: False
      have "\<not> handler_admits io cfg msg w" using s ne adm by (simp add: handler_admits_def)
      then show ?thesis by (rule gated [OF s ne adm handle_gated [OF s ne adm]])
    qed
  qed
qed

lemma admitted_ctx:
  assumes "handler_admits io cfg msg w" and "from_email msg = Some f"
  shows "\<exists>c. agent_calls (handleIncomingMail io agent cfg acct msg w) = agent_calls w @ [c] \<and>
             ctx_session_key c = route_session_key (resolveAgentRoute ''microsoft365'' acct f) \<and>
             env_previous (ctx_body c) = w_sessions w (route_session_key (resolveAgentRoute ''microsoft365'' acct f)) \<and>
             ctx_timestamp c = message_timestamp io msg \<and>
             ctx_raw_body c = body_text (nullish (msg_subject msg) ''(no subject)'') (raw_body msg) \<and>
             ctx_command_body c = ctx_raw_body c \<and> env_body (ctx_body c) = ctx_raw_body c"
proof (cases rule: handle_branches [of msg io agent cfg acct w])
  case (admitted f')
  with assms have "f' = f" by simp
  with admitted show ?thesis
    by (simp add: admit_and_dispatch_effects prepare_session_key prepare_session_previous
        prepare_session_timestamp prepare_session_body)
qed (use assms in auto)

lemma admitted_sessions:
  assumes "handler_admits io cfg msg w" and "from_email msg = Some f"
  shows "w_sessions (handleIncomingMail io agent cfg acct msg w) =
           (case io_session_write io of
              None \<Rightarrow> (w_sessions w)(route_session_key (resolveAgentRoute ''microsoft365'' acct f)
                        \<mapsto> message_timestamp io msg)
            | Some _ \<Rightarrow> w_sessions w)"
proof (cases rule: handle_branches [of msg io agent cfg acct w])
  case (admitted f')
  with assms have "f' = f" by simp
  with admitted show ?thesis
    by (simp add: admit_and_dispatch_sessions prepare_session_sessions split: option.split)
qed (use assms in auto)

section \<open>The gate\<close>

text \<open>
  C7. The gate in terms of the raw inputs: a message is admitted exactly when its
  lower-cased sender address is non-empty and either the policy is \<open>open\<close>, or a
  configured \<open>allowFrom\<close> entry normalises to that address or to \<open>*\<close>, or the store
  can be read and one of its entries normalises to that address or to \<open>*\<close>.
\<close>

theorem handler_admits_iff:
  "handler_admits io cfg msg w \<longleftrightarrow>
     (\<exists>f. from_email msg = Some f \<and> f \<noteq> [] \<and>
        (resolve_dm_policy (m365_of cfg) = Open \<or>
         (\<exists>e\<in>set (resolveAllowFrom (m365_of cfg)). norm_lower_trim e = f \<or> norm_lower_trim e = ''*'') \<or>
         (\<not> io_store_read_fails io \<and>
          (\<exists>e\<in>set (allow_store (w_pairing w) ''microsoft365''). norm_lower_trim e = f \<or> norm_lower_trim e = ''*''))))"
proof -
  have fa: "f \<noteq> [] \<Longrightarrow> (f \<in> set (formatAllowFrom xs) \<or> ''*'' \<in> set (formatAllowFrom xs)) \<longleftrightarrow>
      (\<exists>e\<in>set xs. norm_lower_trim e = f \<or> norm_lower_trim e = ''*'')" for f xs
    by (auto simp: set_formatAllowFrom) (metis)
  have allowed: "f \<noteq> [] \<Longrightarrow> sender_allowed (read_allow_list io (m365_of cfg) w) f \<longleftrightarrow>
      (\<exists>e\<in>set (resolveAllowFrom (m365_of cfg)). norm_lower_trim e = f \<or> norm_lower_trim e = ''*'') \<or>
      (\<not> io_store_read_fails io \<and>
       (\<exists>e\<in>set (allow_store (w_pairing w) ''microsoft365''). norm_lower_trim e = f \<or> norm_lower_trim e = ''*''))" for f
    using fa [of f "resolveAllowFrom (m365_of cfg)"] fa [of f "allow_store (w_pairing w) ''microsoft365''"]
    unfolding sender_allowed_iff set_read_allow_list by (cases "io_store_read_fails io") (simp_all, blast)
  show ?thesis
    by (auto simp: handler_admits_def admission_decision_cases(1) allowed split: option.split)
qed

text \<open>
  C7, under the allow-list policy: the configured entry \<open>" alice@x.com "\<close> admits a
  message from \<open>alice@x.com\<close>.
\<close>

theorem handler_admits_iff_witness:
  "handler_admits example_io
     (\<lparr>cfg_channels = Some [(''microsoft365'', m365_empty\<lparr>m365_dm_policy := Some Allowlist,
                                 m365_allow_from := Some ['' alice@x.com '']\<rparr>)],
       cfg_models = None, cfg_session_store = None\<rparr> :: unit openclaw_config)
     (example_msg ''m1'' ''alice@x.com'') (initial_world :: inbound_ctx world)"
proof -
  have n: "norm_lower_trim '' alice@x.com '' = ''alice@x.com''"
    by (simp add: norm_lower_trim_def js_trim_def trim_start_def trim_end_def is_js_space_def js_lower_def
        lower_char_def)
  show ?thesis
    using n by (simp add: handler_admits_iff example_eval)
qed

text \<open>
  C1. The agent is reached exactly when the gate admits the message: a handled message
  adds one context to the agent's inputs if the sender address is present and the
  admission decision for the configured policy and the effective allow list admits it,
  and none otherwise.
\<close>

theorem handle_agent_calls:
  "\<exists>cs. agent_calls (handleIncomingMail io agent cfg acct msg w) = agent_calls w @ cs \<and>
        length cs = (if handler_admits io cfg msg w then 1 else 0)"
proof (cases rule: handle_branches [of msg io agent cfg acct w])
  case no_sender
  then show ?thesis by simp
next
  case (gated f)
  then show ?thesis by simp
next
  case (admitted f)
  then show ?thesis by (simp add: admit_and_dispatch_effects)
qed

text \<open>
  C12. A message the gate does not admit is not marked read, does not reach the session
  store, and makes at most one Graph call: the pairing instructions in reply to it.
\<close>

theorem handle_not_admitted_effects:
  assumes "\<not> handler_admits io cfg msg w"
  shows "agent_calls (handleIncomingMail io agent cfg acct msg w) = agent_calls w \<and>
         w_sessions (handleIncomingMail io agent cfg acct msg w) = w_sessions w \<and>
         (\<exists>cs. graph_calls (handleIncomingMail io agent cfg acct msg w) = graph_calls w @ cs \<and>
               length cs \<le> 1 \<and> (\<forall>(c, r)\<in>set cs. \<exists>t. c = ReplyToMail (msg_id msg) t))"
proof (cases rule: handle_branches [of msg io agent cfg acct w])
  case no_sender
  then show ?thesis by simp
next
  case (gated f)
  then show ?thesis by (auto simp: reject_sender_graph pairing_reply_call_def split: prod.split)
next
  case (admitted f)
  with assms show ?thesis by simp
qed

text \<open>
  C13. The drop record: a message from a sender the gate does not admit is logged as
  dropped, once, with the reason \<open>dmPolicy=<mode>\<close> and the sender as target; no other
  message is.
\<close>

theorem handle_drop_records:
  "drop_records (handleIncomingMail io agent cfg acct msg w) =
     drop_records w @
     (case from_email msg of
        None \<Rightarrow> []
      | Some f \<Rightarrow>
          if f \<noteq> [] \<and> admission_decision (resolve_dm_policy (m365_of cfg)) (read_allow_list io (m365_of cfg) w) f \<noteq> Admit
          then [(''microsoft365'', drop_reason (resolve_dm_policy (m365_of cfg)), f)] else [])"
proof (cases rule: handle_branches [of msg io agent cfg acct w])
  case no_sender
  then show ?thesis by auto
next
  case (gated f)
  then show ?thesis by simp
next
  case (admitted f)
  then show ?thesis by (simp add: admit_and_dispatch_effects)
qed

text \<open>The pairing store changes only when a message is challenged, by the upsert.\<close>

lemma handle_pairing_store:
  "w_pairing (handleIncomingMail io agent cfg acct msg w) =
     (case from_email msg of
        None \<Rightarrow> w_pairing w
      | Some f \<Rightarrow>
          if f \<noteq> [] \<and> admission_decision (resolve_dm_policy (m365_of cfg)) (read_allow_list io (m365_of cfg) w) f = Challenge
          then snd (upsertPairingRequest ''microsoft365'' f
                      (if msg_from_name msg = Some [] then None else msg_from_name msg) (io_now io) (w_pairing w))
          else w_pairing w)"
proof (cases rule: handle_branches [of msg io agent cfg acct w])
  case no_sender
  then show ?thesis by auto
next
  case (gated f)
  then show ?thesis by (auto simp: reject_sender_pairing admission_decision_def)
next
  case (admitted f)
  then show ?thesis by (simp add: admit_and_dispatch_effects)
qed

lemma handle_allow_store:
  "allow_store (w_pairing (handleIncomingMail io agent cfg acct msg w)) = allow_store (w_pairing w)"
  by (simp add: handle_pairing_store split: option.split)

lemma handle_mails_allow_store:
  "allow_store (w_pairing (handle_mails cfg acct ds w)) = allow_store (w_pairing w)"
  by (induction ds arbitrary: w) (auto simp: handle_allow_store)

lemma handle_graph_gated:
  assumes "from_email msg = Some f" and "f \<noteq> []"
    and "admission_decision (resolve_dm_policy (m365_of cfg)) (read_allow_list io (m365_of cfg) w) f \<noteq> Admit"
  shows "graph_calls (handleIncomingMail io agent cfg acct msg w) =
     graph_calls w @
     (case upsertPairingRequest ''microsoft365'' f (if msg_from_name msg = Some [] then None else msg_from_name msg)
             (io_now io) (w_pairing w) of
        ((code, created), ps) \<Rightarrow>
          if resolve_dm_policy (m365_of cfg) = Pairing \<and> created \<and> has_refresh_token (m365_of cfg)
          then [(pairing_reply_call msg f code, io_graph io (pairing_reply_call msg f code))] else [])"
  using assms by (simp add: handle_gated reject_sender_graph)

section \<open>Pairing\<close>

text \<open>
  C2. Idempotent pairing: under the pairing policy, a second message from a sender who is
  still not allowed, after a first one, creates no request and sends no instructions:
  the pairing store and the Graph calls stay as the first message left them, and the
  request the first message filed (with its code) is the one pending.
\<close>

theorem pairing_challenge_idempotent:
  assumes pol: "resolve_dm_policy (m365_of cfg) = Pairing"
    and m1: "from_email msg = Some f" and ne: "f \<noteq> []" and m2: "from_email msg' = Some f"
    and n1: "\<not> sender_allowed (read_allow_list io (m365_of cfg) w) f"
    and n2: "\<not> sender_allowed (read_allow_list io' (m365_of cfg) w) f"
  shows "w_pairing (handleIncomingMail io' agent' cfg acct' msg' (handleIncomingMail io agent cfg acct msg w)) =
           w_pairing (handleIncomingMail io agent cfg acct msg w) \<and>
         graph_calls (handleIncomingMail io' agent' cfg acct' msg' (handleIncomingMail io agent cfg acct msg w)) =
           graph_calls (handleIncomingMail io agent cfg acct msg w) \<and>
         find_pending ''microsoft365'' f (w_pairing (handleIncomingMail io agent cfg acct msg w)) \<noteq> None"
proof -
  let ?w1 = "handleIncomingMail io agent cfg acct msg w"
  let ?n = "\<lambda>m. if msg_from_name m = Some [] then None else msg_from_name m"
  have c1: "admission_decision (resolve_dm_policy (m365_of cfg)) (read_allow_list io (m365_of cfg) w) f = Challenge"
    using pol n1 by (simp add: admission_decision_def)
  have p1: "w_pairing ?w1 = snd (upsertPairingRequest ''microsoft365'' f (?n msg) (io_now io) (w_pairing w))"
    using c1 m1 ne by (simp add: handle_pairing_store)
  then have found: "find_pending ''microsoft365'' f (w_pairing ?w1) \<noteq> None"
    by (simp add: upsert_finds)
  then obtain r where r: "find_pending ''microsoft365'' f (w_pairing ?w1) = Some r" by blast
  have "read_allow_list io' (m365_of cfg) ?w1 = read_allow_list io' (m365_of cfg) w"
    using p1 by (intro read_allow_list_cong) simp_all
  then have c2: "admission_decision (resolve_dm_policy (m365_of cfg)) (read_allow_list io' (m365_of cfg) ?w1) f = Challenge"
    using pol n2 by (simp add: admission_decision_def)
  have up: "upsertPairingRequest ''microsoft365'' f (?n msg') (io_now io') (w_pairing ?w1) = ((req_code r, False), w_pairing ?w1)"
    using r by (rule upsert_existing)
  have "w_pairing (handleIncomingMail io' agent' cfg acct' msg' ?w1) = w_pairing ?w1"
    using c2 m2 ne up by (simp add: handle_pairing_store)
  moreover have "graph_calls (handleIncomingMail io' agent' cfg acct' msg' ?w1) = graph_calls ?w1"
    using c2 m2 ne up by (simp add: handle_graph_gated)
  ultimately show ?thesis using found by blast
qed

text \<open>A first message from \<open>new@x.com\<close> under the default (pairing) policy, then a second one.\<close>

theorem pairing_challenge_idempotent_witness:
  "resolve_dm_policy (m365_of (example_cfg None)) = Pairing \<and>
   from_email (example_msg ''m1'' ''new@x.com'') = Some ''new@x.com'' \<and>
   from_email (example_msg ''m2'' ''new@x.com'') = Some ''new@x.com'' \<and>
   \<not> sender_allowed (read_allow_list example_io (m365_of (example_cfg None)) (initial_world :: inbound_ctx world)) ''new@x.com'' \<and>
   (let w1 = handleIncomingMail example_io (\<lambda>_. []) (example_cfg None) ''default'' (example_msg ''m1'' ''new@x.com'') initial_world;
        w2 = handleIncomingMail example_io (\<lambda>_. []) (example_cfg None) ''default'' (example_msg ''m2'' ''new@x.com'') w1
    in w_pairing w2 = w_pairing w1 \<and> graph_calls w2 = graph_calls w1 \<and>
       find_pending ''microsoft365'' ''new@x.com'' (w_pairing w1) \<noteq> None)"
proof -
  have h: "resolve_dm_policy (m365_of (example_cfg None)) = Pairing"
    "from_email (example_msg ''m1'' ''new@x.com'') = Some ''new@x.com''"
    "from_email (example_msg ''m2'' ''new@x.com'') = Some ''new@x.com''"
    "\<not> sender_allowed (read_allow_list example_io (m365_of (example_cfg None)) (initial_world :: inbound_ctx world)) ''new@x.com''"
    by (simp_all add: example_eval)
  show ?thesis
    using h pairing_challenge_idempotent [where acct = "''default''" and acct' = "''default''"
        and agent = "\<lambda>_. []" and agent' = "\<lambda>_. []", OF h(1,2) _ h(3,4,4)]
    by (simp add: Let_def)
qed

text \<open>C12, at a message that the default policy challenges.\<close>

theorem handle_not_admitted_effects_witness:
  "\<not> handler_admits example_io (example_cfg None) (example_msg ''m1'' ''new@x.com'') (initial_world :: inbound_ctx world) \<and>
   agent_calls (handleIncomingMail example_io (\<lambda>_. []) (example_cfg None) ''default'' (example_msg ''m1'' ''new@x.com'') initial_world)
     = agent_calls (initial_world :: inbound_ctx world)"
proof -
  have h: "\<not> handler_admits example_io (example_cfg None) (example_msg ''m1'' ''new@x.com'') (initial_world :: inbound_ctx world)"
    by (simp add: example_eval)
  show ?thesis using h handle_not_admitted_effects [OF h, of "\<lambda>_. []" "''default''"] by simp
qed

section \<open>The message body\<close>

text \<open>
  C15. A plain-text message whose body has no content reaches the agent with the body
  \<open>undefined\<close>: \<open>message.body.content?.trim()\<close> is undefined and the \<open>?? ""\<close>
  default applies to the preview branch only, so the template literal renders
  \<open>Subject: ...\<newline>\<newline>undefined\<close> as the raw body, the command body and the envelope
  body.
\<close>

theorem text_body_without_content:
  assumes "handler_admits io cfg msg w" and "from_email msg = Some f"
    and "msg_body_content_type msg = Some ''text''" and "msg_body_content msg = None"
    and "msg_subject msg \<noteq> Some []"
  shows "\<exists>c. agent_calls (handleIncomingMail io agent cfg acct msg w) = agent_calls w @ [c] \<and>
             ctx_raw_body c = Some (''Subject: '' @ nullish (msg_subject msg) ''(no subject)'' @ ''\<newline>\<newline>undefined'') \<and>
             ctx_command_body c = ctx_raw_body c \<and> env_body (ctx_body c) = ctx_raw_body c"
proof -
  have "body_text (nullish (msg_subject msg) ''(no subject)'') (raw_body msg) =
        Some (''Subject: '' @ nullish (msg_subject msg) ''(no subject)'' @ ''\<newline>\<newline>undefined'')"
    using assms(3-5) by (auto simp: body_text_def raw_body_def js_template_def split: option.split)
  then show ?thesis using admitted_ctx [OF assms(1,2), of agent acct] by auto
qed

theorem text_body_without_content_witness:
  "\<exists>c. agent_calls (handleIncomingMail example_io (\<lambda>_. []) (example_cfg (Some Open)) ''default''
          ((example_msg ''m1'' ''a@x.com'')\<lparr>msg_body_content := None\<rparr>) initial_world) = [c] \<and>
       ctx_raw_body c = Some ''Subject: Hello\<newline>\<newline>undefined''"
proof -
  let ?m = "(example_msg ''m1'' ''a@x.com'')\<lparr>msg_body_content := None\<rparr>"
  have h: "handler_admits example_io (example_cfg (Some Open)) ?m (initial_world :: inbound_ctx world)"
    "from_email ?m = Some ''a@x.com''" "msg_body_content_type ?m = Some ''text''"
    "msg_body_content ?m = None" "msg_subject ?m \<noteq> Some []"
    by (simp_all add: example_eval)
  have "agent_calls (initial_world :: inbound_ctx world) = []"
    by (simp add: agent_calls_def initial_world_def)
  moreover have "msg_subject ?m = Some ''Hello''" by (simp add: example_msg_def)
  ultimately show ?thesis
    using text_body_without_content [OF h, of "\<lambda>_. []" "''default''"] by auto
qed

section \<open>The open policy and the allow lists\<close>

text \<open>
  C4. Under the open policy every message with a non-empty sender address is admitted:
  the agent is reached once and the pairing store is not touched.
\<close>

theorem open_policy_admits:
  assumes "resolve_dm_policy (m365_of cfg) = Open" and "from_email msg = Some f" and "f \<noteq> []"
  shows "handler_admits io cfg msg w \<and>
         w_pairing (handleIncomingMail io agent cfg acct msg w) = w_pairing w \<and>
         length (agent_calls (handleIncomingMail io agent cfg acct msg w)) = Suc (length (agent_calls w))"
proof -
  have adm: "handler_admits io cfg msg w"
    using assms by (simp add: handler_admits_def admission_decision_def)
  then obtain c where "agent_calls (handleIncomingMail io agent cfg acct msg w) = agent_calls w @ [c]"
    using admitted_ctx [OF _ assms(2)] by blast
  moreover have "w_pairing (handleIncomingMail io agent cfg acct msg w) = w_pairing w"
    using assms by (simp add: handle_pairing_store admission_decision_def)
  ultimately show ?thesis using adm by simp
qed

theorem open_policy_admits_witness:
  "resolve_dm_policy (m365_of (example_cfg (Some Open))) = Open \<and>
   from_email (example_msg ''m1'' ''anyone@x.com'') = Some ''anyone@x.com'' \<and>
   w_pairing (handleIncomingMail example_io (\<lambda>_. []) (example_cfg (Some Open)) ''default''
     (example_msg ''m1'' ''anyone@x.com'') initial_world) = w_pairing (initial_world :: inbound_ctx world)"
proof -
  have h: "resolve_dm_policy (m365_of (example_cfg (Some Open))) = Open"
    "from_email (example_msg ''m1'' ''anyone@x.com'') = Some ''anyone@x.com''"
    by (simp_all add: example_eval)
  show ?thesis
    using h open_policy_admits [OF h, of example_io initial_world "\<lambda>_. []" "''default''"] by simp
qed

text \<open>
  C11. A failed read of the allow-from store degrades to the static list: a sender that
  the configured \<open>allowFrom\<close> allows is admitted under every policy whatever the store
  read does.
\<close>

theorem static_allow_survives_store_failure:
  assumes "sender_allowed (formatAllowFrom (resolveAllowFrom m)) f"
  shows "admission_decision p (read_allow_list io m w) f = Admit"
proof -
  have "set (formatAllowFrom (resolveAllowFrom m)) \<subseteq> set (read_allow_list io m w)"
    by (auto simp: set_read_allow_list)
  then show ?thesis using assms by (auto simp: admission_decision_cases intro: sender_allowed_mono)
qed

theorem static_allow_survives_store_failure_witness:
  "sender_allowed (formatAllowFrom (resolveAllowFrom (Some (m365_empty\<lparr>m365_allow_from := Some [''a@x.com'']\<rparr>)))) ''a@x.com'' \<and>
   admission_decision Allowlist
     (read_allow_list (example_io\<lparr>io_store_read_fails := True\<rparr>) (Some (m365_empty\<lparr>m365_allow_from := Some [''a@x.com'']\<rparr>))
        (initial_world :: inbound_ctx world)) ''a@x.com'' = Admit"
proof -
  have h: "sender_allowed (formatAllowFrom (resolveAllowFrom (Some (m365_empty\<lparr>m365_allow_from := Some [''a@x.com'']\<rparr>)))) ''a@x.com''"
    by (simp add: example_eval formatAllowFrom_def norm_lower_trim_def js_trim_def trim_start_def
        trim_end_def is_js_space_def)
  show ?thesis using h static_allow_survives_store_failure [OF h] by simp
qed

text \<open>
  C16. Policy monotonicity: a sender whose approval is in the allow-from store is admitted
  under every policy and whatever the configured list says, as long as the store can be
  read.
\<close>

theorem approved_sender_admitted:
  assumes "f \<in> set (formatAllowFrom (allow_store (w_pairing w) ''microsoft365''))"
    and "\<not> io_store_read_fails io"
  shows "admission_decision p (read_allow_list io m w) f = Admit"
  using assms by (auto simp: admission_decision_cases sender_allowed_iff set_read_allow_list)

theorem approved_sender_admitted_witness:
  "''b@x.com'' \<in> set (formatAllowFrom (allow_store (w_pairing ((initial_world :: inbound_ctx world)
      \<lparr>w_pairing := empty_pairing_store\<lparr>allow_store := (\<lambda>_. [''b@x.com''])\<rparr>\<rparr>)) ''microsoft365'')) \<and>
   \<not> io_store_read_fails example_io \<and>
   admission_decision Pairing (read_allow_list example_io None ((initial_world :: inbound_ctx world)
      \<lparr>w_pairing := empty_pairing_store\<lparr>allow_store := (\<lambda>_. [''b@x.com''])\<rparr>\<rparr>)) ''b@x.com'' = Admit"
proof -
  have h: "''b@x.com'' \<in> set (formatAllowFrom (allow_store (w_pairing ((initial_world :: inbound_ctx world)
      \<lparr>w_pairing := empty_pairing_store\<lparr>allow_store := (\<lambda>_. [''b@x.com''])\<rparr>\<rparr>)) ''microsoft365''))"
    "\<not> io_store_read_fails example_io"
    by (simp_all add: example_eval formatAllowFrom_def norm_lower_trim_def js_trim_def trim_start_def
        trim_end_def is_js_space_def)
  show ?thesis using h approved_sender_admitted [OF h] by simp
qed

section \<open>Sessions\<close>

text \<open>
  C5. Session timestamp continuity: two admitted messages from the same sender on the same
  account, the first on a fresh session key with a successful session write; the first
  context reads no previous timestamp, the second reads exactly the timestamp recorded
  for the first.
\<close>

theorem session_timestamp_continuity:
  assumes a1: "handler_admits io1 cfg msg1 w" and f1: "from_email msg1 = Some f"
    and fresh: "w_sessions w (route_session_key (resolveAgentRoute ''microsoft365'' acct f)) = None"
    and ok: "io_session_write io1 = None"
    and a2: "handler_admits io2 cfg msg2 (handleIncomingMail io1 agent1 cfg acct msg1 w)"
    and f2: "from_email msg2 = Some f"
  shows "\<exists>c1 c2. agent_calls (handleIncomingMail io2 agent2 cfg acct msg2 (handleIncomingMail io1 agent1 cfg acct msg1 w)) =
                  agent_calls w @ [c1, c2] \<and>
                env_previous (ctx_body c1) = None \<and> env_previous (ctx_body c2) = Some (ctx_timestamp c1)"
proof -
  let ?k = "route_session_key (resolveAgentRoute ''microsoft365'' acct f)"
  let ?w1 = "handleIncomingMail io1 agent1 cfg acct msg1 w"
  obtain c1 where c1: "agent_calls ?w1 = agent_calls w @ [c1]" "env_previous (ctx_body c1) = w_sessions w ?k"
    "ctx_timestamp c1 = message_timestamp io1 msg1"
    using admitted_ctx [OF a1 f1, of agent1 acct] by blast
  have s1: "w_sessions ?w1 ?k = Some (message_timestamp io1 msg1)"
    using admitted_sessions [OF a1 f1, of agent1 acct] ok by simp
  obtain c2 where c2: "agent_calls (handleIncomingMail io2 agent2 cfg acct msg2 ?w1) = agent_calls ?w1 @ [c2]"
    "env_previous (ctx_body c2) = w_sessions ?w1 ?k"
    using admitted_ctx [OF a2 f2, of agent2 acct] by blast
  show ?thesis using c1 c2 s1 fresh by auto
qed

theorem session_timestamp_continuity_witness:
  "let cfg = example_cfg (Some Open); io = example_io\<lparr>io_now := 5\<rparr>;
       w1 = handleIncomingMail io (\<lambda>_. []) cfg ''default'' (example_msg ''m1'' ''a@x.com'') initial_world
   in handler_admits io cfg (example_msg ''m1'' ''a@x.com'') (initial_world :: inbound_ctx world) \<and>
      from_email (example_msg ''m1'' ''a@x.com'') = Some ''a@x.com'' \<and>
      w_sessions (initial_world :: inbound_ctx world)
        (route_session_key (resolveAgentRoute ''microsoft365'' ''default'' ''a@x.com'')) = None \<and>
      io_session_write io = None \<and>
      handler_admits example_io cfg (example_msg ''m2'' ''a@x.com'') w1 \<and>
      (\<exists>c1 c2. agent_calls (handleIncomingMail example_io (\<lambda>_. []) cfg ''default'' (example_msg ''m2'' ''a@x.com'') w1)
                = agent_calls (initial_world :: inbound_ctx world) @ [c1, c2] \<and>
              env_previous (ctx_body c1) = None \<and> env_previous (ctx_body c2) = Some (ctx_timestamp c1))"
proof -
  let ?cfg = "example_cfg (Some Open)" and ?io = "example_io\<lparr>io_now := 5\<rparr>"
  let ?w1 = "handleIncomingMail ?io (\<lambda>_. []) ?cfg ''default'' (example_msg ''m1'' ''a@x.com'') initial_world"
  have h: "handler_admits ?io ?cfg (example_msg ''m1'' ''a@x.com'') (initial_world :: inbound_ctx world)"
    "from_email (example_msg ''m1'' ''a@x.com'') = Some ''a@x.com''"
    "w_sessions (initial_world :: inbound_ctx world)
        (route_session_key (resolveAgentRoute ''microsoft365'' ''default'' ''a@x.com'')) = None"
    "io_session_write ?io = None"
    "handler_admits example_io ?cfg (example_msg ''m2'' ''a@x.com'') ?w1"
    "from_email (example_msg ''m2'' ''a@x.com'') = Some ''a@x.com''"
    by (simp_all add: example_eval)
  show ?thesis
    using h session_timestamp_continuity [OF h] by (simp add: Let_def)
qed

text \<open>
  C14. A failed session write does not block the reply: the agent's inputs and the Graph
  calls of a handled message are the same whatever the session store reports.
\<close>

theorem session_write_failure_isolated:
  "agent_calls (handleIncomingMail (io\<lparr>io_session_write := e\<rparr>) agent cfg acct msg w) =
     agent_calls (handleIncomingMail io agent cfg acct msg w) \<and>
   graph_calls (handleIncomingMail (io\<lparr>io_session_write := e\<rparr>) agent cfg acct msg w) =
     graph_calls (handleIncomingMail io agent cfg acct msg w)"
proof -
  let ?io' = "io\<lparr>io_session_write := e\<rparr>"
  have rl: "read_allow_list ?io' m v = read_allow_list io m v" for m and v :: "inbound_ctx world"
    by (simp add: read_allow_list_def)
  have ts: "message_timestamp ?io' msg = message_timestamp io msg"
    by (simp add: message_timestamp_def split: option.split)
  have pc: "payload_events ?io' m mid = payload_events io m mid" for m mid
    by (rule ext) (simp add: payload_events_def Let_def split: if_split option.split)
  have ps: "fst (prepare_session ?io' acct f n s msg v) = fst (prepare_session io acct f n s msg v)"
    for f n s and v :: "inbound_ctx world"
    using ts by (rule prepare_session_ctx_cong) simp
  have mr: "mark_as_read ?io' m msg v = mark_as_read io m msg v" for m and v :: "inbound_ctx world"
    by (simp add: mark_as_read_def graph_attempt_def)
  show ?thesis
  proof (cases rule: handle_branches [of msg io agent cfg acct w])
    case no_sender
    then show ?thesis by (simp add: handle_no_sender)
  next
    case (gated f)
    then show ?thesis
      by (simp add: handle_gated rl reject_sender_graph split: prod.split)
  next
    case (admitted f)
    then have "handleIncomingMail ?io' agent cfg acct msg w =
             admit_and_dispatch ?io' agent (m365_of cfg) acct msg f (msg_from_name msg)
               (nullish (msg_subject msg) ''(no subject)'')
               (emit (Log Info (''Incoming email from '' @ f @ '': '' @
                                nullish (msg_subject msg) ''(no subject)'')) w)"
      by (simp add: handle_admitted rl)
    with admitted show ?thesis
      by (simp add: admit_and_dispatch_effects admit_and_dispatch_graph mr pc ps)
  qed
qed

section \<open>The cost of one message\<close>

lemma payload_graph_length:
  "length (concat (map graph_of (payload_events io m mid p :: 'c event list))) \<le> 1"
  by (simp add: payload_events_def Let_def split: option.split)

lemma payloads_graph_length:
  "length (concat (map graph_of (concat (map (payload_events io m mid :: _ \<Rightarrow> 'c event list) ps)))) \<le> length ps"
proof (induction ps)
  case (Cons p ps)
  have "length (concat (map graph_of (payload_events io m mid p :: 'c event list))) \<le> 1"
    by (rule payload_graph_length)
  with Cons show ?case by simp
qed simp

text \<open>
  C39. The network cost of one message is bounded: handling a message hands at most one
  context to the agent and makes at most one Graph call more than the number of
  payloads the agent returns for it (the mark-as-read or the pairing reply, and at most
  one reply per payload).
\<close>

theorem handle_graph_calls_bound:
  "\<exists>cs ds. agent_calls (handleIncomingMail io agent cfg acct msg w) = agent_calls w @ ds \<and>
           graph_calls (handleIncomingMail io agent cfg acct msg w) = graph_calls w @ cs \<and>
           length ds \<le> 1 \<and> length cs \<le> Suc (sum_list (map (\<lambda>c. length (agent c)) ds))"
proof (cases rule: handle_branches [of msg io agent cfg acct w])
  case no_sender
  then show ?thesis by simp
next
  case (gated f)
  then show ?thesis by (auto simp: reject_sender_graph split: prod.split)
next
  case (admitted f)
  let ?w1 = "emit (Log Info (''Incoming email from '' @ f @ '': '' @ nullish (msg_subject msg) ''(no subject)'')) w"
  let ?c = "fst (prepare_session io acct f (msg_from_name msg) (nullish (msg_subject msg) ''(no subject)'') msg
              (mark_as_read io (m365_of cfg) msg ?w1))"
  have "length (concat (map graph_of (concat (map (payload_events io (m365_of cfg) (msg_id msg) :: _ \<Rightarrow> inbound_ctx event list)
          (agent ?c))))) \<le> length (agent ?c)"
    by (rule payloads_graph_length)
  then show ?thesis using admitted
    by (simp add: admit_and_dispatch_effects admit_and_dispatch_graph)
qed

end
