(* ===== verification/ExtraParams.thy ===== *)
theory ExtraParams
  imports Config Complex_Main
begin

text \<open>
  The model-parameter wrapper of the embedded agent runner
  (\<open>src/src/agents/pi-embedded-runner/extra-params.ts\<close>), its earlier version
  (\<open>src/unnamed/part_000\<close>) and the reasoning-tag provider test
  (\<open>src/unnamed/part_001\<close>). \<open>applyExtraParamsToAgent\<close> reads the model's
  \<open>params\<close> from the configuration, merges a caller override over them, keeps the
  recognised ones (\<open>temperature\<close>, \<open>maxTokens\<close>, \<open>toolChoice\<close>, the cache
  retention) and replaces the agent's stream function by a wrapper that passes them to
  every call; for OpenRouter it adds a second wrapper with the attribution headers.

  JavaScript values are the datatype \<open>js_value\<close>; a plain object is an association
  list in key order (\<open>js_object\<close>), read with \<open>obj_get\<close> (an absent key reads
  \<open>undefined\<close>), written with \<open>obj_set\<close> (an existing key keeps its position), spread
  and \<open>Object.assign\<close> are \<open>obj_assign\<close>. A stream function is one of the closures the
  code builds (\<open>stream_fn\<close>); \<open>invoke\<close> computes which underlying function a call
  reaches and with which options, which is everything the wrappers do.
\<close>

section \<open>JavaScript values and objects\<close>

datatype js_value =
    JUndef
  | JNull
  | JBool bool
  | JNum real
  | JStr string
  | JObj "(string \<times> js_value) list"

type_synonym js_object = "(string \<times> js_value) list"

text \<open>\<open>ob[k]\<close>\<close>

definition obj_get :: "js_object \<Rightarrow> string \<Rightarrow> js_value" where
  "obj_get ob k = (case map_of ob k of None \<Rightarrow> JUndef | Some v \<Rightarrow> v)"

text \<open>\<open>ob[k] = v\<close>: an existing key keeps its position, a new key goes last.\<close>

definition obj_set :: "js_object \<Rightarrow> string \<Rightarrow> js_value \<Rightarrow> js_object" where
  "obj_set ob k v =
     (if k \<in> set (map fst ob) then map (\<lambda>(k', v'). if k' = k then (k', v) else (k', v')) ob
      else ob @ [(k, v)])"

text \<open>\<open>Object.assign(a, b)\<close>, and \<open>{...a, ...b}\<close>: the properties of \<open>b\<close> set on \<open>a\<close> in order.\<close>

definition obj_assign :: "js_object \<Rightarrow> js_object \<Rightarrow> js_object" where
  "obj_assign a b = foldl (\<lambda>acc (k, v). obj_set acc k v) a b"

text \<open>\<open>Object.fromEntries(Object.entries(ob).filter(([, v]) => v !== undefined))\<close>\<close>

definition filter_defined :: "js_object \<Rightarrow> js_object" where
  "filter_defined ob = filter (\<lambda>(k, v). v \<noteq> JUndef) ob"

text \<open>The keys of an object are distinct.\<close>

definition obj_wf :: "js_object \<Rightarrow> bool" where
  "obj_wf ob \<longleftrightarrow> distinct (map fst ob)"

text \<open>\<open>Boolean(v)\<close>. \<open>NaN\<close> is not a value of the model.\<close>

fun js_truthy :: "js_value \<Rightarrow> bool" where
  "js_truthy JUndef = False"
| "js_truthy JNull = False"
| "js_truthy (JBool b) = b"
| "js_truthy (JNum n) = (n \<noteq> 0)"
| "js_truthy (JStr s) = (s \<noteq> [])"
| "js_truthy (JObj _) = True"

text \<open>\<open>typeof v === "number"\<close>\<close>

fun js_is_number :: "js_value \<Rightarrow> bool" where
  "js_is_number (JNum n) = True"
| "js_is_number _ = False"

text \<open>
  \<open>{...v}\<close> for the value of \<open>options.headers\<close>: the properties of an object, none for
  \<open>undefined\<close> or \<open>null\<close>. The headers are typed \<open>Record<string, string>\<close>, so the
  spread of a primitive is not modelled (it gives no properties here).
\<close>

definition spread_of :: "js_value \<Rightarrow> js_object" where
  "spread_of v = (case v of JObj ob \<Rightarrow> ob | _ \<Rightarrow> [])"

section \<open>Configuration\<close>

text \<open>
  An entry of \<open>cfg.agents.defaults.models\<close>, keyed by \<open>provider/modelId\<close>: its
  optional \<open>params\<close> object. The \<open>cfg_models\<close> field of \<open>openclaw_config\<close> holds the
  entries.
\<close>

record model_entry =
  model_params :: "js_object option"

text \<open>\<open>resolveExtraParams\<close> (lines 18 to 26): a copy of the model's \<open>params\<close>; an object is truthy.\<close>

definition resolveExtraParams ::
  "model_entry openclaw_config option \<Rightarrow> string \<Rightarrow> string \<Rightarrow> js_object option" where
  "resolveExtraParams cfg provider modelId =
     (let modelKey = provider @ ''/'' @ modelId
      in case cfg of None \<Rightarrow> None
         | Some c \<Rightarrow>
             (case cfg_models c of None \<Rightarrow> None
              | Some ms \<Rightarrow>
                  (case map_of ms modelKey of None \<Rightarrow> None
                   | Some mc \<Rightarrow>
                       (case model_params mc of None \<Rightarrow> None
                        | Some p \<Rightarrow> Some (obj_assign [] p)))))"

section \<open>Cache retention\<close>

datatype cache_retention = CRNone | CRShort | CRLong

definition cache_retention_str :: "cache_retention \<Rightarrow> string" where
  "cache_retention_str r = (case r of CRNone \<Rightarrow> ''none'' | CRShort \<Rightarrow> ''short'' | CRLong \<Rightarrow> ''long'')"

text \<open>
  \<open>resolveCacheRetention\<close> (lines 42 to 65): Anthropic only; a valid
  \<open>cacheRetention\<close> wins, else the legacy \<open>cacheControlTtl\<close> maps \<open>5m\<close> to short and
  \<open>1h\<close> to long.
\<close>

definition resolveCacheRetention :: "js_object option \<Rightarrow> string \<Rightarrow> cache_retention option" where
  "resolveCacheRetention ep provider =
     (if provider \<noteq> ''anthropic'' then None
      else
        (let newVal = obj_get (nullish ep []) ''cacheRetention''
         in if newVal = JStr ''none'' then Some CRNone
            else if newVal = JStr ''short'' then Some CRShort
            else if newVal = JStr ''long'' then Some CRLong
            else
              (let legacy = obj_get (nullish ep []) ''cacheControlTtl''
               in if legacy = JStr ''5m'' then Some CRShort
                  else if legacy = JStr ''1h'' then Some CRLong
                  else None)))"

section \<open>Stream functions\<close>

text \<open>
  The stream functions the code handles: the library's \<open>stream\<close> and
  \<open>streamSimple\<close>, a stream function the agent already had (opaque, named by a number),
  and the two wrappers with what their closures capture.
\<close>

datatype stream_fn =
    Stream
  | StreamSimple
  | AgentStreamFn nat
  | ExtraParamsWrapper js_object stream_fn
  | OpenRouterHeadersWrapper stream_fn

definition OPENROUTER_APP_HEADERS :: js_object where
  "OPENROUTER_APP_HEADERS =
     [(''HTTP-Referer'', JStr ''https://openclaw.ai''), (''X-Title'', JStr ''OpenClaw'')]"

text \<open>
  A call \<open>fn(model, context, options)\<close>: the function the call finally reaches and the
  options it receives (\<open>None\<close>: \<open>undefined\<close>). The extra-params wrapper (lines 110 to
  121) merges the defined caller options over its stream parameters; the OpenRouter
  wrapper (lines 132 to 139) sets \<open>headers\<close> to the app headers overridden by the
  caller's.
\<close>

fun invoke :: "stream_fn \<Rightarrow> js_object option \<Rightarrow> stream_fn \<times> js_object option" where
  "invoke (ExtraParamsWrapper sp u) opts =
     invoke u (Some (obj_assign (obj_assign [] sp)
                       (case opts of None \<Rightarrow> [] | Some ob \<Rightarrow> filter_defined ob)))"
| "invoke (OpenRouterHeadersWrapper u) opts =
     invoke u (Some (obj_set (obj_assign [] (nullish opts [])) ''headers''
                       (JObj (obj_assign (obj_assign [] OPENROUTER_APP_HEADERS)
                                (spread_of (obj_get (nullish opts []) ''headers''))))))"
| "invoke f opts = (f, opts)"

text \<open>
  The closures the code builds around a stream function, and how many of them there
  are between a stream function and the base function a call through it reaches.
\<close>

fun is_base_fn :: "stream_fn \<Rightarrow> bool" where
  "is_base_fn (ExtraParamsWrapper sp u) = False"
| "is_base_fn (OpenRouterHeadersWrapper u) = False"
| "is_base_fn f = True"

fun wrapper_depth :: "stream_fn \<Rightarrow> nat" where
  "wrapper_depth (ExtraParamsWrapper sp u) = Suc (wrapper_depth u)"
| "wrapper_depth (OpenRouterHeadersWrapper u) = Suc (wrapper_depth u)"
| "wrapper_depth f = 0"

text \<open>
  \<open>createStreamFnWithExtraParams\<close> (lines 67 to 124): the stream parameters the
  merged object yields, in the order the code sets them, and the wrapper over
  \<open>stream\<close> when a tool choice is set (whatever the agent's function is), else over the
  agent's function or \<open>streamSimple\<close>; \<open>None\<close> when nothing is recognised. The debug
  log line is not modelled. \<open>base_stream_params\<close> is the part both versions share
  (lines 76 to 92 here, lines 54 to 71 of the earlier version).
\<close>

definition base_stream_params :: "js_object \<Rightarrow> js_object" where
  "base_stream_params e =
     (let sp1 = (if js_is_number (obj_get e ''temperature'') then obj_set [] ''temperature'' (obj_get e ''temperature'') else []);
          sp2 = (if js_is_number (obj_get e ''maxTokens'') then obj_set sp1 ''maxTokens'' (obj_get e ''maxTokens'') else sp1);
          tc = obj_get e ''toolChoice''
      in if tc = JStr ''auto'' \<or> tc = JStr ''none'' \<or> tc = JStr ''required''
         then obj_set sp2 ''toolChoice'' tc else sp2)"

definition stream_params :: "js_object \<Rightarrow> cache_retention option \<Rightarrow> js_object" where
  "stream_params e cr =
     (case cr of None \<Rightarrow> base_stream_params e
      | Some r \<Rightarrow> obj_set (base_stream_params e) ''cacheRetention'' (JStr (cache_retention_str r)))"

text \<open>
  The entries the stream parameters may hold, by the checks of lines 76 to 98: a
  numeric \<open>temperature\<close> or \<open>maxTokens\<close>, one of the three tool choices, or a
  cache retention, which only Anthropic gets.
\<close>

definition stream_param_ok :: "string \<Rightarrow> string \<times> js_value \<Rightarrow> bool" where
  "stream_param_ok provider kv \<longleftrightarrow>
     (fst kv = ''temperature'' \<and> js_is_number (snd kv)) \<or> (fst kv = ''maxTokens'' \<and> js_is_number (snd kv)) \<or>
     (fst kv = ''toolChoice'' \<and> snd kv \<in> {JStr ''auto'', JStr ''none'', JStr ''required''}) \<or>
     (fst kv = ''cacheRetention'' \<and> provider = ''anthropic'' \<and> snd kv \<in> {JStr ''none'', JStr ''short'', JStr ''long''})"

definition createStreamFnWithExtraParams ::
  "stream_fn option \<Rightarrow> js_object option \<Rightarrow> string \<Rightarrow> stream_fn option" where
  "createStreamFnWithExtraParams base ep provider =
     (case ep of None \<Rightarrow> None
      | Some e \<Rightarrow>
          if e = [] then None
          else
            (let sp = stream_params e (resolveCacheRetention ep provider)
             in if sp = [] then None
                else
                  (let needsFullStream = js_truthy (obj_get sp ''toolChoice'');
                       underlying = (if needsFullStream then Stream else nullish base StreamSimple)
                   in Some (ExtraParamsWrapper sp underlying))))"

text \<open>\<open>createOpenRouterHeadersWrapper\<close> (lines 130 to 140)\<close>

definition createOpenRouterHeadersWrapper :: "stream_fn option \<Rightarrow> stream_fn" where
  "createOpenRouterHeadersWrapper base = OpenRouterHeadersWrapper (nullish base StreamSimple)"

text \<open>
  \<open>applyExtraParamsToAgent\<close> (lines 148 to 178), as the agent's \<open>streamFn\<close> after
  the call: the configured parameters, overridden by the defined entries of a non-empty
  override, make the wrapper; OpenRouter gets the headers wrapper on top.
\<close>

definition merged_params :: "js_object option \<Rightarrow> js_object option \<Rightarrow> js_object" where
  "merged_params extraParams extraParamsOverride =
     (let override = (case extraParamsOverride of None \<Rightarrow> None
                      | Some ov \<Rightarrow> if ov \<noteq> [] then Some (filter_defined ov) else None)
      in obj_assign (obj_assign [] (nullish extraParams [])) (nullish override []))"

definition applyExtraParamsToAgent ::
  "stream_fn option \<Rightarrow> model_entry openclaw_config option \<Rightarrow> string \<Rightarrow> string \<Rightarrow> js_object option \<Rightarrow>
   stream_fn option" where
  "applyExtraParamsToAgent streamFn cfg provider modelId extraParamsOverride =
     (let extraParams = resolveExtraParams cfg provider modelId;
          merged = merged_params extraParams extraParamsOverride;
          streamFn1 = (case createStreamFnWithExtraParams streamFn (Some merged) provider of
                         None \<Rightarrow> streamFn | Some w \<Rightarrow> Some w)
      in if provider = ''openrouter'' then Some (createOpenRouterHeadersWrapper streamFn1)
         else streamFn1)"

section \<open>The earlier version\<close>

text \<open>
  \<open>src/unnamed/part_000\<close>: the same wrapper with the legacy \<open>cacheControlTtl\<close>
  passed through, for Anthropic and for OpenRouter's \<open>anthropic/\<close> models, and no
  OpenRouter headers. \<open>resolveExtraParams\<close> and the first three stream parameters
  (\<open>base_stream_params\<close>) are the same code.
\<close>

datatype cache_control_ttl = Ttl5m | Ttl1h

definition cache_control_ttl_str :: "cache_control_ttl \<Rightarrow> string" where
  "cache_control_ttl_str t = (case t of Ttl5m \<Rightarrow> ''5m'' | Ttl1h \<Rightarrow> ''1h'')"

definition resolveCacheControlTtl :: "js_object option \<Rightarrow> string \<Rightarrow> string \<Rightarrow> cache_control_ttl option" where
  "resolveCacheControlTtl ep provider modelId =
     (let raw = obj_get (nullish ep []) ''cacheControlTtl''
      in if raw \<noteq> JStr ''5m'' \<and> raw \<noteq> JStr ''1h'' then None
         else
           (let t = (if raw = JStr ''5m'' then Ttl5m else Ttl1h)
            in if provider = ''anthropic'' then Some t
               else if provider = ''openrouter'' \<and> starts_with modelId ''anthropic/'' then Some t
               else None))"

definition stream_params_legacy :: "js_object \<Rightarrow> cache_control_ttl option \<Rightarrow> js_object" where
  "stream_params_legacy e ttl =
     (case ttl of None \<Rightarrow> base_stream_params e
      | Some t \<Rightarrow> obj_set (base_stream_params e) ''cacheControlTtl'' (JStr (cache_control_ttl_str t)))"

definition createStreamFnWithExtraParams_legacy ::
  "stream_fn option \<Rightarrow> js_object option \<Rightarrow> string \<Rightarrow> string \<Rightarrow> stream_fn option" where
  "createStreamFnWithExtraParams_legacy base ep provider modelId =
     (case ep of None \<Rightarrow> None
      | Some e \<Rightarrow>
          if e = [] then None
          else
            (let sp = stream_params_legacy e (resolveCacheControlTtl ep provider modelId)
             in if sp = [] then None
                else
                  (let needsFullStream = js_truthy (obj_get sp ''toolChoice'');
                       underlying = (if needsFullStream then Stream else nullish base StreamSimple)
                   in Some (ExtraParamsWrapper sp underlying))))"

definition applyExtraParamsToAgent_legacy ::
  "stream_fn option \<Rightarrow> model_entry openclaw_config option \<Rightarrow> string \<Rightarrow> string \<Rightarrow> js_object option \<Rightarrow>
   stream_fn option" where
  "applyExtraParamsToAgent_legacy streamFn cfg provider modelId extraParamsOverride =
     (let extraParams = resolveExtraParams cfg provider modelId;
          merged = merged_params extraParams extraParamsOverride
      in case createStreamFnWithExtraParams_legacy streamFn (Some merged) provider modelId of
           None \<Rightarrow> streamFn | Some w \<Rightarrow> Some w)"

section \<open>The earlier version as an abstraction\<close>

text \<open>
  The correspondence between the two versions' parameters: a legacy time-to-live and
  its retention, and an entry of the earlier version's stream parameters as the current
  version names it.
\<close>

definition retention_of_ttl :: "cache_control_ttl \<Rightarrow> cache_retention" where
  "retention_of_ttl t = (case t of Ttl5m \<Rightarrow> CRShort | Ttl1h \<Rightarrow> CRLong)"

definition current_of_legacy :: "string \<times> js_value \<Rightarrow> string \<times> js_value" where
  "current_of_legacy kv =
     (if kv = (''cacheControlTtl'', JStr ''5m'') then (''cacheRetention'', JStr ''short'')
      else if kv = (''cacheControlTtl'', JStr ''1h'') then (''cacheRetention'', JStr ''long'')
      else kv)"

fun current_wrapper_of_legacy :: "stream_fn \<Rightarrow> stream_fn" where
  "current_wrapper_of_legacy (ExtraParamsWrapper sp u) = ExtraParamsWrapper (map current_of_legacy sp) u"
| "current_wrapper_of_legacy f = f"

section \<open>Reasoning-tag providers\<close>

text \<open>\<open>isReasoningTagProvider\<close> (\<open>src/unnamed/part_001\<close>, lines 10 to 37)\<close>

definition isReasoningTagProvider :: "string option \<Rightarrow> bool" where
  "isReasoningTagProvider provider =
     (case provider of None \<Rightarrow> False
      | Some p \<Rightarrow>
          if p = [] then False
          else
            (let normalized = js_lower (js_trim p)
             in if normalized = ''google-gemini-cli'' \<or> normalized = ''google-generative-ai'' then True
                else if js_includes normalized ''google-antigravity'' then True
                else if js_includes normalized ''minimax'' then True
                else False))"

section \<open>Objects\<close>

lemma map_fst_obj_update [simp]:
  "map (fst \<circ> (\<lambda>(k', v'). if k' = k then (k', v) else (k', v'))) ob = map fst ob"
  by (induction ob) auto

lemma map_of_obj_update:
  "map_of (map (\<lambda>(k', v'). if k' = k then (k', v) else (k', v')) ob) x =
     (if x = k then map_option (\<lambda>_. v) (map_of ob x) else map_of ob x)"
  by (induction ob) auto

lemma keys_obj_set [simp]: "set (map fst (obj_set ob k v)) = insert k (set (map fst ob))"
proof (cases "k \<in> set (map fst ob)")
  case True
  then have "set (map fst (obj_set ob k v)) = set (map fst ob)"
    by (simp add: obj_set_def del: set_map)
  with True show ?thesis by blast
qed (simp add: obj_set_def)

lemma map_of_obj_set [simp]: "map_of (obj_set ob k v) = (map_of ob)(k \<mapsto> v)"
proof (cases "k \<in> set (map fst ob)")
  case True
  then obtain v' where "map_of ob k = Some v'"
    by (auto dest: weak_map_of_SomeI)
  with True show ?thesis by (simp add: obj_set_def fun_eq_iff map_of_obj_update)
next
  case False
  then have "map_of ob k = None" by (simp add: map_of_eq_None_iff)
  with False show ?thesis by (simp add: obj_set_def fun_eq_iff map_add_def split: option.split)
qed

lemma obj_get_set [simp]: "obj_get (obj_set ob k v) k' = (if k' = k then v else obj_get ob k')"
  by (simp add: obj_get_def)

lemma obj_set_wf [simp]: "obj_wf (obj_set ob k v) = obj_wf ob"
  by (auto simp: obj_wf_def obj_set_def)

lemma obj_assign_Nil [simp]: "obj_assign a [] = a"
  by (simp add: obj_assign_def)

lemma obj_assign_Cons [simp]: "obj_assign a ((k, v) # b) = obj_assign (obj_set a k v) b"
  by (simp add: obj_assign_def)

lemma map_of_obj_assign: "map_of (obj_assign a b) = map_of a ++ map_of (rev b)"
  by (induction b arbitrary: a) auto

lemma obj_wf_Nil [simp]: "obj_wf []"
  by (simp add: obj_wf_def)

lemma map_of_rev_wf: "obj_wf b \<Longrightarrow> map_of (rev b) = map_of b"
proof (induction b)
  case Nil
  then show ?case by simp
next
  case (Cons x b)
  then have "fst x \<notin> dom (map_of b)" and "map_of (rev b) = map_of b"
    by (auto simp: obj_wf_def dom_map_of_conv_image_fst)
  then show ?case by (cases x) (auto simp: fun_eq_iff map_add_def split: option.split)
qed

lemma obj_get_assign:
  "obj_wf b \<Longrightarrow> obj_get (obj_assign a b) k = (case map_of b k of None \<Rightarrow> obj_get a k | Some v \<Rightarrow> v)"
  by (simp add: obj_get_def map_of_obj_assign map_of_rev_wf map_add_def split: option.split)

lemma obj_assign_wf [simp]: "obj_wf (obj_assign a b) = obj_wf a"
proof (induction b arbitrary: a)
  case (Cons x b)
  then show ?case by (cases x) simp
qed simp

lemma filter_defined_wf: "obj_wf ob \<Longrightarrow> obj_wf (filter_defined ob)"
  by (simp add: obj_wf_def filter_defined_def distinct_map_filter)

lemma map_of_filter_defined:
  "obj_wf ob \<Longrightarrow> map_of (filter_defined ob) k =
     (case map_of ob k of None \<Rightarrow> None | Some v \<Rightarrow> if v = JUndef then None else Some v)"
  by (induction ob) (auto simp: obj_wf_def filter_defined_def map_of_eq_None_iff split: option.split)

lemma obj_get_merge_defined:
  "obj_wf b \<Longrightarrow> obj_get (obj_assign a (filter_defined b)) k =
     (if obj_get b k \<noteq> JUndef then obj_get b k else obj_get a k)"
  by (simp add: obj_get_assign filter_defined_wf map_of_filter_defined)
     (simp add: obj_get_def split: option.split)

lemma obj_get_copy: "obj_wf b \<Longrightarrow> obj_get (obj_assign [] b) k = obj_get b k"
  by (simp add: obj_get_assign) (simp add: obj_get_def split: option.split)

section \<open>Stream parameters and wrappers\<close>


lemma obj_get_Nil [simp]: "obj_get [] k = JUndef"
  by (simp add: obj_get_def)

lemma obj_set_not_Nil [simp]: "obj_set ob k v \<noteq> []"
  by (cases ob) (auto simp: obj_set_def)

lemma base_stream_params_get:
  "obj_get (base_stream_params e) ''temperature'' =
     (if js_is_number (obj_get e ''temperature'') then obj_get e ''temperature'' else JUndef)"
  "obj_get (base_stream_params e) ''maxTokens'' =
     (if js_is_number (obj_get e ''maxTokens'') then obj_get e ''maxTokens'' else JUndef)"
  "obj_get (base_stream_params e) ''toolChoice'' =
     (if obj_get e ''toolChoice'' \<in> {JStr ''auto'', JStr ''none'', JStr ''required''} then obj_get e ''toolChoice'' else JUndef)"
  "k \<notin> {''temperature'', ''maxTokens'', ''toolChoice''} \<Longrightarrow> obj_get (base_stream_params e) k = JUndef"
  by (simp_all add: base_stream_params_def Let_def)

lemma base_stream_params_keys:
  "set (map fst (base_stream_params e)) \<subseteq> {''temperature'', ''maxTokens'', ''toolChoice''}"
  unfolding base_stream_params_def Let_def by (simp del: set_map)

lemma base_stream_params_wf [simp]: "obj_wf (base_stream_params e)"
  by (simp add: base_stream_params_def Let_def)

lemma base_stream_params_Nil:
  "base_stream_params e = [] \<longleftrightarrow>
     \<not> js_is_number (obj_get e ''temperature'') \<and> \<not> js_is_number (obj_get e ''maxTokens'') \<and>
     obj_get e ''toolChoice'' \<notin> {JStr ''auto'', JStr ''none'', JStr ''required''}"
  by (simp add: base_stream_params_def Let_def)


lemma obj_assign_append:
  "obj_wf b \<Longrightarrow> set (map fst a) \<inter> set (map fst b) = {} \<Longrightarrow> obj_assign a b = a @ b"
proof (induction b arbitrary: a)
  case (Cons x b)
  then show ?case by (cases x) (auto simp: obj_wf_def obj_set_def)
qed simp

lemma obj_assign_copy: "obj_wf b \<Longrightarrow> obj_assign [] b = b"
  using obj_assign_append [of b "[]"] by simp

lemma obj_wf_copy [simp]: "obj_wf (obj_assign [] b)"
  by simp

lemma stream_params_wf [simp]: "obj_wf (stream_params e cr)"
  by (simp add: stream_params_def split: option.split)

lemma stream_params_toolChoice:
  "obj_get (stream_params e cr) ''toolChoice'' = obj_get (base_stream_params e) ''toolChoice''"
  by (simp add: stream_params_def split: option.split)

lemma stream_params_Nil:
  "stream_params e cr = [] \<longleftrightarrow> base_stream_params e = [] \<and> cr = None"
  by (simp add: stream_params_def split: option.split)

lemma truthy_base_toolChoice:
  "js_truthy (obj_get (base_stream_params e) ''toolChoice'') \<longleftrightarrow>
     obj_get e ''toolChoice'' \<in> {JStr ''auto'', JStr ''none'', JStr ''required''}"
  by (auto simp: base_stream_params_get)

lemma no_params_Nil: "e = [] \<Longrightarrow> base_stream_params e = [] \<and> resolveCacheRetention (Some e) p = None"
  by (simp add: base_stream_params_Nil resolveCacheRetention_def Let_def)

text \<open>
  C18. \<open>createStreamFnWithExtraParams\<close> installs a wrapper exactly when the merged
  parameters hold a recognised one (a numeric \<open>temperature\<close> or \<open>maxTokens\<close>, a
  \<open>toolChoice\<close> of \<open>auto\<close>, \<open>none\<close> or \<open>required\<close>, or a cache retention for
  Anthropic); the wrapper calls \<open>stream\<close> whenever a tool choice is set, even when the
  agent has its own stream function, and otherwise the agent's function or
  \<open>streamSimple\<close>.
\<close>

theorem createStreamFn_spec:
  "createStreamFnWithExtraParams base (Some e) provider =
     (if \<not> js_is_number (obj_get e ''temperature'') \<and> \<not> js_is_number (obj_get e ''maxTokens'') \<and>
         obj_get e ''toolChoice'' \<notin> {JStr ''auto'', JStr ''none'', JStr ''required''} \<and>
         resolveCacheRetention (Some e) provider = None
      then None
      else Some (ExtraParamsWrapper (stream_params e (resolveCacheRetention (Some e) provider))
                  (if obj_get e ''toolChoice'' \<in> {JStr ''auto'', JStr ''none'', JStr ''required''}
                   then Stream else nullish base StreamSimple)))"
proof (cases "e = []")
  case True
  then show ?thesis using no_params_Nil [OF True, of provider]
    by (simp add: createStreamFnWithExtraParams_def base_stream_params_Nil)
next
  case False
  then show ?thesis
    by (simp add: createStreamFnWithExtraParams_def Let_def stream_params_Nil base_stream_params_Nil
        stream_params_toolChoice truthy_base_toolChoice del: js_truthy.simps)
qed

text \<open>
  C19. A call through the installed wrapper passes the stream parameters overridden by
  the caller's defined options: a caller option that is \<open>undefined\<close> does not
  clobber a stream parameter, and a call without options gets the stream parameters.
\<close>

theorem wrapper_call_options:
  assumes "createStreamFnWithExtraParams base ep provider = Some w" and "obj_wf opts"
  shows "\<exists>sp u. w = ExtraParamsWrapper sp u \<and> invoke w None = invoke u (Some sp) \<and>
           (\<exists>m. invoke w (Some opts) = invoke u (Some m) \<and>
                (\<forall>k. obj_get m k = (if obj_get opts k \<noteq> JUndef then obj_get opts k else obj_get sp k)))"
proof -
  obtain sp u where w: "w = ExtraParamsWrapper sp u" and wf: "obj_wf sp"
    using assms(1) by (auto simp: createStreamFnWithExtraParams_def Let_def split: option.splits if_splits)
  have "\<forall>k. obj_get (obj_assign (obj_assign [] sp) (filter_defined opts)) k =
          (if obj_get opts k \<noteq> JUndef then obj_get opts k else obj_get sp k)"
    using assms(2) wf by (simp add: obj_get_merge_defined obj_assign_copy)
  then show ?thesis using w wf by (auto simp: obj_assign_copy)
qed


lemma set_obj_set: "set (obj_set ob k v) \<subseteq> {kv \<in> set ob. fst kv \<noteq> k} \<union> {(k, v)}"
  by (auto simp: obj_set_def split: if_splits)

lemma base_stream_params_entries:
  assumes "kv \<in> set (base_stream_params e)"
  shows "stream_param_ok provider kv \<and> fst kv \<noteq> ''cacheRetention''"
proof -
  let ?t = "obj_get e ''temperature''" and ?m = "obj_get e ''maxTokens''" and ?c = "obj_get e ''toolChoice''"
  define sp1 where "sp1 = (if js_is_number ?t then obj_set [] ''temperature'' ?t else [])"
  define sp2 where "sp2 = (if js_is_number ?m then obj_set sp1 ''maxTokens'' ?m else sp1)"
  define ok where "ok = (\<lambda>kv. stream_param_ok provider kv \<and> fst kv \<noteq> ''cacheRetention'')"
  have s1: "\<forall>x\<in>set sp1. ok x"
    by (simp add: sp1_def obj_set_def ok_def stream_param_ok_def)
  have s2: "\<forall>x\<in>set sp2. ok x"
  proof (cases "js_is_number ?m")
    case True
    have "ok (''maxTokens'', ?m)" using True by (simp add: ok_def stream_param_ok_def)
    then show ?thesis using s1 set_obj_set [of sp1 "''maxTokens''" ?m] True by (auto simp: sp2_def)
  qed (simp add: sp2_def s1)
  have "\<forall>x\<in>set (base_stream_params e). ok x"
  proof (cases "?c = JStr ''auto'' \<or> ?c = JStr ''none'' \<or> ?c = JStr ''required''")
    case True
    then have b: "base_stream_params e = obj_set sp2 ''toolChoice'' ?c"
      by (simp add: base_stream_params_def Let_def sp1_def sp2_def)
    have "ok (''toolChoice'', ?c)" using True by (auto simp: ok_def stream_param_ok_def)
    then show ?thesis using s2 set_obj_set [of sp2 "''toolChoice''" ?c] unfolding b by auto
  next
    case False
    then have "base_stream_params e = sp2"
      by (simp add: base_stream_params_def Let_def sp1_def sp2_def)
    then show ?thesis using s2 by simp
  qed
  then show ?thesis using assms by (simp add: ok_def)
qed

lemma stream_params_entries:
  assumes "kv \<in> set (stream_params e (resolveCacheRetention ep provider))"
  shows "stream_param_ok provider kv"
proof (cases "resolveCacheRetention ep provider")
  case None
  then show ?thesis using assms base_stream_params_entries by (simp add: stream_params_def)
next
  case (Some r)
  then have p: "provider = ''anthropic''" by (simp add: resolveCacheRetention_def split: if_splits)
  have "kv \<in> set (base_stream_params e) \<or> kv = (''cacheRetention'', JStr (cache_retention_str r))"
    using assms Some set_obj_set [of "base_stream_params e" "''cacheRetention''" "JStr (cache_retention_str r)"]
    by (auto simp: stream_params_def)
  then show ?thesis
  proof
    assume "kv \<in> set (base_stream_params e)"
    then show ?thesis by (simp add: base_stream_params_entries)
  next
    assume "kv = (''cacheRetention'', JStr (cache_retention_str r))"
    then show ?thesis using p by (cases r) (simp_all add: stream_param_ok_def cache_retention_str_def)
  qed
qed

text \<open>
  C24. The installed wrapper passes only sanitised parameters: every entry of its
  stream parameters is a numeric \<open>temperature\<close> or \<open>maxTokens\<close>, a
  \<open>toolChoice\<close> of \<open>auto\<close>, \<open>none\<close> or \<open>required\<close>, or, for Anthropic only, a
  \<open>cacheRetention\<close> of \<open>none\<close>, \<open>short\<close> or \<open>long\<close>; any other configured
  parameter, and any ill-typed value of these, is dropped.
\<close>

theorem stream_params_sanitised:
  assumes "createStreamFnWithExtraParams base ep provider = Some w"
  shows "\<exists>sp u. w = ExtraParamsWrapper sp u \<and> sp \<noteq> [] \<and> (\<forall>kv\<in>set sp. stream_param_ok provider kv)"
proof -
  obtain e where ep: "ep = Some e" using assms by (cases ep) (simp_all add: createStreamFnWithExtraParams_def)
  let ?sp = "stream_params e (resolveCacheRetention ep provider)"
  obtain u where w: "w = ExtraParamsWrapper ?sp u" and ne: "?sp \<noteq> []"
    using assms ep by (auto simp: createStreamFnWithExtraParams_def Let_def split: if_splits)
  have "\<forall>kv\<in>set ?sp. stream_param_ok provider kv" using stream_params_entries by blast
  then show ?thesis using w ne by blast
qed

text \<open>
  C24, at a model whose parameters hold an ill-typed \<open>temperature\<close>, an unknown
  \<open>toolChoice\<close> and a cache retention for a provider other than Anthropic: only
  \<open>maxTokens\<close> is passed on.
\<close>

theorem stream_params_sanitised_witness:
  "createStreamFnWithExtraParams None
     (Some [(''temperature'', JStr ''hot''), (''maxTokens'', JNum 100), (''toolChoice'', JStr ''sometimes''),
            (''cacheRetention'', JStr ''long'')]) ''openai'' =
     Some (ExtraParamsWrapper [(''maxTokens'', JNum 100)] StreamSimple) \<and>
   stream_param_ok ''openai'' (''maxTokens'', JNum 100)"
proof -
  have h: "createStreamFnWithExtraParams None
     (Some [(''temperature'', JStr ''hot''), (''maxTokens'', JNum 100), (''toolChoice'', JStr ''sometimes''),
            (''cacheRetention'', JStr ''long'')]) ''openai'' =
     Some (ExtraParamsWrapper [(''maxTokens'', JNum 100)] StreamSimple)"
    by (simp add: createStreamFnWithExtraParams_def stream_params_def base_stream_params_def
        resolveCacheRetention_def obj_get_def obj_set_def)
  show ?thesis using h stream_params_sanitised [OF h] by auto
qed

lemma obj_get_assign_keys:
  assumes "obj_wf b"
  shows "obj_get (obj_assign a b) k = (if k \<in> set (map fst b) then obj_get b k else obj_get a k)"
proof (cases "map_of b k")
  case None
  then have "k \<notin> set (map fst b)" by (simp add: map_of_eq_None_iff)
  with None assms show ?thesis by (simp add: obj_get_assign)
next
  case (Some v)
  then have "k \<in> set (map fst b)" and "obj_get b k = v"
    by (force dest: map_of_SomeD, simp add: obj_get_def)
  with Some assms show ?thesis by (simp add: obj_get_assign)
qed

lemma resolveExtraParams_wf: "obj_wf (nullish (resolveExtraParams cfg provider modelId) [])"
  by (simp add: resolveExtraParams_def Let_def split: option.split)

text \<open>
  C20. The parameters \<open>applyExtraParamsToAgent\<close> passes on are the configured
  \<open>params\<close> of the model overridden by the defined entries of the override: an
  override entry that is \<open>undefined\<close> keeps the configured value.
\<close>

theorem merged_params_precedence:
  assumes "obj_wf (nullish ov [])"
  shows "obj_get (merged_params (resolveExtraParams cfg provider modelId) ov) k =
           (if obj_get (nullish ov []) k \<noteq> JUndef then obj_get (nullish ov [])  k
            else obj_get (nullish (resolveExtraParams cfg provider modelId) []) k)"
proof -
  let ?E = "nullish (resolveExtraParams cfg provider modelId) []"
  have base: "obj_get (obj_assign [] ?E) k = obj_get ?E k"
    using resolveExtraParams_wf by (simp add: obj_assign_copy)
  show ?thesis
  proof (cases ov)
    case None
    then show ?thesis using base by (simp add: merged_params_def)
  next
    case (Some o')
    then show ?thesis using assms base
      by (simp add: merged_params_def obj_get_merge_defined)
  qed
qed

lemma applyExtraParams_openrouter:
  "applyExtraParamsToAgent f cfg ''openrouter'' modelId ov =
     Some (OpenRouterHeadersWrapper
       (nullish (case createStreamFnWithExtraParams f (Some (merged_params (resolveExtraParams cfg ''openrouter'' modelId) ov)) ''openrouter'' of
                   None \<Rightarrow> f | Some w \<Rightarrow> Some w) StreamSimple))"
  by (simp add: applyExtraParamsToAgent_def createOpenRouterHeadersWrapper_def Let_def)

lemma headers_call_options:
  assumes "obj_wf opts" and "obj_wf (spread_of (obj_get opts ''headers''))"
  shows "\<exists>m. invoke (OpenRouterHeadersWrapper u) (Some opts) = invoke u (Some m) \<and>
           (\<forall>k. k \<noteq> ''headers'' \<longrightarrow> obj_get m k = obj_get opts k) \<and>
           (\<exists>hs. obj_get m ''headers'' = JObj hs \<and>
              (\<forall>h. obj_get hs h =
                 (if h \<in> set (map fst (spread_of (obj_get opts ''headers'')))
                  then obj_get (spread_of (obj_get opts ''headers'')) h
                  else obj_get OPENROUTER_APP_HEADERS h)))"
proof -
  let ?H = "spread_of (obj_get opts ''headers'')"
  have app: "obj_wf OPENROUTER_APP_HEADERS" by (simp add: OPENROUTER_APP_HEADERS_def obj_wf_def)
  have "obj_get (obj_assign (obj_assign [] OPENROUTER_APP_HEADERS) ?H) h =
          (if h \<in> set (map fst ?H) then obj_get ?H h else obj_get OPENROUTER_APP_HEADERS h)" for h
    using assms(2) app by (simp add: obj_get_assign_keys obj_assign_copy del: set_map)
  note hs = this
  show ?thesis
    apply (rule exI [where x = "obj_set opts ''headers'' (JObj (obj_assign (obj_assign [] OPENROUTER_APP_HEADERS) ?H))"])
    using assms(1) hs by (simp add: obj_assign_copy del: set_map)
qed

text \<open>
  C21. For OpenRouter the agent's stream function always ends up wrapped by the
  attribution wrapper, whatever the parameters, and a call through it keeps every
  caller option but \<open>headers\<close>, whose value is the app headers overridden by the
  caller's headers.
\<close>

theorem openrouter_attribution:
  assumes "obj_wf opts" and "obj_wf (spread_of (obj_get opts ''headers''))"
  shows "\<exists>u. applyExtraParamsToAgent f cfg ''openrouter'' modelId ov = Some (OpenRouterHeadersWrapper u) \<and>
           (\<exists>m. invoke (OpenRouterHeadersWrapper u) (Some opts) = invoke u (Some m) \<and>
             (\<forall>k. k \<noteq> ''headers'' \<longrightarrow> obj_get m k = obj_get opts k) \<and>
             (\<exists>hs. obj_get m ''headers'' = JObj hs \<and>
                (\<forall>h. obj_get hs h =
                   (if h \<in> set (map fst (spread_of (obj_get opts ''headers'')))
                    then obj_get (spread_of (obj_get opts ''headers'')) h
                    else obj_get OPENROUTER_APP_HEADERS h))))"
proof -
  obtain u where u: "applyExtraParamsToAgent f cfg ''openrouter'' modelId ov = Some (OpenRouterHeadersWrapper u)"
    by (rule that [OF applyExtraParams_openrouter])
  show ?thesis
    using u headers_call_options [OF assms, of u] by (intro exI [of _ u] conjI) assumption+
qed


lemma createStreamFn_eq:
  "createStreamFnWithExtraParams base (Some e) provider =
     (if base_stream_params e = [] \<and> resolveCacheRetention (Some e) provider = None then None
      else Some (ExtraParamsWrapper (stream_params e (resolveCacheRetention (Some e) provider))
                  (if obj_get e ''toolChoice'' \<in> {JStr ''auto'', JStr ''none'', JStr ''required''}
                   then Stream else nullish base StreamSimple)))"
  using no_params_Nil [of e provider]
  by (cases "e = []")
     (simp_all add: createStreamFnWithExtraParams_def Let_def stream_params_Nil stream_params_toolChoice
        truthy_base_toolChoice del: js_truthy.simps)

lemma stream_params_legacy_toolChoice:
  "obj_get (stream_params_legacy e t) ''toolChoice'' = obj_get (base_stream_params e) ''toolChoice''"
  by (simp add: stream_params_legacy_def split: option.split)

lemma createStreamFn_legacy_eq:
  "createStreamFnWithExtraParams_legacy base (Some e) provider modelId =
     (if base_stream_params e = [] \<and> resolveCacheControlTtl (Some e) provider modelId = None then None
      else Some (ExtraParamsWrapper (stream_params_legacy e (resolveCacheControlTtl (Some e) provider modelId))
                  (if obj_get e ''toolChoice'' \<in> {JStr ''auto'', JStr ''none'', JStr ''required''}
                   then Stream else nullish base StreamSimple)))"
proof (cases "e = []")
  case True
  then show ?thesis
    by (simp add: createStreamFnWithExtraParams_legacy_def base_stream_params_Nil resolveCacheControlTtl_def)
next
  case False
  then show ?thesis
    by (simp add: createStreamFnWithExtraParams_legacy_def Let_def stream_params_legacy_def
        stream_params_legacy_toolChoice truthy_base_toolChoice del: js_truthy.simps split: option.split)
qed

lemma map_current_of_legacy_base:
  "map current_of_legacy (base_stream_params e) = base_stream_params e"
proof -
  have "current_of_legacy kv = kv" if "kv \<in> set (base_stream_params e)" for kv
    using that base_stream_params_keys [of e] by (force simp: current_of_legacy_def)
  then show ?thesis by (simp add: map_idI)
qed

lemma obj_set_fresh: "k \<notin> set (map fst ob) \<Longrightarrow> obj_set ob k v = ob @ [(k, v)]"
  by (simp add: obj_set_def)

lemma base_stream_params_fresh:
  "k \<notin> {''temperature'', ''maxTokens'', ''toolChoice''} \<Longrightarrow> k \<notin> set (map fst (base_stream_params e))"
  using base_stream_params_keys [of e] by blast

text \<open>
  C22. Backwards compatibility of the cache retention for Anthropic (the mapping the
  comment of \<open>resolveCacheRetention\<close> documents, \<open>5m\<close> to short and \<open>1h\<close> to
  long): without a valid \<open>cacheRetention\<close>, the current wrapper is the earlier
  version's wrapper with its \<open>cacheControlTtl\<close> entry renamed and mapped.
\<close>

theorem cache_retention_refines_legacy:
  assumes "obj_get e ''cacheRetention'' \<notin> {JStr ''none'', JStr ''short'', JStr ''long''}"
  shows "resolveCacheRetention (Some e) ''anthropic'' =
           map_option retention_of_ttl (resolveCacheControlTtl (Some e) ''anthropic'' modelId) \<and>
         createStreamFnWithExtraParams base (Some e) ''anthropic'' =
           map_option current_wrapper_of_legacy (createStreamFnWithExtraParams_legacy base (Some e) ''anthropic'' modelId)"
proof -
  have r: "resolveCacheRetention (Some e) ''anthropic'' =
           map_option retention_of_ttl (resolveCacheControlTtl (Some e) ''anthropic'' modelId)"
    using assms by (simp add: resolveCacheRetention_def resolveCacheControlTtl_def Let_def retention_of_ttl_def)
  have f: "''cacheRetention'' \<notin> set (map fst (base_stream_params e))"
    "''cacheControlTtl'' \<notin> set (map fst (base_stream_params e))"
    by (rule base_stream_params_fresh, simp)+
  have sp: "stream_params e (map_option retention_of_ttl t) = map current_of_legacy (stream_params_legacy e t)" for t
  proof (cases t)
    case None
    then show ?thesis by (simp add: stream_params_def stream_params_legacy_def map_current_of_legacy_base)
  next
    case (Some t')
    then show ?thesis
      by (cases t') (simp_all add: stream_params_def stream_params_legacy_def obj_set_fresh [OF f(1)]
          obj_set_fresh [OF f(2)] map_current_of_legacy_base retention_of_ttl_def cache_retention_str_def
          cache_control_ttl_str_def current_of_legacy_def)
  qed
  show ?thesis
    using r sp [of "resolveCacheControlTtl (Some e) ''anthropic'' modelId"]
    by (simp add: createStreamFn_eq createStreamFn_legacy_eq)
qed

lemma obj_get_drop_key:
  "obj_get (filter (\<lambda>(k', v). k' \<noteq> x) e) k = (if k = x then JUndef else obj_get e k)"
  by (induction e) (auto simp: obj_get_def)

lemma base_stream_params_cong:
  assumes "obj_get e ''temperature'' = obj_get e' ''temperature''"
    and "obj_get e ''maxTokens'' = obj_get e' ''maxTokens''"
    and "obj_get e ''toolChoice'' = obj_get e' ''toolChoice''"
  shows "base_stream_params e = base_stream_params e'"
  using assms by (simp add: base_stream_params_def)

text \<open>
  C23. For every provider other than Anthropic the current wrapper is the earlier
  version's wrapper for the parameters without \<open>cacheControlTtl\<close>: the versions
  differ only in that OpenRouter's \<open>anthropic/\<close> models no longer receive the legacy
  cache setting.
\<close>

theorem stream_wrapper_legacy_equiv:
  assumes "provider \<noteq> ''anthropic''"
  shows "createStreamFnWithExtraParams base (Some e) provider =
           createStreamFnWithExtraParams_legacy base (Some (filter (\<lambda>(k, v). k \<noteq> ''cacheControlTtl'') e)) provider modelId"
proof -
  let ?e' = "filter (\<lambda>(k, v). k \<noteq> ''cacheControlTtl'') e"
  have b: "base_stream_params ?e' = base_stream_params e"
    by (rule base_stream_params_cong) (simp_all add: obj_get_drop_key)
  have t: "resolveCacheControlTtl (Some ?e') provider modelId = None"
    by (simp add: resolveCacheControlTtl_def obj_get_drop_key)
  have c: "resolveCacheRetention (Some e) provider = None"
    using assms by (simp add: resolveCacheRetention_def)
  show ?thesis
    using b t c by (simp add: createStreamFn_eq createStreamFn_legacy_eq stream_params_def
        stream_params_legacy_def obj_get_drop_key)
qed

lemma norm_lower_trim_Nil [simp]: "norm_lower_trim [] = []"
  by (simp add: norm_lower_trim_def js_trim_def trim_start_def trim_end_def js_lower_def)

lemma isReasoningTagProvider_examples:
  "isReasoningTagProvider (Some '' MiniMax-M2.1 '') \<and> isReasoningTagProvider (Some ''google-antigravity/gemini-3'') \<and>
   \<not> isReasoningTagProvider (Some ''ollama'') \<and> \<not> isReasoningTagProvider None"
  unfolding isReasoningTagProvider_def js_lower_def js_trim_def trim_start_def trim_end_def is_js_space_def
    lower_char_def
  by code_simp


theorem wrapper_call_options_witness:
  "createStreamFnWithExtraParams None (Some [(''temperature'', JNum 0.2)]) ''openai'' =
     Some (ExtraParamsWrapper [(''temperature'', JNum 0.2)] StreamSimple) \<and>
   (\<exists>m. invoke (ExtraParamsWrapper [(''temperature'', JNum 0.2)] StreamSimple)
          (Some [(''temperature'', JUndef), (''maxTokens'', JNum 100)]) = invoke StreamSimple (Some m) \<and>
        obj_get m ''temperature'' = JNum 0.2 \<and> obj_get m ''maxTokens'' = JNum 100)"
proof -
  have h1: "createStreamFnWithExtraParams None (Some [(''temperature'', JNum 0.2)]) ''openai'' =
     Some (ExtraParamsWrapper [(''temperature'', JNum 0.2)] StreamSimple)"
    by (simp add: createStreamFnWithExtraParams_def stream_params_def base_stream_params_def
        resolveCacheRetention_def obj_get_def obj_set_def)
  have h2: "obj_wf [(''temperature'', JUndef), (''maxTokens'', JNum 100)]" by (simp add: obj_wf_def)
  obtain m where "invoke (ExtraParamsWrapper [(''temperature'', JNum 0.2)] StreamSimple)
          (Some [(''temperature'', JUndef), (''maxTokens'', JNum 100)]) = invoke StreamSimple (Some m)"
    and "\<forall>k. obj_get m k = (if obj_get [(''temperature'', JUndef), (''maxTokens'', JNum 100)] k \<noteq> JUndef
             then obj_get [(''temperature'', JUndef), (''maxTokens'', JNum 100)] k
             else obj_get [(''temperature'', JNum 0.2)] k)"
    using wrapper_call_options [OF h1 h2] by auto
  then show ?thesis using h1 by (auto simp: obj_get_def)
qed

theorem merged_params_precedence_witness:
  "obj_get (merged_params (resolveExtraParams
      (Some \<lparr>cfg_channels = None,
             cfg_models = Some [(''anthropic/claude'', \<lparr>model_params = Some [(''temperature'', JNum 0.2), (''maxTokens'', JNum 50)]\<rparr>)],
             cfg_session_store = None\<rparr>) ''anthropic'' ''claude'')
      (Some [(''temperature'', JNum 0.7), (''maxTokens'', JUndef)])) ''temperature'' = JNum 0.7 \<and>
   obj_get (merged_params (resolveExtraParams
      (Some \<lparr>cfg_channels = None,
             cfg_models = Some [(''anthropic/claude'', \<lparr>model_params = Some [(''temperature'', JNum 0.2), (''maxTokens'', JNum 50)]\<rparr>)],
             cfg_session_store = None\<rparr>) ''anthropic'' ''claude'')
      (Some [(''temperature'', JNum 0.7), (''maxTokens'', JUndef)])) ''maxTokens'' = JNum 50"
proof -
  have wf: "obj_wf (nullish (Some [(''temperature'', JNum 0.7), (''maxTokens'', JUndef)]) [])"
    by (simp add: obj_wf_def)
  note p = merged_params_precedence [OF wf, of "Some \<lparr>cfg_channels = None,
             cfg_models = Some [(''anthropic/claude'', \<lparr>model_params = Some [(''temperature'', JNum 0.2), (''maxTokens'', JNum 50)]\<rparr>)],
             cfg_session_store = None\<rparr>" "''anthropic''" "''claude''"]
  show ?thesis
    using p [of "''temperature''"] p [of "''maxTokens''"]
    by (simp add: resolveExtraParams_def obj_get_def obj_set_def)
qed

theorem openrouter_attribution_witness:
  "\<exists>u m hs. applyExtraParamsToAgent None None ''openrouter'' ''m'' None = Some (OpenRouterHeadersWrapper u) \<and>
     invoke (OpenRouterHeadersWrapper u) (Some [(''headers'', JObj [(''X-Title'', JStr ''Mine'')])]) = invoke u (Some m) \<and>
     obj_get m ''headers'' = JObj hs \<and> obj_get hs ''X-Title'' = JStr ''Mine'' \<and>
     obj_get hs ''HTTP-Referer'' = JStr ''https://openclaw.ai''"
proof -
  have h: "obj_wf [(''headers'', JObj [(''X-Title'', JStr ''Mine'')])]"
    "obj_wf (spread_of (obj_get [(''headers'', JObj [(''X-Title'', JStr ''Mine'')])] ''headers''))"
    by (simp_all add: obj_wf_def obj_get_def spread_of_def)
  obtain u m hs where "applyExtraParamsToAgent None None ''openrouter'' ''m'' None = Some (OpenRouterHeadersWrapper u)"
    and "invoke (OpenRouterHeadersWrapper u) (Some [(''headers'', JObj [(''X-Title'', JStr ''Mine'')])]) = invoke u (Some m)"
    and "obj_get m ''headers'' = JObj hs"
    and "\<forall>h. obj_get hs h =
           (if h \<in> set (map fst (spread_of (obj_get [(''headers'', JObj [(''X-Title'', JStr ''Mine'')])] ''headers'')))
            then obj_get (spread_of (obj_get [(''headers'', JObj [(''X-Title'', JStr ''Mine'')])] ''headers'')) h
            else obj_get OPENROUTER_APP_HEADERS h)"
    using openrouter_attribution [OF h, of None None "''m''" None] by blast
  then show ?thesis
    by (intro exI [of _ u] exI [of _ m] exI [of _ hs])
       (simp add: obj_get_def spread_of_def OPENROUTER_APP_HEADERS_def)
qed

theorem cache_retention_refines_legacy_witness:
  "createStreamFnWithExtraParams_legacy None (Some [(''cacheControlTtl'', JStr ''5m'')]) ''anthropic'' ''claude'' =
     Some (ExtraParamsWrapper [(''cacheControlTtl'', JStr ''5m'')] StreamSimple) \<and>
   createStreamFnWithExtraParams None (Some [(''cacheControlTtl'', JStr ''5m'')]) ''anthropic'' =
     Some (ExtraParamsWrapper [(''cacheRetention'', JStr ''short'')] StreamSimple)"
proof -
  have h: "obj_get [(''cacheControlTtl'', JStr ''5m'')] ''cacheRetention'' \<notin> {JStr ''none'', JStr ''short'', JStr ''long''}"
    by (simp add: obj_get_def)
  have l: "createStreamFnWithExtraParams_legacy None (Some [(''cacheControlTtl'', JStr ''5m'')]) ''anthropic'' ''claude'' =
     Some (ExtraParamsWrapper [(''cacheControlTtl'', JStr ''5m'')] StreamSimple)"
    by (simp add: createStreamFnWithExtraParams_legacy_def stream_params_legacy_def base_stream_params_def
        resolveCacheControlTtl_def obj_get_def obj_set_def cache_control_ttl_str_def)
  show ?thesis
    using l cache_retention_refines_legacy [OF h, of "''claude''" None]
    by (simp add: current_of_legacy_def)
qed

theorem stream_wrapper_legacy_equiv_witness:
  "createStreamFnWithExtraParams_legacy None (Some [(''temperature'', JNum 0.5), (''cacheControlTtl'', JStr ''1h'')])
      ''openrouter'' ''anthropic/claude-3'' =
     Some (ExtraParamsWrapper [(''temperature'', JNum 0.5), (''cacheControlTtl'', JStr ''1h'')] StreamSimple) \<and>
   createStreamFnWithExtraParams None (Some [(''temperature'', JNum 0.5), (''cacheControlTtl'', JStr ''1h'')]) ''openrouter'' =
     Some (ExtraParamsWrapper [(''temperature'', JNum 0.5)] StreamSimple)"
proof -
  have h: "''openrouter'' \<noteq> ''anthropic''" by simp
  have l: "createStreamFnWithExtraParams_legacy None (Some [(''temperature'', JNum 0.5), (''cacheControlTtl'', JStr ''1h'')])
      ''openrouter'' ''anthropic/claude-3'' =
     Some (ExtraParamsWrapper [(''temperature'', JNum 0.5), (''cacheControlTtl'', JStr ''1h'')] StreamSimple)"
    by (simp add: createStreamFnWithExtraParams_legacy_def stream_params_legacy_def base_stream_params_def
        resolveCacheControlTtl_def obj_get_def obj_set_def cache_control_ttl_str_def)
  have l': "createStreamFnWithExtraParams_legacy None (Some [(''temperature'', JNum 0.5)]) ''openrouter'' ''anthropic/claude-3'' =
     Some (ExtraParamsWrapper [(''temperature'', JNum 0.5)] StreamSimple)"
    by (simp add: createStreamFnWithExtraParams_legacy_def stream_params_legacy_def base_stream_params_def
        resolveCacheControlTtl_def obj_get_def obj_set_def)
  show ?thesis
    using l l' stream_wrapper_legacy_equiv [OF h, of None "[(''temperature'', JNum 0.5), (''cacheControlTtl'', JStr ''1h'')]"
      "''anthropic/claude-3''"]
    by simp
qed

lemma invoke_options_Some:
  "\<not> is_base_fn f \<or> opts \<noteq> None \<Longrightarrow> snd (invoke f opts) \<noteq> None"
  by (induction f opts rule: invoke.induct) auto

lemma applyExtraParams_wrapper:
  assumes "applyExtraParamsToAgent streamFn cfg provider modelId ov = Some g" and "Some g \<noteq> streamFn"
  shows "\<not> is_base_fn g"
proof (cases "provider = ''openrouter''")
  case True
  then show ?thesis using assms(1)
    by (auto simp: applyExtraParamsToAgent_def createOpenRouterHeadersWrapper_def Let_def)
next
  case False
  then have "createStreamFnWithExtraParams streamFn
               (Some (merged_params (resolveExtraParams cfg provider modelId) ov)) provider = Some g"
    using assms by (auto simp: applyExtraParamsToAgent_def Let_def split: option.splits)
  then show ?thesis
    by (auto simp: createStreamFnWithExtraParams_def Let_def split: option.splits if_splits)
qed

text \<open>
  C37. Whenever \<open>applyExtraParamsToAgent\<close> installs a new stream function, every
  call through it hands an options object to the function it finally reaches, also
  when the caller passes no options (\<open>undefined\<close>): both closures build their
  options object instead of forwarding the caller's.
\<close>

theorem invoke_options_object:
  assumes "applyExtraParamsToAgent streamFn cfg provider modelId ov = Some g" and "Some g \<noteq> streamFn"
  shows "snd (invoke g opts) \<noteq> None"
  using invoke_options_Some applyExtraParams_wrapper [OF assms] by blast

text \<open>C37, for OpenRouter without an agent function, parameters or caller options.\<close>

theorem invoke_options_object_witness:
  "applyExtraParamsToAgent None None ''openrouter'' ''m'' None = Some (OpenRouterHeadersWrapper StreamSimple) \<and>
   snd (invoke (OpenRouterHeadersWrapper StreamSimple) None) \<noteq> None"
proof -
  have h: "applyExtraParamsToAgent None None ''openrouter'' ''m'' None = Some (OpenRouterHeadersWrapper StreamSimple)"
    by (simp add: applyExtraParamsToAgent_def createOpenRouterHeadersWrapper_def resolveExtraParams_def
        merged_params_def createStreamFnWithExtraParams_def)
  have n: "Some (OpenRouterHeadersWrapper StreamSimple) \<noteq> None" by simp
  show ?thesis using h invoke_options_object [OF h n, of None] by simp
qed

section \<open>Wrapper layers\<close>

lemma createStreamFn_depth:
  "createStreamFnWithExtraParams base ep provider = Some w \<Longrightarrow>
   wrapper_depth w \<le> Suc (wrapper_depth (nullish base StreamSimple))"
  by (auto simp: createStreamFnWithExtraParams_def Let_def split: option.splits if_splits)

text \<open>
  C40. \<open>applyExtraParamsToAgent\<close> adds at most one closure to the agent's stream
  function (or \<open>streamSimple\<close> when it has none), and at most two for OpenRouter: the
  parameters wrapper at most once, the headers wrapper only for OpenRouter.
\<close>

theorem agent_stream_layers:
  "wrapper_depth (nullish (applyExtraParamsToAgent streamFn cfg provider modelId ov) StreamSimple)
     \<le> wrapper_depth (nullish streamFn StreamSimple) + (if provider = ''openrouter'' then 2 else 1)"
proof -
  let ?m = "merged_params (resolveExtraParams cfg provider modelId) ov"
  have d1: "wrapper_depth (nullish (case createStreamFnWithExtraParams streamFn (Some ?m) provider of
              None \<Rightarrow> streamFn | Some w \<Rightarrow> Some w) StreamSimple) \<le> Suc (wrapper_depth (nullish streamFn StreamSimple))"
    using createStreamFn_depth [of streamFn "Some ?m" provider] by (auto split: option.split)
  then show ?thesis
    by (cases "provider = ''openrouter''")
      (simp_all add: applyExtraParamsToAgent_def createOpenRouterHeadersWrapper_def Let_def)
qed

end
