(* ===== verification/Plugin.thy ===== *)
theory Plugin
  imports AllowList Admission "HOL-Library.AList"
begin

text \<open>
  The rest of the \<open>microsoft365Plugin\<close> object of \<open>channel.ts\<close>: the account
  operations of \<open>config\<close> (\<open>resolveAccount\<close>, \<open>setAccountEnabled\<close>,
  \<open>deleteAccount\<close>, \<open>isConfigured\<close>), \<open>messaging.normalizeTarget\<close> and
  \<open>looksLikeId\<close>, \<open>security.collectWarnings\<close>, the \<open>status\<close> adapters
  (\<open>probeAccount\<close>, \<open>buildAccountSnapshot\<close>, \<open>buildChannelSummary\<close>) and the
  gateway (\<open>startAccount\<close> with its \<open>onStatusChange\<close> callback and its cleanup),
  which share the module-level \<open>runtimeState\<close>.

  \<open>cfg.channels\<close> is an association list keyed by channel id; a spread that sets one
  key is \<open>AList.update\<close> (an existing key keeps its place, a new one goes last) and
  \<open>delete\<close> is \<open>AList.delete\<close>. The sections of the other channels are carried
  along untouched, so their type does not matter to these operations. The gateway is a
  state machine over the runtime state, the status the SDK records through
  \<open>ctx.setStatus\<close> (a partial update merged into the account's status, following the
  plugin SDK) and whether the mail monitor runs; the monitor's own start, stop and
  status reports are inputs.
\<close>

section \<open>Accounts\<close>

text \<open>\<open>DEFAULT_ACCOUNT_ID\<close> of the plugin SDK.\<close>

definition DEFAULT_ACCOUNT_ID :: string where
  "DEFAULT_ACCOUNT_ID = ''default''"

text \<open>\<open>runtimeState\<close> (lines 48 to 60), shared by every account.\<close>

record runtime_state =
  rs_connected :: bool
  rs_webhook_active :: bool
  rs_subscription_id :: "string option"
  rs_last_error :: "string option"
  rs_user_email :: "string option"

definition initial_runtime_state :: runtime_state where
  "initial_runtime_state =
     \<lparr>rs_connected = False, rs_webhook_active = False, rs_subscription_id = None,
      rs_last_error = None, rs_user_email = None\<rparr>"

text \<open>\<open>ResolvedMicrosoft365Account\<close> (lines 40 to 45)\<close>

record resolved_account =
  acct_id :: string
  acct_enabled :: bool
  acct_configured :: bool
  acct_user_email :: "string option"

text \<open>\<open>config.resolveAccount\<close> (lines 106 to 115)\<close>

definition resolveAccount :: "'p openclaw_config \<Rightarrow> runtime_state \<Rightarrow> resolved_account" where
  "resolveAccount cfg rs =
     (let m365 = m365_of cfg
      in \<lparr>acct_id = DEFAULT_ACCOUNT_ID,
          acct_enabled = (case m365 of None \<Rightarrow> True | Some c \<Rightarrow> m365_enabled c \<noteq> Some False),
          acct_configured = has_refresh_token m365,
          acct_user_email =
            (case (case m365 of None \<Rightarrow> None | Some c \<Rightarrow> m365_user_email c) of
               Some e \<Rightarrow> Some e | None \<Rightarrow> rs_user_email rs)\<rparr>)"

text \<open>\<open>config.setAccountEnabled\<close> (lines 119 to 128)\<close>

definition setAccountEnabled :: "'p openclaw_config \<Rightarrow> bool \<Rightarrow> 'p openclaw_config" where
  "setAccountEnabled cfg enabled =
     cfg\<lparr>cfg_channels := Some (AList.update ''microsoft365''
                                ((nullish (m365_of cfg) m365_empty)\<lparr>m365_enabled := Some enabled\<rparr>)
                                (nullish (cfg_channels cfg) []))\<rparr>"

text \<open>\<open>config.deleteAccount\<close> (lines 130 to 140)\<close>

definition deleteAccount :: "'p openclaw_config \<Rightarrow> 'p openclaw_config" where
  "deleteAccount cfg =
     (let nextChannels = AList.delete ''microsoft365'' (nullish (cfg_channels cfg) [])
      in if nextChannels \<noteq> [] then cfg\<lparr>cfg_channels := Some nextChannels\<rparr>
         else cfg\<lparr>cfg_channels := None\<rparr>)"

text \<open>\<open>config.isConfigured\<close> (lines 142 to 145)\<close>

definition isConfigured :: "'p openclaw_config \<Rightarrow> bool" where
  "isConfigured cfg = has_refresh_token (m365_of cfg)"

section \<open>Messaging and security\<close>

text \<open>\<open>messaging.normalizeTarget\<close> (lines 183 to 191); \<open>None\<close> is \<open>undefined\<close>.\<close>

definition normalizeTarget :: "string \<Rightarrow> string option" where
  "normalizeTarget raw =
     (let trimmed = js_lower (js_trim raw)
      in if starts_with trimmed ''email:'' then Some (js_trim (drop 6 trimmed))
         else if starts_with trimmed ''mailto:'' then Some (js_trim (drop 7 trimmed))
         else if js_includes trimmed ''@'' then Some trimmed
         else None)"

text \<open>\<open>targetResolver.looksLikeId\<close> (line 193)\<close>

definition looksLikeId :: "string \<Rightarrow> bool" where
  "looksLikeId raw = js_includes raw ''@''"

text \<open>\<open>security.collectWarnings\<close> (lines 216 to 226)\<close>

definition OPEN_POLICY_WARNING :: string where
  "OPEN_POLICY_WARNING =
     ''- Microsoft 365 Mail: dmPolicy=\"open\" allows anyone to send emails that trigger the agent. Consider using \"pairing\" or \"allowlist\".''"

definition collectWarnings :: "'p openclaw_config \<Rightarrow> string list" where
  "collectWarnings cfg =
     (let dmPolicy = resolve_dm_policy (m365_of cfg)
      in if dmPolicy = Open then [OPEN_POLICY_WARNING] else [])"

section \<open>Status\<close>

text \<open>The account status the SDK keeps, \<open>status.defaultRuntime\<close> (lines 230 to 236).\<close>

record channel_runtime =
  cr_running :: bool
  cr_last_start_at :: "int option"
  cr_last_stop_at :: "int option"
  cr_last_error :: "string option"

definition defaultRuntime :: channel_runtime where
  "defaultRuntime = \<lparr>cr_running = False, cr_last_start_at = None, cr_last_stop_at = None, cr_last_error = None\<rparr>"

text \<open>
  \<open>status.probeAccount\<close> (lines 249 to 263). The outcome of \<open>client.getMe()\<close> is an
  input: \<open>Inl\<close> the message of the error it throws, \<open>Inr (mail, userPrincipalName)\<close>.
\<close>

datatype probe_result = ProbeOk "string option" | ProbeFailed string

definition probeAccount :: "'p openclaw_config \<Rightarrow> string + string option \<times> string option \<Rightarrow> probe_result" where
  "probeAccount cfg getMe =
     (if \<not> has_refresh_token (m365_of cfg) then ProbeFailed ''Not configured''
      else (case getMe of
              Inl msg \<Rightarrow> ProbeFailed msg
            | Inr (mail, upn) \<Rightarrow> ProbeOk (if mail \<noteq> None \<and> mail \<noteq> Some [] then mail else upn)))"

text \<open>\<open>status.buildAccountSnapshot\<close> (lines 265 to 278)\<close>

record account_snapshot =
  snap_account_id :: string
  snap_enabled :: bool
  snap_configured :: bool
  snap_user_email :: "string option"
  snap_connected :: bool
  snap_webhook_active :: bool
  snap_subscription_id :: "string option"
  snap_running :: bool
  snap_last_start_at :: "int option"
  snap_last_stop_at :: "int option"
  snap_last_error :: "string option"
  snap_probe :: "probe_result option"

definition buildAccountSnapshot ::
  "resolved_account \<Rightarrow> channel_runtime option \<Rightarrow> probe_result option \<Rightarrow> runtime_state \<Rightarrow> account_snapshot" where
  "buildAccountSnapshot account runtime probe rs =
     \<lparr>snap_account_id = acct_id account,
      snap_enabled = acct_enabled account,
      snap_configured = acct_configured account,
      snap_user_email = (case acct_user_email account of Some e \<Rightarrow> Some e | None \<Rightarrow> rs_user_email rs),
      snap_connected = rs_connected rs,
      snap_webhook_active = rs_webhook_active rs,
      snap_subscription_id = rs_subscription_id rs,
      snap_running = (case runtime of None \<Rightarrow> False | Some r \<Rightarrow> cr_running r),
      snap_last_start_at = (case runtime of None \<Rightarrow> None | Some r \<Rightarrow> cr_last_start_at r),
      snap_last_stop_at = (case runtime of None \<Rightarrow> None | Some r \<Rightarrow> cr_last_stop_at r),
      snap_last_error = (case rs_last_error rs of Some e \<Rightarrow> Some e
                         | None \<Rightarrow> (case runtime of None \<Rightarrow> None | Some r \<Rightarrow> cr_last_error r)),
      snap_probe = probe\<rparr>"

text \<open>
  \<open>status.buildChannelSummary\<close> (lines 238 to 247), on the snapshots
  \<open>buildAccountSnapshot\<close> builds, whose fields are all present, so the \<open>??\<close>
  defaults do not apply. \<open>running\<close> is read from the snapshot's \<open>connected\<close>.
\<close>

record channel_summary =
  sum_configured :: bool
  sum_running :: bool
  sum_last_start_at :: "int option"
  sum_last_stop_at :: "int option"
  sum_last_error :: "string option"
  sum_user_email :: "string option"
  sum_webhook_active :: bool
  sum_subscription_id :: "string option"

definition buildChannelSummary :: "account_snapshot \<Rightarrow> channel_summary" where
  "buildChannelSummary snapshot =
     \<lparr>sum_configured = snap_configured snapshot,
      sum_running = snap_connected snapshot,
      sum_last_start_at = snap_last_start_at snapshot,
      sum_last_stop_at = snap_last_stop_at snapshot,
      sum_last_error = snap_last_error snapshot,
      sum_user_email = snap_user_email snapshot,
      sum_webhook_active = snap_webhook_active snapshot,
      sum_subscription_id = snap_subscription_id snapshot\<rparr>"

section \<open>The gateway\<close>

text \<open>
  The state the gateway changes: the module-level runtime state, the account's status
  and whether the mail monitor runs.
\<close>

record gateway_state =
  gw_runtime :: runtime_state
  gw_status :: channel_runtime
  gw_monitor :: bool

definition initial_gateway :: gateway_state where
  "initial_gateway = \<lparr>gw_runtime = initial_runtime_state, gw_status = defaultRuntime, gw_monitor = False\<rparr>"

text \<open>
  \<open>gateway.startAccount\<close> (lines 282 to 332) at time \<open>now\<close>; \<open>start\<close> is the
  outcome of \<open>startMailMonitor\<close> (\<open>Some msg\<close>: it threw). The result's first component
  is the error \<open>startAccount\<close> rethrows.
\<close>

definition startAccount :: "int \<Rightarrow> string option \<Rightarrow> gateway_state \<Rightarrow> string option \<times> gateway_state" where
  "startAccount now start gs =
     (let gs1 = gs\<lparr>gw_status := (gw_status gs)\<lparr>cr_running := True, cr_last_start_at := Some now\<rparr>\<rparr>
      in case start of
           None \<Rightarrow> (None, gs1\<lparr>gw_monitor := True\<rparr>)
         | Some msg \<Rightarrow>
             (Some msg,
              gs1\<lparr>gw_runtime := (gw_runtime gs1)\<lparr>rs_last_error := Some msg\<rparr>,
                  gw_status := (gw_status gs1)\<lparr>cr_running := False, cr_last_error := Some msg\<rparr>\<rparr>))"

text \<open>The status the monitor reports to \<open>onStatusChange\<close> (lines 310 to 315).\<close>

record monitor_status =
  ms_connected :: bool
  ms_webhook_active :: bool
  ms_subscription_id :: "string option"
  ms_error :: "string option"

definition onStatusChange :: "monitor_status \<Rightarrow> gateway_state \<Rightarrow> gateway_state" where
  "onStatusChange status gs =
     gs\<lparr>gw_runtime := (gw_runtime gs)\<lparr>rs_connected := ms_connected status,
                                        rs_webhook_active := ms_webhook_active status,
                                        rs_subscription_id := ms_subscription_id status,
                                        rs_last_error := ms_error status\<rparr>\<rparr>"

text \<open>
  The cleanup function \<open>startAccount\<close> returns (lines 319 to 324); \<open>stop\<close> is the
  outcome of \<open>stopMonitor()\<close>. When it throws, the rest of the cleanup does not run.
\<close>

definition stopAccount :: "int \<Rightarrow> string option \<Rightarrow> gateway_state \<Rightarrow> string option \<times> gateway_state" where
  "stopAccount now stop gs =
     (case stop of
        Some err \<Rightarrow> (Some err, gs)
      | None \<Rightarrow>
          (None, gs\<lparr>gw_monitor := False,
                    gw_status := (gw_status gs)\<lparr>cr_running := False, cr_last_stop_at := Some now\<rparr>,
                    gw_runtime := (gw_runtime gs)\<lparr>rs_connected := False\<rparr>\<rparr>))"

text \<open>
  The life of an account: it is started when its monitor does not run; the monitor
  reports status while it runs; the cleanup runs on a running monitor.
\<close>

inductive gateway_step :: "gateway_state \<Rightarrow> gateway_state \<Rightarrow> bool" where
  start: "\<not> gw_monitor gs \<Longrightarrow> gateway_step gs (snd (startAccount now r gs))"
| status: "gw_monitor gs \<Longrightarrow> gateway_step gs (onStatusChange st gs)"
| stop: "gw_monitor gs \<Longrightarrow> gateway_step gs (snd (stopAccount now r gs))"

inductive gateway_reachable :: "gateway_state \<Rightarrow> bool" where
  init: "gateway_reachable initial_gateway"
| step: "gateway_reachable gs \<Longrightarrow> gateway_step gs gs' \<Longrightarrow> gateway_reachable gs'"

text \<open>
  The invariant of the gateway: the runtime state says connected only while the monitor
  runs, and the status says running exactly while it runs.
\<close>

definition gateway_inv :: "gateway_state \<Rightarrow> bool" where
  "gateway_inv gs \<longleftrightarrow> (rs_connected (gw_runtime gs) \<longrightarrow> gw_monitor gs) \<and> (gw_monitor gs \<longleftrightarrow> cr_running (gw_status gs))"

section \<open>Properties\<close>


lemma m365_of_channels:
  "m365_of cfg = map_of (nullish (cfg_channels cfg) []) ''microsoft365''"
  by (simp add: m365_of_def split: option.split)

text \<open>
  C25. \<open>setAccountEnabled\<close> round trip: the account \<open>resolveAccount\<close> reads
  back has the enabled flag just set; the channel section is the old one (or \<open>{}\<close>)
  with \<open>enabled\<close> set, the other channels are untouched and whether the account is
  configured does not change.
\<close>

theorem setAccountEnabled_roundtrip:
  "acct_enabled (resolveAccount (setAccountEnabled cfg enabled) rs) = enabled \<and>
   m365_of (setAccountEnabled cfg enabled) = Some ((nullish (m365_of cfg) m365_empty)\<lparr>m365_enabled := Some enabled\<rparr>) \<and>
   (map_of (nullish (cfg_channels (setAccountEnabled cfg enabled)) []))(''microsoft365'' := None) =
     (map_of (nullish (cfg_channels cfg) []))(''microsoft365'' := None) \<and>
   isConfigured (setAccountEnabled cfg enabled) = isConfigured cfg"
proof -
  have m: "m365_of (setAccountEnabled cfg enabled) = Some ((nullish (m365_of cfg) m365_empty)\<lparr>m365_enabled := Some enabled\<rparr>)"
    by (simp add: m365_of_def setAccountEnabled_def update_conv')
  have "has_refresh_token (Some ((nullish (m365_of cfg) m365_empty)\<lparr>m365_enabled := Some enabled\<rparr>)) =
        has_refresh_token (m365_of cfg)"
    by (simp add: has_refresh_token_def m365_empty_def split: option.split)
  with m show ?thesis
    by (simp add: resolveAccount_def isConfigured_def setAccountEnabled_def update_conv' fun_upd_twist)
qed

text \<open>
  C26. \<open>deleteAccount\<close> removes the channel section and nothing else, never leaves an
  empty \<open>channels\<close> object behind, and the account then resolves as enabled (the
  default) but not configured.
\<close>

theorem deleteAccount_spec:
  "m365_of (deleteAccount cfg) = None \<and>
   map_of (nullish (cfg_channels (deleteAccount cfg)) []) = (map_of (nullish (cfg_channels cfg) []))(''microsoft365'' := None) \<and>
   cfg_channels (deleteAccount cfg) \<noteq> Some [] \<and>
   resolveAccount (deleteAccount cfg) rs =
     \<lparr>acct_id = DEFAULT_ACCOUNT_ID, acct_enabled = True, acct_configured = False, acct_user_email = rs_user_email rs\<rparr>"
proof -
  have ch: "map_of (nullish (cfg_channels (deleteAccount cfg)) []) = (map_of (nullish (cfg_channels cfg) []))(''microsoft365'' := None)"
    by (auto simp: deleteAccount_def Let_def delete_conv' [symmetric])
  then have "m365_of (deleteAccount cfg) = None"
    by (simp add: m365_of_channels [of "deleteAccount cfg"])
  with ch show ?thesis
    by (simp add: deleteAccount_def Let_def resolveAccount_def)
qed


lemma js_lower_drop: "js_lower (drop n s) = drop n (js_lower s)"
  by (simp add: js_lower_def drop_map)

lemma normalised_suffix:
  "js_trim (js_trim (drop n (js_lower x))) = js_trim (drop n (js_lower x)) \<and>
   js_lower (js_trim (drop n (js_lower x))) = js_trim (drop n (js_lower x))"
  by (simp add: js_trim_lower_comm [symmetric] js_lower_drop)

text \<open>
  C27. \<open>normalizeTarget\<close> returns a trimmed, lower-case target; without an
  \<open>email:\<close> or \<open>mailto:\<close> prefix it is the normalised input and contains
  \<open>@\<close>, and it is undefined exactly when there is neither a prefix nor an \<open>@\<close>.
\<close>

theorem normalizeTarget_spec:
  "(case normalizeTarget raw of
      None \<Rightarrow> \<not> starts_with (norm_lower_trim raw) ''email:'' \<and> \<not> starts_with (norm_lower_trim raw) ''mailto:'' \<and>
              \<not> looksLikeId (norm_lower_trim raw)
    | Some t \<Rightarrow> js_trim t = t \<and> js_lower t = t \<and>
        (starts_with (norm_lower_trim raw) ''email:'' \<or> starts_with (norm_lower_trim raw) ''mailto:'' \<or>
         (t = norm_lower_trim raw \<and> looksLikeId t)))"
proof -
  have n: "js_trim (norm_lower_trim raw) = norm_lower_trim raw" "js_lower (norm_lower_trim raw) = norm_lower_trim raw"
    by (simp_all add: norm_lower_trim_def js_trim_lower_comm [symmetric])
  show ?thesis
    using normalised_suffix [of 6 "js_trim raw"] normalised_suffix [of 7 "js_trim raw"] n
    by (simp add: normalizeTarget_def Let_def norm_lower_trim_def [symmetric] looksLikeId_def
        del: starts_with_prefix js_includes_sublist)
qed


lemma trim_end_prefix:
  assumes "p \<noteq> []" and "\<not> is_js_space (last p)"
  shows "trim_end (p @ s) = p @ trim_end s"
proof -
  obtain q c where p: "p = q @ [c]" using assms(1) by (cases p rule: rev_cases) auto
  then show ?thesis using assms(2)
    by (simp add: trim_end_def dropWhile_append)
qed

lemma js_trim_prefix:
  assumes "p \<noteq> []" and "\<not> is_js_space (hd p)" and "\<not> is_js_space (last p)"
  shows "js_trim (p @ s) = p @ trim_end s"
proof -
  have "trim_start (p @ s) = p @ s" using assms(1,2)
    by (cases p) (simp_all add: trim_start_def)
  then show ?thesis using assms(1,3) by (simp add: js_trim_def trim_end_prefix)
qed

lemma prefix_rest_normal:
  assumes "js_lower p = q" and "q \<noteq> []" and "\<not> is_js_space (hd q)" and "\<not> is_js_space (last q)"
  shows "js_lower (js_trim (p @ s)) = q @ js_lower (trim_end s) \<and>
         js_trim (js_lower (trim_end s)) = norm_lower_trim s"
proof -
  have ne: "p \<noteq> []" using assms(1,2) by auto
  have hd: "hd q = lower_char (hd p)" and lst: "last q = lower_char (last p)"
    using assms(1) ne by (auto simp: js_lower_def hd_map last_map)
  have "js_trim (p @ s) = p @ trim_end s"
    using assms(3,4) ne by (intro js_trim_prefix) (simp_all add: hd lst)
  then show ?thesis using assms(1)
    by (simp add: js_trim_lower_comm norm_lower_trim_def)
qed

text \<open>
  C28. The prefix branches of \<open>normalizeTarget\<close> accept whatever follows the prefix:
  for every string \<open>s\<close>, behind \<open>email:\<close> or \<open>mailto:\<close> written in any case, the
  target is \<open>s\<close> trimmed and lower-cased, with no \<open>@\<close> check; so \<open>email:\<close> alone
  gives the empty target and \<open>MAILTO:Bob\<close> gives \<open>bob\<close>, which \<open>looksLikeId\<close> rejects.
\<close>

theorem normalizeTarget_prefix_unvalidated:
  assumes "js_lower p = ''email:'' \<or> js_lower p = ''mailto:''"
  shows "normalizeTarget (p @ s) = Some (norm_lower_trim s)"
  using assms
proof
  assume "js_lower p = ''email:''"
  then show ?thesis
    using prefix_rest_normal [of p "''email:''" s]
    by (simp add: normalizeTarget_def is_js_space_def del: starts_with_prefix js_includes_sublist)
next
  assume "js_lower p = ''mailto:''"
  then show ?thesis
    using prefix_rest_normal [of p "''mailto:''" s]
    by (simp add: normalizeTarget_def is_js_space_def del: starts_with_prefix js_includes_sublist)
qed

text \<open>C28, at \<open>MAILTO:\<close> followed by \<open>Bob\<close>: the target \<open>bob\<close> is not an address.\<close>

theorem normalizeTarget_prefix_unvalidated_witness:
  "normalizeTarget (''MAILTO:'' @ ''Bob'') = Some ''bob'' \<and> \<not> looksLikeId ''bob''"
proof -
  have h: "js_lower ''MAILTO:'' = ''email:'' \<or> js_lower ''MAILTO:'' = ''mailto:''"
    unfolding js_lower_def lower_char_def by code_simp
  have n: "norm_lower_trim ''Bob'' = ''bob''"
    unfolding norm_lower_trim_def js_lower_def lower_char_def js_trim_def trim_start_def trim_end_def
      is_js_space_def
    by code_simp
  show ?thesis
    using normalizeTarget_prefix_unvalidated [OF h, of "''Bob''"] n by (simp add: looksLikeId_def sublist_Cons_right)
qed

text \<open>
  C29. \<open>collectWarnings\<close> warns exactly when the configured policy makes the inbound
  gate admit every sender with every allow list.
\<close>

theorem collectWarnings_open_gate:
  "collectWarnings cfg \<noteq> [] \<longleftrightarrow>
     (\<forall>allow f. admission_decision (resolve_dm_policy (m365_of cfg)) allow f = Admit)"
proof
  assume "collectWarnings cfg \<noteq> []"
  then show "\<forall>allow f. admission_decision (resolve_dm_policy (m365_of cfg)) allow f = Admit"
    by (simp add: collectWarnings_def Let_def admission_decision_def split: if_splits)
next
  assume "\<forall>allow f. admission_decision (resolve_dm_policy (m365_of cfg)) allow f = Admit"
  then have "admission_decision (resolve_dm_policy (m365_of cfg)) [] [] = Admit" by blast
  then show "collectWarnings cfg \<noteq> []"
    by (simp add: collectWarnings_def admission_decision_def sender_allowed_def split: if_splits)
qed

lemma gateway_step_inv:
  assumes "gateway_step gs gs'" and "gateway_inv gs"
  shows "gateway_inv gs'"
  using assms
proof cases
  case (start now r)
  then show ?thesis using assms(2)
    by (auto simp: gateway_inv_def startAccount_def Let_def split: option.split)
next
  case (status st)
  then show ?thesis using assms(2) by (simp add: gateway_inv_def onStatusChange_def)
next
  case (stop now r)
  then show ?thesis using assms(2) by (auto simp: gateway_inv_def stopAccount_def split: option.split)
qed

lemma gateway_reachable_inv: "gateway_reachable gs \<Longrightarrow> gateway_inv gs"
proof (induction rule: gateway_reachable.induct)
  case init
  then show ?case by (simp add: gateway_inv_def initial_gateway_def initial_runtime_state_def defaultRuntime_def)
next
  case (step gs gs')
  then show ?case using gateway_step_inv by blast
qed

text \<open>
  C30. In every state of the gateway reachable by starting, status reports and
  stopping, the runtime state is connected only while the monitor runs and the status
  says running exactly while it runs; so a channel summary that reports running comes
  from a running account.
\<close>

theorem gateway_status_consistent:
  assumes "gateway_reachable gs"
  shows "gateway_inv gs \<and>
         (sum_running (buildChannelSummary (buildAccountSnapshot a (Some (gw_status gs)) p (gw_runtime gs))) \<longrightarrow>
            snap_running (buildAccountSnapshot a (Some (gw_status gs)) p (gw_runtime gs)))"
  using gateway_reachable_inv [OF assms]
  by (auto simp: gateway_inv_def buildChannelSummary_def buildAccountSnapshot_def)


lemma gateway_run_example:
  "gateway_reachable (snd (startAccount 100 None initial_gateway))"
  "gateway_reachable (onStatusChange \<lparr>ms_connected = True, ms_webhook_active = True, ms_subscription_id = Some ''sub-1'', ms_error = None\<rparr>
     (snd (startAccount 100 None initial_gateway)))"
  "gateway_reachable (snd (stopAccount 200 None (onStatusChange \<lparr>ms_connected = True, ms_webhook_active = True,
     ms_subscription_id = Some ''sub-1'', ms_error = None\<rparr> (snd (startAccount 100 None initial_gateway)))))"
proof -
  have m: "\<not> gw_monitor initial_gateway" by (simp add: initial_gateway_def)
  show r1: "gateway_reachable (snd (startAccount 100 None initial_gateway))"
    by (rule gateway_reachable.step [OF gateway_reachable.init gateway_step.start [OF m]])
  have m1: "gw_monitor (snd (startAccount 100 None initial_gateway))" by (simp add: startAccount_def)
  show r2: "gateway_reachable (onStatusChange \<lparr>ms_connected = True, ms_webhook_active = True, ms_subscription_id = Some ''sub-1'', ms_error = None\<rparr>
     (snd (startAccount 100 None initial_gateway)))"
    by (rule gateway_reachable.step [OF r1 gateway_step.status [OF m1]])
  have m2: "gw_monitor (onStatusChange \<lparr>ms_connected = True, ms_webhook_active = True, ms_subscription_id = Some ''sub-1'', ms_error = None\<rparr>
     (snd (startAccount 100 None initial_gateway)))" using m1 by (simp add: onStatusChange_def)
  show "gateway_reachable (snd (stopAccount 200 None (onStatusChange \<lparr>ms_connected = True, ms_webhook_active = True,
     ms_subscription_id = Some ''sub-1'', ms_error = None\<rparr> (snd (startAccount 100 None initial_gateway)))))"
    by (rule gateway_reachable.step [OF r2 gateway_step.stop [OF m2]])
qed

theorem gateway_status_consistent_witness:
  "gateway_inv (snd (startAccount 100 None initial_gateway)) \<and>
   snap_running (buildAccountSnapshot
     \<lparr>acct_id = DEFAULT_ACCOUNT_ID, acct_enabled = True, acct_configured = True, acct_user_email = None\<rparr>
     (Some (gw_status (snd (startAccount 100 None initial_gateway)))) None
     (gw_runtime (snd (startAccount 100 None initial_gateway))))"
  using gateway_status_consistent [OF gateway_run_example(1),
      of "\<lparr>acct_id = DEFAULT_ACCOUNT_ID, acct_enabled = True, acct_configured = True, acct_user_email = None\<rparr>" None]
  by (simp add: buildAccountSnapshot_def startAccount_def initial_gateway_def defaultRuntime_def)

text \<open>
  C31. The cleanup resets only \<open>connected\<close>: in every reachable state with the
  monitor running, a successful stop leads to a reachable state whose snapshot says
  neither running nor connected, yet still reports the webhook as active and the
  subscription exactly as the monitor last reported them, and so does the channel
  summary.
\<close>

theorem stale_webhook_after_stop:
  assumes "gateway_reachable gs" and "gw_monitor gs"
  shows "let gs' = snd (stopAccount now None gs);
             snap = buildAccountSnapshot a (Some (gw_status gs')) p (gw_runtime gs')
         in gateway_reachable gs' \<and> \<not> gw_monitor gs' \<and> \<not> snap_running snap \<and> \<not> snap_connected snap \<and>
            snap_webhook_active snap = rs_webhook_active (gw_runtime gs) \<and>
            snap_subscription_id snap = rs_subscription_id (gw_runtime gs) \<and>
            sum_webhook_active (buildChannelSummary snap) = rs_webhook_active (gw_runtime gs) \<and>
            sum_subscription_id (buildChannelSummary snap) = rs_subscription_id (gw_runtime gs)"
proof -
  have "gateway_reachable (snd (stopAccount now None gs))"
    by (rule gateway_reachable.step [OF assms(1) gateway_step.stop [OF assms(2)]])
  then show ?thesis
    by (simp add: Let_def stopAccount_def buildAccountSnapshot_def buildChannelSummary_def)
qed

text \<open>
  C31, after a start and a status report of an active subscription \<open>sub-1\<close>: the
  stopped account still reports it.
\<close>

theorem stale_webhook_after_stop_witness:
  "let gs = onStatusChange \<lparr>ms_connected = True, ms_webhook_active = True, ms_subscription_id = Some ''sub-1'',
              ms_error = None\<rparr> (snd (startAccount 100 None initial_gateway));
       snap = buildAccountSnapshot \<lparr>acct_id = DEFAULT_ACCOUNT_ID, acct_enabled = True, acct_configured = True,
                acct_user_email = None\<rparr> (Some (gw_status (snd (stopAccount 200 None gs)))) None
                (gw_runtime (snd (stopAccount 200 None gs)))
   in gw_monitor gs \<and> \<not> snap_running snap \<and> snap_webhook_active snap \<and> snap_subscription_id snap = Some ''sub-1''"
proof -
  have m: "gw_monitor (onStatusChange \<lparr>ms_connected = True, ms_webhook_active = True, ms_subscription_id = Some ''sub-1'',
              ms_error = None\<rparr> (snd (startAccount 100 None initial_gateway)))"
    by (simp add: onStatusChange_def startAccount_def)
  show ?thesis
    using stale_webhook_after_stop [OF gateway_run_example(2) m, of 200
        "\<lparr>acct_id = DEFAULT_ACCOUNT_ID, acct_enabled = True, acct_configured = True, acct_user_email = None\<rparr>" None] m
    by (simp add: Let_def onStatusChange_def)
qed

text \<open>
  C32. A monitor that fails to start: \<open>startAccount\<close> rethrows the error, the monitor
  does not run, the status is not running but records the start time, and the snapshot
  reports the error.
\<close>

theorem failed_start_reported:
  "fst (startAccount now (Some msg) gs) = Some msg \<and>
   gw_monitor (snd (startAccount now (Some msg) gs)) = gw_monitor gs \<and>
   \<not> cr_running (gw_status (snd (startAccount now (Some msg) gs))) \<and>
   cr_last_start_at (gw_status (snd (startAccount now (Some msg) gs))) = Some now \<and>
   snap_last_error (buildAccountSnapshot a (Some (gw_status (snd (startAccount now (Some msg) gs)))) p
     (gw_runtime (snd (startAccount now (Some msg) gs)))) = Some msg"
  by (simp add: startAccount_def buildAccountSnapshot_def)

end
