(* ===== verification/Outbound.thy ===== *)
theory Outbound
  imports AllowList Effects
begin

text \<open>
  The outbound adapter \<open>microsoft365Outbound\<close> (\<open>extensions/microsoft365/src/outbound.ts\<close>)
  and the plugin runtime slot (\<open>runtime.ts\<close>, appended to the same source file).
  \<open>resolveTarget\<close> picks the address a reply goes to: the given \<open>to\<close> if it looks
  like an address, else the first usable \<open>allowFrom\<close> entry. \<open>sendText\<close> sends the
  text through Microsoft Graph, as a reply when a message id is given and as a new mail
  otherwise; its Graph call is a step of the \<open>world\<close> of theory \<open>Effects\<close>, so an
  error the call throws propagates as \<open>Inl\<close>.
\<close>

section \<open>Targets\<close>

datatype target_result = TargetOk string | TargetError string

definition NO_TARGET_MESSAGE :: string where
  "NO_TARGET_MESSAGE =
     ''Microsoft 365 Mail: no target email address. Provide `to=<email>` or set channels.microsoft365.allowFrom.''"

text \<open>\<open>resolveTarget\<close> (lines 15 to 38); the \<open>mode\<close> argument is not read.\<close>

definition resolveTarget :: "string option \<Rightarrow> string list option \<Rightarrow> target_result" where
  "resolveTarget to allowFrom =
     (let trimmed = nullish (map_option (\<lambda>t. js_lower (js_trim t)) to) ''''
      in if trimmed \<noteq> [] \<and> js_includes trimmed ''@'' then TargetOk trimmed
         else
           (let allowList = filter (\<lambda>entry. entry \<noteq> ''*'') (formatAllowFrom (nullish allowFrom []))
            in if allowList \<noteq> [] then TargetOk (hd allowList)
               else TargetError NO_TARGET_MESSAGE))"

section \<open>Sending\<close>

text \<open>What \<open>sendText\<close> returns normally: delivered, or the not-configured error value.\<close>

datatype send_outcome = SendDelivered | SendNotConfigured

text \<open>
  \<open>sendText\<close> (lines 40 to 62). \<open>replyToId\<close> is used when it is a non-empty string.
  The first component is \<open>Inl err\<close> when the Graph call throws \<open>err\<close>.
\<close>

definition sendText ::
  "io_env \<Rightarrow> 'p openclaw_config \<Rightarrow> string \<Rightarrow> string \<Rightarrow> string option \<Rightarrow> ('c, 'x) world_scheme \<Rightarrow>
   (string + send_outcome) \<times> ('c, 'x) world_scheme" where
  "sendText io cfg to text replyToId w =
     (let m365 = m365_of cfg
      in if \<not> has_refresh_token m365 then (Inr SendNotConfigured, w)
      else
        (let call = (case replyToId of
                       Some rid \<Rightarrow> if rid \<noteq> [] then ReplyToMail rid text else SendMail to ''Re: OpenClaw'' text
                     | None \<Rightarrow> SendMail to ''Re: OpenClaw'' text)
         in case graph_attempt io call w of
              (None, w') \<Rightarrow> (Inr SendDelivered, w')
            | (Some err, w') \<Rightarrow> (Inl err, w')))"

section \<open>The runtime slot\<close>

text \<open>
  \<open>runtime.ts\<close> (lines 64 to 77 of the file): a module-level slot holding the plugin
  runtime; reading it before it is set throws.
\<close>

definition setMicrosoft365Runtime :: "'r \<Rightarrow> 'r option \<Rightarrow> 'r option" where
  "setMicrosoft365Runtime next slot = Some next"

definition getMicrosoft365Runtime :: "'r option \<Rightarrow> string + 'r" where
  "getMicrosoft365Runtime slot =
     (case slot of None \<Rightarrow> Inl ''Microsoft365 runtime not initialized'' | Some r \<Rightarrow> Inr r)"

section \<open>Properties\<close>


text \<open>
  C33. \<open>resolveTarget\<close> resolves to a non-empty, trimmed, lower-case address other
  than the wildcard: the normalised \<open>to\<close> when it contains \<open>@\<close>, else the first
  normalised \<open>allowFrom\<close> entry that is not \<open>*\<close>; it fails, with its message,
  exactly when neither exists.
\<close>

theorem resolveTarget_spec:
  "(case resolveTarget to allowFrom of
      TargetOk t \<Rightarrow> allow_entry_normal t \<and> t \<noteq> ''*'' \<and>
        ((t = nullish (map_option norm_lower_trim to) [] \<and> js_includes t ''@'') \<or>
         t = hd (filter (\<lambda>e. e \<noteq> ''*'') (formatAllowFrom (nullish allowFrom []))))
    | TargetError msg \<Rightarrow> msg = NO_TARGET_MESSAGE \<and>
        \<not> js_includes (nullish (map_option norm_lower_trim to) []) ''@'' \<and>
        set (formatAllowFrom (nullish allowFrom [])) \<subseteq> {''*''})"
proof -
  define t where "t = nullish (map_option norm_lower_trim to) []"
  define A where "A = filter (\<lambda>e. e \<noteq> ''*'') (formatAllowFrom (nullish allowFrom []))"
  have r: "resolveTarget to allowFrom =
      (if t \<noteq> [] \<and> js_includes t ''@'' then TargetOk t
       else if A \<noteq> [] then TargetOk (hd A) else TargetError NO_TARGET_MESSAGE)"
    by (simp add: resolveTarget_def Let_def t_def A_def norm_lower_trim_def split: option.split)
  have nt: "t \<noteq> [] \<Longrightarrow> allow_entry_normal t"
    by (auto simp: t_def allow_entry_normal_def split: option.split)
  have star: "js_includes t ''@'' \<Longrightarrow> t \<noteq> ''*'' \<and> t \<noteq> []"
    by (auto simp: sublist_Cons_right)
  have hdA: "A \<noteq> [] \<Longrightarrow> allow_entry_normal (hd A) \<and> hd A \<noteq> ''*''"
  proof -
    assume "A \<noteq> []"
    then have "hd A \<in> set A" by (rule hd_in_set)
    then show ?thesis by (auto simp: A_def dest: formatAllowFrom_normal)
  qed
  have emptyA: "A = [] \<Longrightarrow> set (formatAllowFrom (nullish allowFrom [])) \<subseteq> {''*''}"
    by (auto simp: A_def filter_empty_conv)
  show ?thesis
    unfolding r t_def [symmetric] A_def [symmetric]
    using nt star hdA emptyA by auto
qed

text \<open>
  C35. \<open>sendText\<close> touches nothing but the Graph calls: unconfigured it makes none and
  returns the not-configured value; configured it makes exactly one, a reply to a
  non-empty \<open>replyToId\<close> or else a new mail to \<open>to\<close> with subject
  \<open>Re: OpenClaw\<close>, and an error of that call propagates.
\<close>

theorem sendText_effects:
  "let (r, w') = sendText io cfg to text replyToId w in
     w_pairing w' = w_pairing w \<and> w_sessions w' = w_sessions w \<and> agent_calls w' = agent_calls w \<and>
     drop_records w' = drop_records w \<and>
     (if has_refresh_token (m365_of cfg) then
        (\<exists>c. graph_calls w' = graph_calls w @ [(c, io_graph io c)] \<and>
             c = (if replyToId \<noteq> None \<and> replyToId \<noteq> Some [] then ReplyToMail (the replyToId) text
                  else SendMail to ''Re: OpenClaw'' text) \<and>
             r = (case io_graph io c of None \<Rightarrow> Inr SendDelivered | Some err \<Rightarrow> Inl err))
      else graph_calls w' = graph_calls w \<and> r = Inr SendNotConfigured)"
  by (auto simp: sendText_def Let_def graph_attempt_def split: option.split prod.split)

lemma runtime_slot_roundtrip:
  "getMicrosoft365Runtime (setMicrosoft365Runtime r slot) = Inr r \<and>
   getMicrosoft365Runtime (None :: 'r option) = Inl ''Microsoft365 runtime not initialized''"
  by (simp add: getMicrosoft365Runtime_def setMicrosoft365Runtime_def)

end
