(* ===== verification/Secrets.thy ===== *)
theory Secrets
  imports Main
begin

text \<open>
  The user-secrets types of \<open>src/unnamed/part_002\<close>. The file declares data only: a
  secret entry, the store that maps secret names to entries with a format version, the
  metadata shown to the agent, and the store version constant. The design rule its
  comment states (secret values never enter the model context, only names do) is a
  property of the metadata type: it has no value field. The re-export of
  \<open>SecretsConfig\<close> refers to a file that is not among the sources.
\<close>

text \<open>\<open>SecretEntry\<close> (lines 11 to 20); timestamps are ISO strings.\<close>

record secret_entry =
  secret_value :: string
  secret_description :: "string option"
  secret_created_at :: string
  secret_updated_at :: string

text \<open>\<open>SecretsStore\<close> (lines 22 to 26): \<open>secrets\<close> is a record keyed by secret name.\<close>

record secrets_store =
  store_version :: int
  store_secrets :: "(string \<times> secret_entry) list"

text \<open>\<open>SecretMetadata\<close> (lines 28 to 33)\<close>

record secret_metadata =
  meta_name :: string
  meta_description :: "string option"
  meta_created_at :: string
  meta_updated_at :: string

text \<open>\<open>SECRETS_STORE_VERSION\<close> (line 38)\<close>

definition SECRETS_STORE_VERSION :: int where
  "SECRETS_STORE_VERSION = 1"

end
