(* ===== verification/Spec2Isabelle.thy ===== *)
theory Spec2Isabelle
  imports Orchestrator ExtraParams Plugin Outbound Secrets
begin

text \<open>
  \<^bold>\<open>A verification development of the Microsoft 365 mail channel of OpenClaw.\<close>

  \<^bold>\<open>The program.\<close> \<open>extensions/microsoft365/src/channel.ts\<close> is a channel plugin: the
  gateway starts a mail monitor (\<open>gateway.startAccount\<close>) whose \<open>onMail\<close> callback runs
  \<open>handleIncomingMail\<close> for every new message. The handler extracts the sender,
  applies the DM policy (open, pairing, allowlist) against the configured
  \<open>allowFrom\<close> list and the allow-from store filled by pairing approvals, challenges
  unknown senders with a pairing code or drops them, marks admitted mail read, resolves
  the agent route and session, builds the agent envelope, records the session and hands
  the message to the agent, whose reply payloads it delivers as replies to the original
  mail. Approval of a pairing request happens outside the channel; the channel's
  \<open>notifyApproval\<close> hook mails the approved sender. The rest of the plugin object is
  configuration plumbing (account resolution, enabling, deletion, allow-list formatting,
  target normalisation, directory, security warnings, status snapshots);
  \<open>outbound.ts\<close> resolves targets and sends mail for the agent's message tool;
  \<open>extra-params.ts\<close> (and an older copy of it) wraps the model stream function with
  configured parameters; a provider utility decides reasoning-tag providers.

  \<^bold>\<open>The theories.\<close>
  \<^item> \<open>Prelude\<close>: the JavaScript string operations the sources use (trim, toLowerCase,
    startsWith, includes) on HOL strings, exact on ASCII, with their algebra.
  \<^item> \<open>Config\<close>: the channel section (\<open>Microsoft365ConfigSchema\<close>), its place in the
    OpenClaw configuration, the DM policy default, the presence of credentials.
  \<^item> \<open>AllowList\<close>: \<open>resolveAllowFrom\<close>, \<open>formatAllowFrom\<close>, \<open>normalizeAllowEntry\<close>,
    the effective allow list of the handler, \<open>listPeers\<close>; normal forms and
    idempotence.
  \<^item> \<open>Pairing\<close>: the pairing store of the SDK (not among the sources), modelled from the
    specification: idempotent upsert, approval into the allow-from store, injective
    codes, the well-formedness invariant.
  \<^item> \<open>Effects\<close>: the world the handler changes (pairing store, session store, trace of
    effects) and the environment of outcomes (store read, Graph calls, session write,
    clock); projections of the trace (agent inputs, Graph calls, drop records).
  \<^item> \<open>Admission\<close>: the policy decision (admit, challenge, reject) of spec section 4.3.
  \<^item> \<open>Session\<close>: route, previous timestamp, body text, envelope, inbound context and
    session write (lines 428 to 492).
  \<^item> \<open>Dispatch\<close>: the \<open>deliver\<close> and \<open>onError\<close> callbacks and the dispatcher loop;
    ordered, isolated delivery.
  \<^item> \<open>Inbound\<close>: \<open>handleIncomingMail\<close> composed from the parts in source order,
    \<open>notifyApproval\<close>, approval, the monitor's \<open>onMail\<close> callback as the handling
    of a sequence of deliveries (\<open>handle_mails\<close>), and the channel as an inductive
    step relation \<open>m365_step\<close> with its reachable states.
  \<^item> \<open>Orchestrator\<close>: the handler's theorems (the gate in terms of the raw
    configuration and store entries, gate soundness, pairing idempotence,
    open policy, session continuity, failure isolation, the undefined body, and the
    bound on the Graph calls one message causes).
  \<^item> \<open>Plugin\<close>: the plugin object's account operations (\<open>resolveAccount\<close>,
    \<open>setAccountEnabled\<close>, \<open>deleteAccount\<close>, \<open>isConfigured\<close>) over \<open>cfg.channels\<close> as
    an association list, with their round trips, \<open>normalizeTarget\<close> (whose prefix
    branches accept any rest), \<open>collectWarnings\<close>, the status adapters,
    and the gateway (\<open>startAccount\<close>, \<open>onStatusChange\<close>, cleanup) as an inductive
    step relation \<open>gateway_step\<close> over the module-level runtime state, with its
    invariant and the stale webhook state every stop leaves behind.
  \<^item> \<open>Outbound\<close>: \<open>resolveTarget\<close> and \<open>sendText\<close> of \<open>outbound.ts\<close> (the latter
    as a Graph effect on the world) and the runtime slot of \<open>runtime.ts\<close>.
  \<^item> \<open>ExtraParams\<close>: \<open>extra-params.ts\<close> and its earlier version \<open>part_000\<close>, with
    JavaScript objects as association lists and the stream-function closures as a
    datatype whose \<open>invoke\<close> computes the call a wrapper makes; the sanitised stream
    parameters, precedence of caller options and overrides, the options object every
    wrapper passes, the OpenRouter headers, the bound on the wrapper layers added, the
    refinement of the earlier version's cache setting by the current one and their
    equivalence off Anthropic; and \<open>isReasoningTagProvider\<close> of \<open>part_001\<close>
    (modelled, with no property beyond its evaluation on examples).
  \<^item> \<open>Secrets\<close>: the user-secrets types and store version of \<open>part_002\<close> (data only).
  \<^item> this theory: invariants over reachable states of the inbound channel, the
    forward-only admission state of a sender, the normalisation mismatch that strands
    senders, that no sequence of incoming mails changes what the gate admits, and the
    liveness of pairing: the approval step lets a pending sender's next message
    through.

  \<^bold>\<open>Modelling choices.\<close> Asynchronous code that awaits one collaborator at a time is
  explicit state passing; each collaborator outcome that can fail is an input (an
  \<open>io_env\<close>, the monitor's start and stop outcomes, \<open>getMe\<close>), so every theorem
  quantified over them holds for every behaviour of the network. Exceptions caught by
  the code are values (\<open>Some err\<close>) that lead to the logging branch; exceptions that
  propagate are \<open>Inl\<close> or the first component of the result. Strings are byte
  strings: trimming and lower-casing are exact on ASCII only. Timestamps are integers
  (\<open>Date\<close> parsing is an input; NaN from an invalid date is not modelled); JavaScript
  numbers in model parameters are reals. There are no loops with unknown bounds: every
  recursion is structural (on a list, a code counter, or a stream-function term), so no
  fuel is needed. \<open>getMicrosoft365Runtime()\<close> at the start of the handler (line 351)
  is not modelled there: the plugin sets the runtime when it is registered, before
  any mail arrives; the slot itself is modelled in \<open>Outbound\<close>.

  \<^bold>\<open>Not modelled.\<close> The mail monitor and Graph client (\<open>monitor.ts\<close>,
  \<open>graph-client.ts\<close>: network I/O, not among the sources), the agent's reasoning, the
  SDK's buffered block coalescing (the dispatcher delivers payloads as given), the
  debug log lines of \<open>extra-params.ts\<close>, the static plugin metadata (\<open>meta\<close>,
  \<open>capabilities\<close>, \<open>agentPrompt\<close>: data without behaviour), \<open>describeAccount\<close> (a
  field copy), \<open>listAccountIds\<close>, \<open>directory.self\<close> and \<open>listGroups\<close> (constants),
  and the \<open>SecretsConfig\<close> re-export of \<open>part_002\<close> (outside the sources). The
  module-level runtime state is modelled for the single default account the plugin
  lists; its sharing between accounts is recorded as a finding, not modelled.
\<close>

section \<open>Invariants of the channel\<close>

lemma approve_sender_pairing:
  "approve_sender io cfg sid w = Some w' \<Longrightarrow> approve_pairing ''microsoft365'' sid (w_pairing w) = Some (w_pairing w')"
  by (auto simp: approve_sender_def notifyApproval_def split: option.splits)

lemma step_pairing_wf:
  assumes "m365_step cfg acct w w'" and "pairing_wf (w_pairing w)"
  shows "pairing_wf (w_pairing w')"
  using assms(1)
proof cases
  case (inbound io agent msg)
  then show ?thesis
    using assms(2) upsert_preserves_wf by (auto simp: handle_pairing_store split: option.split)
next
  case (approve io sid)
  then show ?thesis
    using assms(2) approve_preserves_wf approve_sender_pairing by blast
qed

text \<open>
  C8. In every reachable state of the channel the pairing store is well formed: at most
  one pending request per sender, no two pending requests with the same code.
\<close>

theorem reachable_pairing_wf:
  "m365_reachable cfg acct w \<Longrightarrow> pairing_wf (w_pairing w)"
proof (induction rule: m365_reachable.induct)
  case start
  then show ?case by (simp add: initial_world_def empty_pairing_store_wf)
next
  case (step w w')
  then show ?case by (blast intro: step_pairing_wf)
qed

theorem reachable_pairing_wf_witness:
  "m365_reachable (example_cfg None) ''default''
     (handleIncomingMail example_io (\<lambda>_. []) (example_cfg None) ''default'' (example_msg ''m1'' ''new@x.com'') initial_world) \<and>
   pairing_wf (w_pairing
     (handleIncomingMail example_io (\<lambda>_. []) (example_cfg None) ''default'' (example_msg ''m1'' ''new@x.com'') initial_world))"
proof -
  have r: "m365_reachable (example_cfg None) ''default''
     (handleIncomingMail example_io (\<lambda>_. []) (example_cfg None) ''default'' (example_msg ''m1'' ''new@x.com'') initial_world)"
    by (rule m365_reachable.step [OF m365_reachable.start m365_step.inbound])
  show ?thesis using r reachable_pairing_wf [OF r] by simp
qed

section \<open>The admission state of a sender\<close>

text \<open>
  The specification's three admission states of a sender (section 3), read from the
  stores: allowed by the allow list the handler builds when the store can be read,
  otherwise pending when a pairing request is on file, otherwise unknown.
\<close>

datatype sender_state = Unknown | PendingPairing | Allowed

fun state_rank :: "sender_state \<Rightarrow> nat" where
  "state_rank Unknown = 0"
| "state_rank PendingPairing = 1"
| "state_rank Allowed = 2"

definition sender_state :: "'p openclaw_config \<Rightarrow> ('c, 'x) world_scheme \<Rightarrow> string \<Rightarrow> sender_state" where
  "sender_state cfg w f =
     (if sender_allowed (effective_allow_from (m365_of cfg) (Some (allow_store (w_pairing w) ''microsoft365''))) f
      then Allowed
      else if find_pending ''microsoft365'' f (w_pairing w) \<noteq> None then PendingPairing else Unknown)"

lemma find_pending_mono:
  "set (pending st) \<subseteq> set (pending st') \<Longrightarrow> find_pending ch f st \<noteq> None \<Longrightarrow> find_pending ch f st' \<noteq> None"
  by (auto simp: find_pending_None)

lemma sender_state_mono:
  assumes "set (allow_store (w_pairing w) ''microsoft365'') \<subseteq> set (allow_store (w_pairing w') ''microsoft365'')"
    and "find_pending ''microsoft365'' f (w_pairing w) \<noteq> None \<Longrightarrow> find_pending ''microsoft365'' f (w_pairing w') \<noteq> None"
  shows "state_rank (sender_state cfg w f) \<le> state_rank (sender_state cfg w' f)"
proof -
  have "set (effective_allow_from (m365_of cfg) (Some (allow_store (w_pairing w) ''microsoft365''))) \<subseteq>
        set (effective_allow_from (m365_of cfg) (Some (allow_store (w_pairing w') ''microsoft365'')))"
    using formatAllowFrom_mono [OF assms(1)] by (auto simp: set_effective_allow_from)
  then have "sender_allowed (effective_allow_from (m365_of cfg) (Some (allow_store (w_pairing w) ''microsoft365''))) f \<Longrightarrow>
        sender_allowed (effective_allow_from (m365_of cfg) (Some (allow_store (w_pairing w') ''microsoft365''))) f"
    using sender_allowed_mono by blast
  then show ?thesis using assms(2) by (auto simp: sender_state_def)
qed

lemma approve_pairing_store:
  assumes "approve_pairing ch sid st = Some st'"
  shows "allow_store st' = (allow_store st)(ch := allow_store st ch @ [sid])"
    and "pending st' = filter (\<lambda>r. \<not> is_request_for ch sid r) (pending st)"
  using assms by (auto simp: approve_pairing_def split: option.splits)

text \<open>
  C9. Admission state only moves forward: for a sender identity in normal form (trimmed,
  lower case, non-empty), no step of the channel (a handled message, an approval) takes
  it from allowed back to pending or unknown, or from pending back to unknown.
\<close>

theorem sender_state_forward:
  assumes "m365_step cfg acct w w'" and "allow_entry_normal f"
  shows "state_rank (sender_state cfg w f) \<le> state_rank (sender_state cfg w' f)"
  using assms(1)
proof cases
  case (inbound io agent msg)
  have "set (pending (w_pairing w)) \<subseteq> set (pending (w_pairing w'))"
    and "allow_store (w_pairing w') = allow_store (w_pairing w)"
    using inbound upsert_pending_mono by (auto simp: handle_pairing_store split: option.split)
  then show ?thesis by (intro sender_state_mono) (simp_all add: find_pending_mono)
next
  case (approve io sid)
  then have ap: "approve_pairing ''microsoft365'' sid (w_pairing w) = Some (w_pairing w')"
    by (rule approve_sender_pairing)
  show ?thesis
  proof (cases "f = sid")
    case True
    have "f \<in> set (formatAllowFrom (allow_store (w_pairing w') ''microsoft365''))"
      using assms(2) True approve_pairing_store(1) [OF ap]
      by (auto simp: set_formatAllowFrom allow_entry_normal_def)
    then have "sender_state cfg w' f = Allowed"
      by (auto simp: sender_state_def sender_allowed_iff set_effective_allow_from)
    then show ?thesis by (cases "sender_state cfg w f") auto
  next
    case False
    then have "find_pending ''microsoft365'' f (w_pairing w) \<noteq> None \<Longrightarrow>
               find_pending ''microsoft365'' f (w_pairing w') \<noteq> None"
      using approve_pairing_store(2) [OF ap]
      by (auto simp: find_pending_None is_request_for_def)
    then show ?thesis
      using approve_pairing_store(1) [OF ap] by (intro sender_state_mono) auto
  qed
qed

theorem sender_state_forward_witness:
  "m365_step (example_cfg None) ''default'' initial_world
     (handleIncomingMail example_io (\<lambda>_. []) (example_cfg None) ''default'' (example_msg ''m1'' ''new@x.com'') initial_world) \<and>
   allow_entry_normal ''new@x.com'' \<and>
   state_rank (sender_state (example_cfg None) (initial_world :: inbound_ctx world) ''new@x.com'') \<le>
   state_rank (sender_state (example_cfg None)
     (handleIncomingMail example_io (\<lambda>_. []) (example_cfg None) ''default'' (example_msg ''m1'' ''new@x.com'') initial_world)
     ''new@x.com'')"
proof -
  have h: "m365_step (example_cfg None) ''default'' initial_world
     (handleIncomingMail example_io (\<lambda>_. []) (example_cfg None) ''default'' (example_msg ''m1'' ''new@x.com'') initial_world)"
    by (rule m365_step.inbound)
  have n: "allow_entry_normal ''new@x.com''"
    by (simp add: allow_entry_normal_def norm_lower_trim_def js_trim_def trim_start_def trim_end_def
        is_js_space_def js_lower_def lower_char_def)
  show ?thesis using h n sender_state_forward [OF h n] by simp
qed

section \<open>Identities that are not in normal form\<close>

text \<open>
  C10. The gate compares the sender's address lower-cased but not trimmed with allow-list
  entries that are trimmed and lower-cased. An address that trimming would change can
  therefore never be admitted under a gated policy, whatever is configured or approved,
  unless the allow list holds the wildcard: approving such a sender through pairing
  does not let it in.
\<close>

theorem unnormalised_sender_never_admitted:
  assumes "from_email msg = Some f" and "norm_lower_trim f \<noteq> f"
    and "resolve_dm_policy (m365_of cfg) \<noteq> Open"
    and "''*'' \<notin> set (read_allow_list io (m365_of cfg) w)"
  shows "\<not> handler_admits io cfg msg w"
proof
  assume "handler_admits io cfg msg w"
  then have "f \<in> set (read_allow_list io (m365_of cfg) w)"
    using assms(1,3,4) by (auto simp: handler_admits_def admission_decision_cases sender_allowed_iff)
  then have "allow_entry_normal f"
    by (auto simp: set_read_allow_list split: if_splits intro: formatAllowFrom_normal)
  with assms(2) show False by (simp add: allow_entry_normal_def)
qed

lemma approve_sender_Some_iff:
  "approve_sender io cfg sid w \<noteq> None \<longleftrightarrow> find_pending ''microsoft365'' sid (w_pairing w) \<noteq> None"
  by (simp add: approve_sender_def approve_pairing_def split: option.split)

lemma approve_sender_allow_store:
  "approve_sender io cfg sid w = Some w' \<Longrightarrow>
   allow_store (w_pairing w') =
     (allow_store (w_pairing w))(''microsoft365'' := allow_store (w_pairing w) ''microsoft365'' @ [sid])"
  by (rule approve_pairing_store(1) [OF approve_sender_pairing])

text \<open>
  At a sender \<open>" new@x.com"\<close> (a leading space) who has filed a pairing request and
  been approved: the next message from the same address is still not admitted.
\<close>

theorem unnormalised_sender_never_admitted_witness:
  "let cfg = example_cfg None; msg = example_msg ''m1'' '' new@x.com'';
       w1 = handleIncomingMail example_io (\<lambda>_. []) cfg ''default'' msg (initial_world :: inbound_ctx world);
       w2 = approve_sender example_io cfg '' new@x.com'' w1
   in w2 \<noteq> None \<and>
      from_email (example_msg ''m2'' '' new@x.com'') = Some '' new@x.com'' \<and>
      norm_lower_trim '' new@x.com'' \<noteq> '' new@x.com'' \<and>
      resolve_dm_policy (m365_of cfg) \<noteq> Open \<and>
      ''*'' \<notin> set (read_allow_list example_io (m365_of cfg) (the w2)) \<and>
      \<not> handler_admits example_io cfg (example_msg ''m2'' '' new@x.com'') (the w2)"
proof -
  let ?cfg = "example_cfg None" and ?msg = "example_msg ''m1'' '' new@x.com''"
  let ?w1 = "handleIncomingMail example_io (\<lambda>_. []) ?cfg ''default'' ?msg (initial_world :: inbound_ctx world)"
  have f1: "from_email ?msg = Some '' new@x.com''"
    "from_email (example_msg ''m2'' '' new@x.com'') = Some '' new@x.com''"
    by (simp_all add: example_eval)
  have dec: "admission_decision (resolve_dm_policy (m365_of ?cfg))
      (read_allow_list example_io (m365_of ?cfg) (initial_world :: inbound_ctx world)) '' new@x.com'' = Challenge"
    by (simp add: example_eval)
  have p1: "w_pairing ?w1 = snd (upsertPairingRequest ''microsoft365'' '' new@x.com'' None (io_now example_io)
      (w_pairing (initial_world :: inbound_ctx world)))"
    using f1 dec by (simp add: handle_pairing_store example_eval)
  then have "find_pending ''microsoft365'' '' new@x.com'' (w_pairing ?w1) \<noteq> None"
    by (simp add: upsert_finds)
  then obtain w2 where w2: "approve_sender example_io ?cfg '' new@x.com'' ?w1 = Some w2"
    using approve_sender_Some_iff by blast
  have st: "allow_store (w_pairing w2) ''microsoft365'' = ['' new@x.com'']"
    using approve_sender_allow_store [OF w2] p1 by (simp add: example_eval)
  have h: "norm_lower_trim '' new@x.com'' \<noteq> '' new@x.com''"
    "resolve_dm_policy (m365_of ?cfg) \<noteq> Open"
    "''*'' \<notin> set (read_allow_list example_io (m365_of ?cfg) w2)"
    using st by (simp_all add: set_read_allow_list example_eval formatAllowFrom_def
        norm_lower_trim_def js_trim_def trim_start_def trim_end_def is_js_space_def)
  show ?thesis
    using w2 f1 h unnormalised_sender_never_admitted [OF f1(2) h] by (simp add: Let_def)
qed

section \<open>Mail alone never admits a sender\<close>


text \<open>
  C36. No sequence of incoming mails changes what the gate admits: whatever messages
  the monitor delivers, and whatever the network and the agent do meanwhile, the
  allow-from store is left as it was, so every message is admitted afterwards exactly
  when it was admitted before. Only the operator's approval lets a sender in.
\<close>

theorem mail_never_self_admits:
  "allow_store (w_pairing (handle_mails cfg acct ds w)) = allow_store (w_pairing w) \<and>
   (handler_admits io cfg msg (handle_mails cfg acct ds w) \<longleftrightarrow> handler_admits io cfg msg w)"
proof -
  have a: "allow_store (w_pairing (handle_mails cfg acct ds w)) = allow_store (w_pairing w)"
    by (rule handle_mails_allow_store)
  have r: "read_allow_list io (m365_of cfg) (handle_mails cfg acct ds w) = read_allow_list io (m365_of cfg) w"
    by (rule read_allow_list_cong) (simp_all add: a)
  show ?thesis unfolding handler_admits_def r using a by simp
qed

section \<open>Approval lets a pending sender in\<close>

text \<open>The world the specification's first message, from \<open>new@x.com\<close> under the pairing policy, leaves.\<close>

lemma scenario_first:
  "handleIncomingMail example_io (\<lambda>_. []) (example_cfg (Some Pairing)) ''default'' (example_msg ''m1'' ''new@x.com'') initial_world =
   \<lparr>w_pairing = \<lparr>pending = [\<lparr>req_channel = ''microsoft365'', req_id = ''new@x.com'', req_code = code_of 0, req_name = None, req_created_at = 1000\<rparr>],
                  allow_store = (\<lambda>_. []), code_counter = 1\<rparr>,
    w_sessions = (\<lambda>_. None),
    w_trace = [Log Info ''Incoming email from new@x.com: Hello'',
               Graph (pairing_reply_call (example_msg ''m1'' ''new@x.com'') ''new@x.com'' (code_of 0)) None,
               InboundDrop ''microsoft365'' ''dmPolicy=pairing'' ''new@x.com'']\<rparr>"
  by (simp add: Let_def handleIncomingMail_def reject_sender_def send_pairing_reply_def graph_attempt_def emit_def
      example_eval upsertPairingRequest_def find_pending_def has_refresh_token_def drop_reason_def dm_policy_str_def)


lemma approved_sender_allowed:
  assumes "approve_sender io cfg f w = Some w'" and "allow_entry_normal f" and "\<not> io_store_read_fails io'"
  shows "f \<in> set (read_allow_list io' (m365_of cfg) w')"
proof -
  have "f \<in> set (formatAllowFrom (allow_store (w_pairing w') ''microsoft365''))"
    using assms(2) approve_sender_allow_store [OF assms(1)]
    by (auto simp: set_formatAllowFrom allow_entry_normal_def)
  then show ?thesis using assms(3) by (simp add: set_read_allow_list)
qed

text \<open>
  C38. Liveness of pairing: from any state in which a sender in normal form has a
  pending pairing request, one step of the channel (the operator's approval) leads to a
  state in which the sender's next message is admitted and reaches the agent, under
  every policy, as long as the allow-from store can be read.
\<close>

theorem approval_admits_pending_sender:
  assumes "find_pending ''microsoft365'' f (w_pairing w) \<noteq> None" and "allow_entry_normal f"
    and "from_email msg = Some f" and "\<not> io_store_read_fails io'"
  shows "\<exists>w'. m365_step cfg acct w w' \<and> handler_admits io' cfg msg w' \<and>
           (\<exists>c. agent_calls (handleIncomingMail io' agent cfg acct msg w') = agent_calls w' @ [c])"
proof -
  obtain w' where ap: "approve_sender io cfg f w = Some w'"
    using assms(1) approve_sender_Some_iff [of io cfg f w] by blast
  have "f \<in> set (read_allow_list io' (m365_of cfg) w')"
    by (rule approved_sender_allowed [OF ap assms(2,4)])
  moreover have "f \<noteq> []" using assms(2) by (simp add: allow_entry_normal_def)
  ultimately have adm: "handler_admits io' cfg msg w'"
    using assms(3) by (auto simp: handler_admits_def admission_decision_def sender_allowed_iff)
  have "m365_step cfg acct w w'" by (rule m365_step.approve [OF ap])
  with adm show ?thesis using admitted_ctx [OF adm assms(3), of agent acct] by blast
qed


theorem approval_admits_pending_sender_witness:
  "\<exists>w'. m365_step (example_cfg (Some Pairing)) ''default''
          (handleIncomingMail example_io (\<lambda>_. []) (example_cfg (Some Pairing)) ''default'' (example_msg ''m1'' ''new@x.com'') initial_world) w' \<and>
        handler_admits example_io (example_cfg (Some Pairing)) (example_msg ''m2'' ''new@x.com'') w'"
proof -
  let ?w1 = "handleIncomingMail example_io (\<lambda>_. []) (example_cfg (Some Pairing)) ''default'' (example_msg ''m1'' ''new@x.com'') initial_world"
  have h1: "find_pending ''microsoft365'' ''new@x.com'' (w_pairing ?w1) \<noteq> None"
    unfolding scenario_first by (simp add: find_pending_def is_request_for_def)
  have h2: "allow_entry_normal ''new@x.com''"
    by (simp add: allow_entry_normal_def norm_lower_trim_def js_trim_def trim_start_def trim_end_def
        is_js_space_def js_lower_def lower_char_def)
  have h3: "from_email (example_msg ''m2'' ''new@x.com'') = Some ''new@x.com''"
    by (simp add: example_eval)
  have h4: "\<not> io_store_read_fails example_io" by (simp add: example_io_def)
  show ?thesis
    using approval_admits_pending_sender [OF h1 h2 h3 h4, of "example_cfg (Some Pairing)" "''default''" "\<lambda>_. []"]
    by blast
qed

end
